theory Spec2Isabelle
  imports Main
begin

unbundle bit_operations_syntax

section \<open>Rock Ridge records of pyiso (src/pyiso/rockridge.py)\<close>

text \<open>
  The module is Python 2: a \<open>str\<close> is a byte string, modelled as \<open>string\<close>
  (one \<open>char\<close> per byte, \<open>of_char\<close> and \<open>char_of\<close> converting to and from the
  byte's number). Integers are unbounded in Python; every integer the module stores is a
  count, a length or an unsigned field read from the volume, modelled as \<open>nat\<close>, and the
  few places where the source can go below zero compute in \<open>int\<close>.
  Every exception the source can raise is a value of \<open>error\<close>; a function that can raise
  returns \<open>error + 'a\<close> with \<open>Inl\<close> for the exception.
\<close>

datatype error =
    PyIsoException string
  | StructError
  | AttributeError
  | IndexError

subsection \<open>Python built-ins used by the module\<close>

text \<open>\<open>s[a:b]\<close> and \<open>s[a:]\<close> for indices that are not negative.\<close>

definition slice :: "string \<Rightarrow> nat \<Rightarrow> nat \<Rightarrow> string" where
  "slice s a b = take (b - a) (drop a s)"

text \<open>\<open>s[:k]\<close> and \<open>s[k:]\<close> for an index that may be negative (it then counts from the end).\<close>

definition slice_to :: "string \<Rightarrow> int \<Rightarrow> string" where
  "slice_to s k = (if k < 0 then take (nat (int (length s) + k)) s else take (nat k) s)"

definition slice_from :: "string \<Rightarrow> int \<Rightarrow> string" where
  "slice_from s k = (if k < 0 then drop (nat (int (length s) + k)) s else drop (nat k) s)"

text \<open>\<open>s.split(c)\<close>: every occurrence of the separator ends a piece; pieces may be empty.\<close>

fun split :: "string \<Rightarrow> char \<Rightarrow> string list" where
  "split [] c = [[]]"
| "split (x # xs) c =
     (if x = c then [] # split xs c
      else (case split xs c of [] \<Rightarrow> [[x]] | w # ws \<Rightarrow> (x # w) # ws))"

text \<open>
  \<open>struct.pack\<close> and \<open>struct.unpack\<close> with the byte order \<open>=\<close> of a little-endian host,
  for the two field codes the module uses: \<open>B\<close> (one byte) and \<open>L\<close> (four bytes).
  A value out of the field's range, or a buffer of the wrong size, raises \<open>struct.error\<close>.
\<close>

definition pack_L :: "nat \<Rightarrow> string" where
  "pack_L n = [char_of n, char_of (n div 256), char_of (n div 65536), char_of (n div 16777216)]"

fun struct_pack :: "string \<Rightarrow> nat list \<Rightarrow> error + string" where
  "struct_pack [] [] = Inr []"
| "struct_pack (f # fs) (v # vs) =
     (if f = CHR ''B'' \<and> v < 256 then
        (case struct_pack fs vs of Inl e \<Rightarrow> Inl e | Inr s \<Rightarrow> Inr (char_of v # s))
      else if f = CHR ''L'' \<and> v < 4294967296 then
        (case struct_pack fs vs of Inl e \<Rightarrow> Inl e | Inr s \<Rightarrow> Inr (pack_L v @ s))
      else Inl StructError)"
| "struct_pack _ _ = Inl StructError"

definition unpack_L :: "string \<Rightarrow> nat" where
  "unpack_L s = of_char (s ! 0) + 256 * of_char (s ! 1) + 65536 * of_char (s ! 2)
                + 16777216 * of_char (s ! 3)"

fun struct_unpack :: "string \<Rightarrow> string \<Rightarrow> error + nat list" where
  "struct_unpack [] s = (if s = [] then Inr [] else Inl StructError)"
| "struct_unpack (f # fs) s =
     (if f = CHR ''B'' \<and> 1 \<le> length s then
        (case struct_unpack fs (drop 1 s) of Inl e \<Rightarrow> Inl e
         | Inr vs \<Rightarrow> Inr (of_char (s ! 0) # vs))
      else if f = CHR ''L'' \<and> 4 \<le> length s then
        (case struct_unpack fs (drop 4 s) of Inl e \<Rightarrow> Inl e
         | Inr vs \<Rightarrow> Inr (unpack_L (take 4 s) # vs))
      else Inl StructError)"

text \<open>
  Modelled from the spec: \<open>swab_32bit\<close> of the module \<open>utils\<close>, which is not part of the
  sources at hand. The spec calls it the byte swap that turns the little-endian value of a
  dual-endian field into its big-endian copy: the four bytes in reverse order.
\<close>

definition swab_32bit :: "nat \<Rightarrow> nat" where
  "swab_32bit n = unpack_L (rev (pack_L n))"

definition SU_ENTRY_VERSION :: nat where
  "SU_ENTRY_VERSION = 1"

subsection \<open>Record codecs\<close>

text \<open>
  Each Python class is a record of its attributes. The source builds every sub-record as
  a fresh object and at once calls \<open>parse\<close> or \<open>new\<close> on it, so \<open>parse\<close> and \<open>new\<close> are
  modelled as the functions that return the initialised object (or the exception), and a
  value of the record type is an initialised object.
\<close>

record RRSPRecord =
  bytes_to_skip :: nat

definition RRSPRecord_length :: nat where
  "RRSPRecord_length = 7"

definition RRSPRecord_parse :: "string \<Rightarrow> error + RRSPRecord" where
  "RRSPRecord_parse rrstr =
     (case struct_unpack ''BBBBB'' (slice rrstr 2 7) of
        Inl e \<Rightarrow> Inl e
      | Inr vs \<Rightarrow>
          (let su_len = vs ! 0; check_byte1 = vs ! 2; check_byte2 = vs ! 3 in
           if su_len \<noteq> RRSPRecord_length then
             Inl (PyIsoException ''Invalid length on rock ridge extension'')
           else if check_byte1 \<noteq> 0xbe \<or> check_byte2 \<noteq> 0xef then
             Inl (PyIsoException ''Invalid check bytes on rock ridge extension'')
           else Inr \<lparr>bytes_to_skip = vs ! 4\<rparr>))"

definition RRSPRecord_new :: RRSPRecord where
  "RRSPRecord_new = \<lparr>bytes_to_skip = 0\<rparr>"

definition RRSPRecord_record :: "RRSPRecord \<Rightarrow> error + string" where
  "RRSPRecord_record r =
     (case struct_pack ''BBBBB'' [RRSPRecord_length, SU_ENTRY_VERSION, 0xbe, 0xef, bytes_to_skip r] of
        Inl e \<Rightarrow> Inl e
      | Inr s \<Rightarrow> Inr (''SP'' @ s))"


record RRRRRecord =
  rr_flags :: nat

definition RRRRRecord_length :: nat where
  "RRRRRecord_length = 5"

definition RRRRRecord_parse :: "string \<Rightarrow> error + RRRRRecord" where
  "RRRRRecord_parse rrstr =
     (case struct_unpack ''BBB'' (slice rrstr 2 5) of
        Inl e \<Rightarrow> Inl e
      | Inr vs \<Rightarrow>
          (let su_len = vs ! 0 in
           if su_len \<noteq> RRRRRecord_length then
             Inl (PyIsoException ''Invalid length on rock ridge extension'')
           else Inr \<lparr>rr_flags = vs ! 2\<rparr>))"

definition RRRRRecord_new :: RRRRRecord where
  "RRRRRecord_new = \<lparr>rr_flags = 0\<rparr>"

definition RRRRRecord_append_field :: "RRRRRecord \<Rightarrow> string \<Rightarrow> error + RRRRRecord" where
  "RRRRRecord_append_field r fieldname =
     (if fieldname = ''PX'' then Inr (r\<lparr>rr_flags := rr_flags r OR push_bit 0 1\<rparr>)
      else if fieldname = ''PN'' then Inr (r\<lparr>rr_flags := rr_flags r OR push_bit 1 1\<rparr>)
      else if fieldname = ''SL'' then Inr (r\<lparr>rr_flags := rr_flags r OR push_bit 2 1\<rparr>)
      else if fieldname = ''NM'' then Inr (r\<lparr>rr_flags := rr_flags r OR push_bit 3 1\<rparr>)
      else if fieldname = ''CL'' then Inr (r\<lparr>rr_flags := rr_flags r OR push_bit 4 1\<rparr>)
      else if fieldname = ''PL'' then Inr (r\<lparr>rr_flags := rr_flags r OR push_bit 5 1\<rparr>)
      else if fieldname = ''RE'' then Inr (r\<lparr>rr_flags := rr_flags r OR push_bit 6 1\<rparr>)
      else if fieldname = ''TF'' then Inr (r\<lparr>rr_flags := rr_flags r OR push_bit 7 1\<rparr>)
      else Inl (PyIsoException ''Unknown RR field name''))"

definition RRRRRecord_record :: "RRRRRecord \<Rightarrow> error + string" where
  "RRRRRecord_record r =
     (case struct_pack ''BBB'' [RRRRRecord_length, SU_ENTRY_VERSION, rr_flags r] of
        Inl e \<Rightarrow> Inl e
      | Inr s \<Rightarrow> Inr (''RR'' @ s))"

record RRPXRecord =
  posix_file_mode :: nat
  posix_file_links :: nat
  posix_user_id :: nat
  posix_group_id :: nat
  posix_serial_number :: nat

text \<open>\<open>length\<close> and \<open>record\<close> take \<open>rr_version\<close> with the default \<open>"1.09"\<close>; a call that
  leaves the argument out is modelled by passing \<open>''1.09''\<close>.\<close>

definition RRPXRecord_length :: "string \<Rightarrow> nat" where
  "RRPXRecord_length rr_version = (if rr_version = ''1.09'' then 36 else 44)"

definition RRPXRecord_parse :: "string \<Rightarrow> error + RRPXRecord" where
  "RRPXRecord_parse rrstr =
     (case struct_unpack ''BB'' (slice rrstr 2 4) of
        Inl e \<Rightarrow> Inl e
      | Inr hv \<Rightarrow>
          (let su_len = hv ! 0 in
           if su_len = 36 then
             (case struct_unpack ''LLLLLLLL'' (slice rrstr 4 36) of
                Inl e \<Rightarrow> Inl e
              | Inr vs \<Rightarrow>
                  Inr \<lparr>posix_file_mode = vs ! 0, posix_file_links = vs ! 2,
                       posix_user_id = vs ! 4, posix_group_id = vs ! 6,
                       posix_serial_number = 0\<rparr>)
           else if su_len = 44 then
             (case struct_unpack ''LLLLLLLLLL'' (slice rrstr 4 44) of
                Inl e \<Rightarrow> Inl e
              | Inr vs \<Rightarrow>
                  Inr \<lparr>posix_file_mode = vs ! 0, posix_file_links = vs ! 2,
                       posix_user_id = vs ! 4, posix_group_id = vs ! 6,
                       posix_serial_number = vs ! 8\<rparr>)
           else Inl (PyIsoException ''Invalid length on rock ridge extension'')))"

text \<open>The three modes are the octal literals \<open>040555\<close>, \<open>0120555\<close> and \<open>0100444\<close>.\<close>

definition RRPXRecord_new :: "bool \<Rightarrow> string option \<Rightarrow> RRPXRecord" where
  "RRPXRecord_new isdir symlink_path =
     \<lparr>posix_file_mode =
        (if isdir then 16749 else if symlink_path \<noteq> None then 41325 else 33060),
      posix_file_links = 1, posix_user_id = 0, posix_group_id = 0,
      posix_serial_number = 0\<rparr>"

definition RRPXRecord_record :: "RRPXRecord \<Rightarrow> string \<Rightarrow> error + string" where
  "RRPXRecord_record r rr_version =
     (case struct_pack ''BBLLLLLLLL''
             [RRPXRecord_length ''1.09'', SU_ENTRY_VERSION,
              posix_file_mode r, swab_32bit (posix_file_mode r),
              posix_file_links r, swab_32bit (posix_file_links r),
              posix_user_id r, swab_32bit (posix_user_id r),
              posix_group_id r, swab_32bit (posix_group_id r)] of
        Inl e \<Rightarrow> Inl e
      | Inr s \<Rightarrow>
          (if rr_version \<noteq> ''1.09'' then
             (case struct_pack ''LL'' [posix_serial_number r, swab_32bit (posix_serial_number r)] of
                Inl e \<Rightarrow> Inl e
              | Inr t \<Rightarrow> Inr (''PX'' @ s @ t))
           else Inr (''PX'' @ s)))"

record RRERRecord =
  ext_id :: string
  ext_des :: string
  ext_src :: string

definition RRERRecord_length :: "string \<Rightarrow> string \<Rightarrow> string \<Rightarrow> nat" where
  "RRERRecord_length eid edes esrc = 8 + length eid + length edes + length esrc"

definition RRERRecord_parse :: "string \<Rightarrow> error + RRERRecord" where
  "RRERRecord_parse rrstr =
     (case struct_unpack ''BBBBBB'' (slice rrstr 2 8) of
        Inl e \<Rightarrow> Inl e
      | Inr vs \<Rightarrow>
          (let len_id = vs ! 2; len_des = vs ! 3; len_src = vs ! 4;
               tmp = 8;
               eid = slice rrstr tmp (tmp + len_id);
               tmp = tmp + len_id;
               edes = (if len_des > 0 then slice rrstr tmp (tmp + len_des) else []);
               tmp = (if len_des > 0 then tmp + len_des else tmp);
               esrc = slice rrstr tmp (tmp + len_src)
           in Inr \<lparr>ext_id = eid, ext_des = edes, ext_src = esrc\<rparr>))"

definition RRERRecord_new :: "string \<Rightarrow> string \<Rightarrow> string \<Rightarrow> RRERRecord" where
  "RRERRecord_new eid edes esrc = \<lparr>ext_id = eid, ext_des = edes, ext_src = esrc\<rparr>"

definition RRERRecord_record :: "RRERRecord \<Rightarrow> error + string" where
  "RRERRecord_record r =
     (case struct_pack ''BBBBBB''
             [RRERRecord_length (ext_id r) (ext_des r) (ext_src r), SU_ENTRY_VERSION,
              length (ext_id r), length (ext_des r), length (ext_src r), 1] of
        Inl e \<Rightarrow> Inl e
      | Inr s \<Rightarrow> Inr (''ER'' @ s @ ext_id r @ ext_des r @ ext_src r))"

record RRESRecord =
  extension_sequence :: nat

definition RRESRecord_length :: nat where
  "RRESRecord_length = 5"

definition RRESRecord_parse :: "string \<Rightarrow> error + RRESRecord" where
  "RRESRecord_parse rrstr =
     (case struct_unpack ''BBB'' (slice rrstr 2 5) of
        Inl e \<Rightarrow> Inl e
      | Inr vs \<Rightarrow>
          (let su_len = vs ! 0 in
           if su_len \<noteq> RRESRecord_length then
             Inl (PyIsoException ''Invalid length on rock ridge extension'')
           else Inr \<lparr>extension_sequence = vs ! 2\<rparr>))"

definition RRESRecord_record :: "RRESRecord \<Rightarrow> error + string" where
  "RRESRecord_record r =
     (case struct_pack ''BBB'' [RRESRecord_length, SU_ENTRY_VERSION, extension_sequence r] of
        Inl e \<Rightarrow> Inl e
      | Inr s \<Rightarrow> Inr (''ES'' @ s))"

record RRPNRecord =
  dev_t_high :: nat
  dev_t_low :: nat

definition RRPNRecord_length :: nat where
  "RRPNRecord_length = 20"

definition RRPNRecord_parse :: "string \<Rightarrow> error + RRPNRecord" where
  "RRPNRecord_parse rrstr =
     (case struct_unpack ''BBLLLL'' (slice rrstr 2 20) of
        Inl e \<Rightarrow> Inl e
      | Inr vs \<Rightarrow>
          (let su_len = vs ! 0; dev_t_high_le = vs ! 2; dev_t_low_le = vs ! 4 in
           if su_len \<noteq> RRPNRecord_length then
             Inl (PyIsoException ''Invalid length on rock ridge extension'')
           else Inr \<lparr>dev_t_high = dev_t_high_le, dev_t_low = dev_t_low_le\<rparr>))"

definition RRPNRecord_record :: "RRPNRecord \<Rightarrow> error + string" where
  "RRPNRecord_record r =
     (case struct_pack ''BBLLLL''
             [RRPNRecord_length, SU_ENTRY_VERSION, dev_t_high r, swab_32bit (dev_t_high r),
              dev_t_low r, swab_32bit (dev_t_low r)] of
        Inl e \<Rightarrow> Inl e
      | Inr s \<Rightarrow> Inr (''PN'' @ s))"

record RRSLRecord =
  symlink_components :: "string list"
  flags :: nat

definition RRSLRecord_component_length :: "string \<Rightarrow> nat" where
  "RRSLRecord_component_length symlink_component =
     (if symlink_component \<notin> set [''.'', ''..'', ''/''] then 2 + length symlink_component else 2)"

fun RRSLRecord_length :: "string list \<Rightarrow> nat" where
  "RRSLRecord_length [] = 5"
| "RRSLRecord_length (component # comps) = RRSLRecord_component_length component + RRSLRecord_length comps"

text \<open>
  The component loop of \<open>RRSLRecord.parse\<close>. \<open>data_len\<close> is \<open>su_len - 5\<close> and may be
  negative, so it is an \<open>int\<close>; each round takes at least the two header bytes off it.
  \<open>cr_flags & (1 << i)\<close> is read as a truth value, that is, bit \<open>i\<close> of the flags.
\<close>

function RRSLRecord_parse_loop ::
  "string \<Rightarrow> nat \<Rightarrow> string \<Rightarrow> int \<Rightarrow> string list \<Rightarrow> error + string list" where
  "RRSLRecord_parse_loop rrstr cr_offset name data_len comps =
     (if data_len > 0 then
        (case struct_unpack ''BB'' (slice rrstr cr_offset (cr_offset + 2)) of
           Inl e \<Rightarrow> Inl e
         | Inr vs \<Rightarrow>
             (if vs ! 0 \<notin> set [0, 1, 2, 4, 8] then
                Inl (PyIsoException ''Invalid Rock Ridge symlink flags'')
              else if (bit (vs ! 0) 1 \<or> bit (vs ! 0) 2 \<or> bit (vs ! 0) 3) \<and> vs ! 1 \<noteq> 0 then
                Inl (PyIsoException ''Rock Ridge symlinks to dot or dotdot should have zero length'')
              else if (bit (vs ! 0) 1 \<or> bit (vs ! 0) 2 \<or> bit (vs ! 0) 3) \<and> name \<noteq> [] then
                Inl (PyIsoException ''Cannot have RockRidge symlink that is both a continuation and dot or dotdot'')
              else
                RRSLRecord_parse_loop rrstr (cr_offset + 2 + vs ! 1)
                  (if \<not> bit (vs ! 0) 0 then []
                   else if bit (vs ! 0) 1 then name @ ''.''
                   else if bit (vs ! 0) 2 then name @ ''..''
                   else if bit (vs ! 0) 3 then name @ ''/''
                   else name @ slice rrstr (cr_offset + 2) (cr_offset + 2 + vs ! 1))
                  (data_len - 2 - int (vs ! 1))
                  (if \<not> bit (vs ! 0) 0 then
                     comps @ [if bit (vs ! 0) 1 then name @ ''.''
                              else if bit (vs ! 0) 2 then name @ ''..''
                              else if bit (vs ! 0) 3 then name @ ''/''
                              else name @ slice rrstr (cr_offset + 2) (cr_offset + 2 + vs ! 1)]
                   else comps)))
      else Inr comps)"
  by pat_completeness auto
termination
  by (relation "measure (\<lambda>(rrstr, cr_offset, name, data_len, comps). nat data_len)") auto

definition RRSLRecord_parse :: "string \<Rightarrow> error + RRSLRecord" where
  "RRSLRecord_parse rrstr =
     (case struct_unpack ''BBB'' (slice rrstr 2 5) of
        Inl e \<Rightarrow> Inl e
      | Inr vs \<Rightarrow>
          (let su_len = vs ! 0 in
           case RRSLRecord_parse_loop rrstr 5 [] (int su_len - 5) [] of
             Inl e \<Rightarrow> Inl e
           | Inr comps \<Rightarrow> Inr \<lparr>symlink_components = comps, flags = vs ! 2\<rparr>))"

definition RRSLRecord_new :: "string option \<Rightarrow> RRSLRecord" where
  "RRSLRecord_new symlink_path =
     \<lparr>symlink_components = (case symlink_path of None \<Rightarrow> [] | Some p \<Rightarrow> split p CHR ''/''),
      flags = 0\<rparr>"

definition RRSLRecord_current_length :: "RRSLRecord \<Rightarrow> nat" where
  "RRSLRecord_current_length r = RRSLRecord_length (symlink_components r)"

definition RRSLRecord_add_component :: "RRSLRecord \<Rightarrow> string \<Rightarrow> error + RRSLRecord" where
  "RRSLRecord_add_component r symlink_comp =
     (if RRSLRecord_current_length r + 2 + length symlink_comp > 255 then
        Inl (PyIsoException ''Symlink would be longer than 255'')
      else Inr (r\<lparr>symlink_components := symlink_components r @ [symlink_comp]\<rparr>))"

text \<open>\<open>__str__\<close>: every component followed by a slash unless it is the slash itself, and the
  last character of the result dropped.\<close>

fun RRSLRecord_str_loop :: "string list \<Rightarrow> string" where
  "RRSLRecord_str_loop [] = []"
| "RRSLRecord_str_loop (component # comps) =
     (if component \<noteq> ''/'' then component @ ''/'' @ RRSLRecord_str_loop comps
      else component @ RRSLRecord_str_loop comps)"

definition RRSLRecord_str :: "RRSLRecord \<Rightarrow> string" where
  "RRSLRecord_str r = butlast (RRSLRecord_str_loop (symlink_components r))"

fun RRSLRecord_record_loop :: "string list \<Rightarrow> error + string" where
  "RRSLRecord_record_loop [] = Inr []"
| "RRSLRecord_record_loop (component # comps) =
     (case (if component = ''.'' then struct_pack ''BB'' [push_bit 1 1, 0]
            else if component = ''..'' then struct_pack ''BB'' [push_bit 2 1, 0]
            else if component = ''/'' then struct_pack ''BB'' [push_bit 3 1, 0]
            else (case struct_pack ''BB'' [0, length component] of
                    Inl e \<Rightarrow> Inl e | Inr s \<Rightarrow> Inr (s @ component))) of
        Inl e \<Rightarrow> Inl e
      | Inr s \<Rightarrow>
          (case RRSLRecord_record_loop comps of Inl e \<Rightarrow> Inl e | Inr t \<Rightarrow> Inr (s @ t)))"

definition RRSLRecord_record :: "RRSLRecord \<Rightarrow> error + string" where
  "RRSLRecord_record r =
     (case struct_pack ''BBB'' [RRSLRecord_length (symlink_components r), SU_ENTRY_VERSION, flags r] of
        Inl e \<Rightarrow> Inl e
      | Inr s \<Rightarrow>
          (case RRSLRecord_record_loop (symlink_components r) of
             Inl e \<Rightarrow> Inl e
           | Inr t \<Rightarrow> Inr (''SL'' @ s @ t)))"

record RRNMRecord =
  posix_name_flags :: nat
  posix_name :: string

definition RRNMRecord_length :: "string \<Rightarrow> nat" where
  "RRNMRecord_length rr_name = 5 + length rr_name"

text \<open>\<open>name_len = su_len - 5\<close> may be negative; \<open>rrstr[5:5+name_len]\<close> is \<open>rrstr[5:su_len]\<close>,
  empty when \<open>su_len\<close> is below 5.\<close>

definition RRNMRecord_parse :: "string \<Rightarrow> error + RRNMRecord" where
  "RRNMRecord_parse rrstr =
     (case struct_unpack ''BBB'' (slice rrstr 2 5) of
        Inl e \<Rightarrow> Inl e
      | Inr vs \<Rightarrow>
          (let su_len = vs ! 0; name_flags = vs ! 2; name_len = int su_len - 5 in
           if (name_flags AND 7) \<notin> set [0, 1, 2, 4] then
             Inl (PyIsoException ''Invalid Rock Ridge NM flags'')
           else if name_len \<noteq> 0 then
             (if bit name_flags 1 \<or> bit name_flags 2 \<or> bit name_flags 5 then
                Inl (PyIsoException ''Invalid name in Rock Ridge NM entry'')
              else Inr \<lparr>posix_name_flags = name_flags, posix_name = slice rrstr 5 su_len\<rparr>)
           else Inr \<lparr>posix_name_flags = name_flags, posix_name = []\<rparr>))"

definition RRNMRecord_new :: "string \<Rightarrow> RRNMRecord" where
  "RRNMRecord_new rr_name = \<lparr>posix_name_flags = 0, posix_name = rr_name\<rparr>"

definition RRNMRecord_record :: "RRNMRecord \<Rightarrow> error + string" where
  "RRNMRecord_record r =
     (case struct_pack ''BBB'' [RRNMRecord_length (posix_name r), SU_ENTRY_VERSION, posix_name_flags r] of
        Inl e \<Rightarrow> Inl e
      | Inr s \<Rightarrow> Inr (''NM'' @ s @ posix_name r))"

definition RRNMRecord_set_continued :: "RRNMRecord \<Rightarrow> RRNMRecord" where
  "RRNMRecord_set_continued r = r\<lparr>posix_name_flags := posix_name_flags r OR push_bit 0 1\<rparr>"

record RRCLRecord =
  child_log_block_num :: nat

definition RRCLRecord_length :: nat where
  "RRCLRecord_length = 12"

definition RRCLRecord_parse :: "string \<Rightarrow> error + RRCLRecord" where
  "RRCLRecord_parse rrstr =
     (case struct_unpack ''BBLL'' (slice rrstr 2 12) of
        Inl e \<Rightarrow> Inl e
      | Inr vs \<Rightarrow>
          (let su_len = vs ! 0; child_log_block_num_le = vs ! 2; child_log_block_num_be = vs ! 3 in
           if su_len \<noteq> RRCLRecord_length then
             Inl (PyIsoException ''Invalid length on rock ridge extension'')
           else if child_log_block_num_le \<noteq> swab_32bit child_log_block_num_be then
             Inl (PyIsoException ''Little endian block num does not equal big endian; corrupt ISO'')
           else Inr \<lparr>child_log_block_num = child_log_block_num_le\<rparr>))"

text \<open>The source marks the initial block number with \<open># FIXME: this isn't right\<close>.\<close>

definition RRCLRecord_new :: RRCLRecord where
  "RRCLRecord_new = \<lparr>child_log_block_num = 0\<rparr>"

definition RRCLRecord_record :: "RRCLRecord \<Rightarrow> error + string" where
  "RRCLRecord_record r =
     (case struct_pack ''BBLL''
             [RRCLRecord_length, SU_ENTRY_VERSION, child_log_block_num r,
              swab_32bit (child_log_block_num r)] of
        Inl e \<Rightarrow> Inl e
      | Inr s \<Rightarrow> Inr (''CL'' @ s))"

definition RRCLRecord_set_log_block_num :: "RRCLRecord \<Rightarrow> nat \<Rightarrow> RRCLRecord" where
  "RRCLRecord_set_log_block_num r bl = r\<lparr>child_log_block_num := bl\<rparr>"

record RRPLRecord =
  parent_log_block_num :: nat

definition RRPLRecord_length :: nat where
  "RRPLRecord_length = 12"

definition RRPLRecord_parse :: "string \<Rightarrow> error + RRPLRecord" where
  "RRPLRecord_parse rrstr =
     (case struct_unpack ''BBLL'' (slice rrstr 2 12) of
        Inl e \<Rightarrow> Inl e
      | Inr vs \<Rightarrow>
          (let su_len = vs ! 0; parent_log_block_num_le = vs ! 2; parent_log_block_num_be = vs ! 3 in
           if su_len \<noteq> RRPLRecord_length then
             Inl (PyIsoException ''Invalid length on rock ridge extension'')
           else if parent_log_block_num_le \<noteq> swab_32bit parent_log_block_num_be then
             Inl (PyIsoException ''Little endian block num does not equal big endian; corrupt ISO'')
           else Inr \<lparr>parent_log_block_num = parent_log_block_num_le\<rparr>))"

definition RRPLRecord_new :: RRPLRecord where
  "RRPLRecord_new = \<lparr>parent_log_block_num = 0\<rparr>"

definition RRPLRecord_record :: "RRPLRecord \<Rightarrow> error + string" where
  "RRPLRecord_record r =
     (case struct_pack ''BBLL''
             [RRPLRecord_length, SU_ENTRY_VERSION, parent_log_block_num r,
              swab_32bit (parent_log_block_num r)] of
        Inl e \<Rightarrow> Inl e
      | Inr s \<Rightarrow> Inr (''PL'' @ s))"

definition RRPLRecord_set_log_block_num :: "RRPLRecord \<Rightarrow> nat \<Rightarrow> RRPLRecord" where
  "RRPLRecord_set_log_block_num r bl = r\<lparr>parent_log_block_num := bl\<rparr>"

text \<open>
  Modelled from the spec: the date codec of the module \<open>dates\<close>, which is not part of the
  sources at hand. The spec gives it two binary forms, the 7-byte directory-record date and
  the 17-byte volume-descriptor date, with a decoder and an encoder; the content of a date
  is opaque to this module, so a date is kept as its form and its bytes. \<open>new()\<close> reads the
  clock, which is the parameter \<open>clock\<close> here.
\<close>

datatype datetype = DirectoryRecordDate | VolumeDescriptorDate

record date =
  date_type :: datetype
  date_bytes :: string

definition date_length :: "datetype \<Rightarrow> nat" where
  "date_length dt = (case dt of DirectoryRecordDate \<Rightarrow> 7 | VolumeDescriptorDate \<Rightarrow> 17)"

definition date_parse :: "datetype \<Rightarrow> string \<Rightarrow> error + date" where
  "date_parse dt s =
     (if length s = date_length dt then Inr \<lparr>date_type = dt, date_bytes = s\<rparr>
      else Inl StructError)"

definition date_new :: "(datetype \<Rightarrow> string) \<Rightarrow> datetype \<Rightarrow> date" where
  "date_new clock dt = \<lparr>date_type = dt, date_bytes = clock dt\<rparr>"

definition date_record :: "date \<Rightarrow> string" where
  "date_record d = date_bytes d"

record RRTFRecord =
  creation_time :: "date option"
  access_time :: "date option"
  modification_time :: "date option"
  attribute_change_time :: "date option"
  backup_time :: "date option"
  expiration_time :: "date option"
  effective_time :: "date option"
  time_flags :: nat

definition RRTFRecord_length :: "nat \<Rightarrow> nat" where
  "RRTFRecord_length tflags =
     (let tf_each_size = (if bit tflags 7 then 17 else 7);
          tf_num = length (filter (bit tflags) [0..<7])
      in 5 + tf_each_size * tf_num)"

text \<open>The seven \<open>if self.time_flags & (1 << i)\<close> blocks of \<open>parse\<close>, for \<open>i\<close> from 0 to 6:
  each present time is read at \<open>tmp\<close>, which then moves on by \<open>tflen\<close>.\<close>

fun RRTFRecord_parse_times ::
  "nat \<Rightarrow> string \<Rightarrow> nat list \<Rightarrow> nat \<Rightarrow> error + date option list" where
  "RRTFRecord_parse_times tflags rrstr [] tmp = Inr []"
| "RRTFRecord_parse_times tflags rrstr (i # rest) tmp =
     (let tflen = (if bit tflags 7 then 17 else 7);
          dt = (if bit tflags 7 then VolumeDescriptorDate else DirectoryRecordDate)
      in if bit tflags i then
           (case date_parse dt (slice rrstr tmp (tmp + tflen)) of
              Inl e \<Rightarrow> Inl e
            | Inr d \<Rightarrow>
                (case RRTFRecord_parse_times tflags rrstr rest (tmp + tflen) of
                   Inl e \<Rightarrow> Inl e
                 | Inr ds \<Rightarrow> Inr (Some d # ds)))
         else
           (case RRTFRecord_parse_times tflags rrstr rest tmp of
              Inl e \<Rightarrow> Inl e
            | Inr ds \<Rightarrow> Inr (None # ds)))"

definition RRTFRecord_parse :: "string \<Rightarrow> error + RRTFRecord" where
  "RRTFRecord_parse rrstr =
     (case struct_unpack ''BBB'' (slice rrstr 2 5) of
        Inl e \<Rightarrow> Inl e
      | Inr vs \<Rightarrow>
          (let su_len = vs ! 0; tflags = vs ! 2 in
           if su_len < 5 then Inl (PyIsoException ''Not enough bytes in the TF record'')
           else
             (case RRTFRecord_parse_times tflags rrstr [0, 1, 2, 3, 4, 5, 6] 5 of
                Inl e \<Rightarrow> Inl e
              | Inr ds \<Rightarrow>
                  Inr \<lparr>creation_time = ds ! 0, access_time = ds ! 1,
                       modification_time = ds ! 2, attribute_change_time = ds ! 3,
                       backup_time = ds ! 4, expiration_time = ds ! 5,
                       effective_time = ds ! 6, time_flags = tflags\<rparr>)))"

definition RRTFRecord_new :: "nat \<Rightarrow> (datetype \<Rightarrow> string) \<Rightarrow> RRTFRecord" where
  "RRTFRecord_new tflags clock =
     (let dt = (if bit tflags 7 then VolumeDescriptorDate else DirectoryRecordDate);
          t = (\<lambda>i. if bit tflags i then Some (date_new clock dt) else None)
      in \<lparr>creation_time = t 0, access_time = t 1, modification_time = t 2,
          attribute_change_time = t 3, backup_time = t 4, expiration_time = t 5,
          effective_time = t 6, time_flags = tflags\<rparr>)"

definition RRTFRecord_record :: "RRTFRecord \<Rightarrow> error + string" where
  "RRTFRecord_record r =
     (case struct_pack ''BBB'' [RRTFRecord_length (time_flags r), SU_ENTRY_VERSION, time_flags r] of
        Inl e \<Rightarrow> Inl e
      | Inr s \<Rightarrow>
          (let t = (\<lambda>d. case d of None \<Rightarrow> [] | Some x \<Rightarrow> date_record x)
           in Inr (''TF'' @ s @ t (creation_time r) @ t (access_time r) @ t (modification_time r)
                   @ t (attribute_change_time r) @ t (backup_time r) @ t (expiration_time r)
                   @ t (effective_time r))))"

record RRSFRecord =
  virtual_file_size_high :: nat
  virtual_file_size_low :: nat
  table_depth :: nat

definition RRSFRecord_length :: nat where
  "RRSFRecord_length = 21"

definition RRSFRecord_parse :: "string \<Rightarrow> error + RRSFRecord" where
  "RRSFRecord_parse rrstr =
     (case struct_unpack ''BBLLLLB'' (slice rrstr 2 21) of
        Inl e \<Rightarrow> Inl e
      | Inr vs \<Rightarrow>
          (let su_len = vs ! 0; virtual_file_size_high_le = vs ! 2;
               virtual_file_size_low_le = vs ! 4 in
           if su_len \<noteq> RRSFRecord_length then
             Inl (PyIsoException ''Invalid length on rock ridge extension'')
           else Inr \<lparr>virtual_file_size_high = virtual_file_size_high_le,
                     virtual_file_size_low = virtual_file_size_low_le,
                     table_depth = vs ! 6\<rparr>))"

definition RRSFRecord_record :: "RRSFRecord \<Rightarrow> error + string" where
  "RRSFRecord_record r =
     (case struct_pack ''BBLLLLB''
             [RRSFRecord_length, SU_ENTRY_VERSION,
              virtual_file_size_high r, swab_32bit (virtual_file_size_high r),
              virtual_file_size_low r, swab_32bit (virtual_file_size_low r), table_depth r] of
        Inl e \<Rightarrow> Inl e
      | Inr s \<Rightarrow> Inr (''SF'' @ s))"

text \<open>The relocated-directory record has no attribute besides \<open>initialized\<close>.\<close>

datatype RRRERecord = RRRERecord

definition RRRERecord_length :: nat where
  "RRRERecord_length = 4"

definition RRRERecord_parse :: "string \<Rightarrow> error + RRRERecord" where
  "RRRERecord_parse rrstr =
     (case struct_unpack ''BB'' (slice rrstr 2 4) of
        Inl e \<Rightarrow> Inl e
      | Inr vs \<Rightarrow>
          (let su_len = vs ! 0 in
           if su_len \<noteq> 4 then Inl (PyIsoException ''Invalid length on rock ridge extension'')
           else Inr RRRERecord))"

definition RRRERecord_new :: RRRERecord where
  "RRRERecord_new = RRRERecord"

definition RRRERecord_record :: "RRRERecord \<Rightarrow> error + string" where
  "RRRERecord_record r =
     (case struct_pack ''BB'' [RRRERecord_length, SU_ENTRY_VERSION] of
        Inl e \<Rightarrow> Inl e
      | Inr s \<Rightarrow> Inr (''RE'' @ s))"

subsection \<open>The entry and its continuation\<close>

text \<open>
  \<open>RockRidgeBase\<close> holds one optional slot for each kind of record and the list of SL
  records. The slot \<open>ce_record\<close> holds a CE record, which owns a continuation, which is
  again a \<open>RockRidgeBase\<close>; the type parameter \<open>'ce\<close> is the type of that slot, so that the
  nesting is written level by level. \<open>child_link\<close> and \<open>parent_link\<close> refer to directory
  records of the caller; the module only ever calls \<open>extent_location()\<close> on them, so each is
  kept as the extent location its directory record reports. The attributes
  \<open>bytes_to_skip\<close> and \<open>su_entry_version\<close> of the entry are written and never read in the
  module, and are left out.
\<close>

record 'ce RockRidgeBase =
  sp_record :: "RRSPRecord option"
  rr_record :: "RRRRRecord option"
  ce_record :: "'ce option"
  px_record :: "RRPXRecord option"
  er_record :: "RRERRecord option"
  es_record :: "RRESRecord option"
  pn_record :: "RRPNRecord option"
  sl_records :: "RRSLRecord list"
  nm_record :: "RRNMRecord option"
  cl_record :: "RRCLRecord option"
  pl_record :: "RRPLRecord option"
  tf_record :: "RRTFRecord option"
  sf_record :: "RRSFRecord option"
  re_record :: "RRRERecord option"
  child_link :: "nat option"
  parent_link :: "nat option"
  initialized :: bool

record 'ce RockRidgeContinuation = "'ce RockRidgeBase" +
  orig_extent_loc :: "nat option"
  new_extent_loc :: "nat option"
  continue_offset :: nat
  continue_length :: nat

text \<open>\<open>RockRidgeBase.__init__\<close> and \<open>RockRidgeContinuation.__init__\<close>.\<close>

definition RockRidgeBase_init :: "'ce RockRidgeBase" where
  "RockRidgeBase_init =
     \<lparr>sp_record = None, rr_record = None, ce_record = None, px_record = None,
      er_record = None, es_record = None, pn_record = None, sl_records = [],
      nm_record = None, cl_record = None, pl_record = None, tf_record = None,
      sf_record = None, re_record = None, child_link = None, parent_link = None,
      initialized = False\<rparr>"

definition RockRidgeContinuation_init :: "'ce RockRidgeContinuation" where
  "RockRidgeContinuation_init =
     \<lparr>sp_record = None, rr_record = None, ce_record = None, px_record = None,
      er_record = None, es_record = None, pn_record = None, sl_records = [],
      nm_record = None, cl_record = None, pl_record = None, tf_record = None,
      sf_record = None, re_record = None, child_link = None, parent_link = None,
      initialized = True,
      orig_extent_loc = None, new_extent_loc = None, continue_offset = 0,
      continue_length = 0\<rparr>"

definition RockRidgeContinuation_extent_location :: "'ce RockRidgeContinuation \<Rightarrow> error + nat" where
  "RockRidgeContinuation_extent_location c =
     (case new_extent_loc c of
        None \<Rightarrow>
          (case orig_extent_loc c of
             None \<Rightarrow> Inl (PyIsoException ''No extent assigned to Rock Ridge Continuation!'')
           | Some l \<Rightarrow> Inr l)
      | Some l \<Rightarrow> Inr l)"

definition RockRidgeContinuation_offset :: "'ce RockRidgeContinuation \<Rightarrow> nat" where
  "RockRidgeContinuation_offset c = continue_offset c"

definition RockRidgeContinuation_length :: "'ce RockRidgeContinuation \<Rightarrow> nat" where
  "RockRidgeContinuation_length c = continue_length c"

definition RockRidgeContinuation_increment_length ::
  "'ce RockRidgeContinuation \<Rightarrow> nat \<Rightarrow> 'ce RockRidgeContinuation" where
  "RockRidgeContinuation_increment_length c n = c\<lparr>continue_length := continue_length c + n\<rparr>"

text \<open>
  The CE record owns its continuation. \<open>'c\<close> is the type of the CE slot inside that
  continuation: the entry of a directory record is a \<open>RockRidge\<close>, its continuation may
  itself hold a CE record, and the continuation of that one is the innermost bag.
\<close>

record 'c RRCERecord =
  continuation_entry :: "'c RockRidgeContinuation"

type_synonym RockRidgeContinuation1 = "(unit RRCERecord) RockRidgeContinuation"
type_synonym RockRidge = "((unit RRCERecord) RRCERecord) RockRidgeBase"

definition RRCERecord_length :: nat where
  "RRCERecord_length = 28"

definition RRCERecord_parse :: "string \<Rightarrow> error + 'c RRCERecord" where
  "RRCERecord_parse rrstr =
     (case struct_unpack ''BBLLLLLL'' (slice rrstr 2 28) of
        Inl e \<Rightarrow> Inl e
      | Inr vs \<Rightarrow>
          (let su_len = vs ! 0; bl_cont_area_le = vs ! 2; offset_cont_area_le = vs ! 4;
               len_cont_area_le = vs ! 6 in
           if su_len \<noteq> RRCERecord_length then
             Inl (PyIsoException ''Invalid length on rock ridge extension'')
           else
             Inr \<lparr>continuation_entry =
                    RockRidgeContinuation_increment_length
                      (RockRidgeContinuation_init
                         \<lparr>orig_extent_loc := Some bl_cont_area_le,
                          continue_offset := offset_cont_area_le\<rparr>)
                      len_cont_area_le\<rparr>))"

definition RRCERecord_new :: "'c RRCERecord" where
  "RRCERecord_new = \<lparr>continuation_entry = RockRidgeContinuation_init\<rparr>"

text \<open>\<open>add_record(record_name, obj, length)\<close>: the \<open>setattr\<close> on the continuation is the
  update \<open>set_record\<close> of the named slot.\<close>

definition RRCERecord_add_record ::
  "'c RRCERecord \<Rightarrow> ('c RockRidgeContinuation \<Rightarrow> 'c RockRidgeContinuation) \<Rightarrow> nat \<Rightarrow> 'c RRCERecord" where
  "RRCERecord_add_record ce set_record n =
     ce\<lparr>continuation_entry :=
          RockRidgeContinuation_increment_length (set_record (continuation_entry ce)) n\<rparr>"

definition RRCERecord_record :: "'c RRCERecord \<Rightarrow> error + string" where
  "RRCERecord_record ce =
     (case RockRidgeContinuation_extent_location (continuation_entry ce) of
        Inl e \<Rightarrow> Inl e
      | Inr loc \<Rightarrow>
          (let offset = RockRidgeContinuation_offset (continuation_entry ce);
               cont_len = RockRidgeContinuation_length (continuation_entry ce) in
           case struct_pack ''BBLLLLLL''
                  [RRCERecord_length, SU_ENTRY_VERSION, loc, swab_32bit loc,
                   offset, swab_32bit offset, cont_len, swab_32bit cont_len] of
             Inl e \<Rightarrow> Inl e
           | Inr s \<Rightarrow> Inr (''CE'' @ s)))"

subsection \<open>Parsing an entry\<close>

text \<open>
  The \<open>if\<close>/\<open>elif\<close> chain of \<open>_parse\<close> on the tag of one sub-record: every codec is given
  \<open>record[offset:]\<close> and its result is stored in the slot of the tag; an SL record is
  appended to the list.
\<close>

definition RockRidgeBase_parse_dispatch ::
  "string \<Rightarrow> bool \<Rightarrow> ('c RRCERecord, 'm) RockRidgeBase_scheme \<Rightarrow> nat \<Rightarrow> int \<Rightarrow> string \<Rightarrow> nat
   \<Rightarrow> error + ('c RRCERecord, 'm) RockRidgeBase_scheme" where
  "RockRidgeBase_parse_dispatch record is_first_dir_record_of_root self offset left rtype su_len =
     (if rtype = ''SP'' then
        (if left < 7 \<or> \<not> is_first_dir_record_of_root then
           Inl (PyIsoException ''Invalid SUSP SP record'')
         else (case RRSPRecord_parse (drop offset record) of
                 Inl e \<Rightarrow> Inl e | Inr r \<Rightarrow> Inr (self\<lparr>sp_record := Some r\<rparr>)))
      else if rtype = ''RR'' then
        (case RRRRRecord_parse (drop offset record) of
           Inl e \<Rightarrow> Inl e | Inr r \<Rightarrow> Inr (self\<lparr>rr_record := Some r\<rparr>))
      else if rtype = ''CE'' then
        (case RRCERecord_parse (drop offset record) of
           Inl e \<Rightarrow> Inl e | Inr r \<Rightarrow> Inr (self\<lparr>ce_record := Some r\<rparr>))
      else if rtype = ''PX'' then
        (case RRPXRecord_parse (drop offset record) of
           Inl e \<Rightarrow> Inl e | Inr r \<Rightarrow> Inr (self\<lparr>px_record := Some r\<rparr>))
      else if rtype = ''PD'' then Inr self
      else if rtype = ''ST'' then
        (if su_len \<noteq> 4 then Inl (PyIsoException ''Invalid length on rock ridge extension'')
         else Inr self)
      else if rtype = ''ER'' then
        (case RRERRecord_parse (drop offset record) of
           Inl e \<Rightarrow> Inl e | Inr r \<Rightarrow> Inr (self\<lparr>er_record := Some r\<rparr>))
      else if rtype = ''ES'' then
        (case RRESRecord_parse (drop offset record) of
           Inl e \<Rightarrow> Inl e | Inr r \<Rightarrow> Inr (self\<lparr>es_record := Some r\<rparr>))
      else if rtype = ''PN'' then
        (case RRPNRecord_parse (drop offset record) of
           Inl e \<Rightarrow> Inl e | Inr r \<Rightarrow> Inr (self\<lparr>pn_record := Some r\<rparr>))
      else if rtype = ''SL'' then
        (case RRSLRecord_parse (drop offset record) of
           Inl e \<Rightarrow> Inl e | Inr r \<Rightarrow> Inr (self\<lparr>sl_records := sl_records self @ [r]\<rparr>))
      else if rtype = ''NM'' then
        (case RRNMRecord_parse (drop offset record) of
           Inl e \<Rightarrow> Inl e | Inr r \<Rightarrow> Inr (self\<lparr>nm_record := Some r\<rparr>))
      else if rtype = ''CL'' then
        (case RRCLRecord_parse (drop offset record) of
           Inl e \<Rightarrow> Inl e | Inr r \<Rightarrow> Inr (self\<lparr>cl_record := Some r\<rparr>))
      else if rtype = ''PL'' then
        (case RRPLRecord_parse (drop offset record) of
           Inl e \<Rightarrow> Inl e | Inr r \<Rightarrow> Inr (self\<lparr>pl_record := Some r\<rparr>))
      else if rtype = ''RE'' then
        (case RRRERecord_parse (drop offset record) of
           Inl e \<Rightarrow> Inl e | Inr r \<Rightarrow> Inr (self\<lparr>re_record := Some r\<rparr>))
      else if rtype = ''TF'' then
        (case RRTFRecord_parse (drop offset record) of
           Inl e \<Rightarrow> Inl e | Inr r \<Rightarrow> Inr (self\<lparr>tf_record := Some r\<rparr>))
      else if rtype = ''SF'' then
        (case RRSFRecord_parse (drop offset record) of
           Inl e \<Rightarrow> Inl e | Inr r \<Rightarrow> Inr (self\<lparr>sf_record := Some r\<rparr>))
      else Inl (PyIsoException ''Unknown SUSP record''))"

text \<open>
  The \<open>while True\<close> loop of \<open>_parse\<close>. It is a partial function: \<open>None\<close> is the loop that
  never returns, \<open>Some (Inl e)\<close> a raised exception, \<open>Some (Inr self)\<close> the normal exit.
  \<open>left\<close> can fall below zero, so it is an \<open>int\<close>. \<open>record[offset]\<close> raises IndexError past
  the end of the string, and \<open>struct.unpack("=2sBB", record[offset:offset+4])\<close> raises
  unless the slice has all four bytes.
\<close>

partial_function (option) RockRidgeBase_parse_loop ::
  "string \<Rightarrow> bool \<Rightarrow> ('c RRCERecord, 'm) RockRidgeBase_scheme \<Rightarrow> nat \<Rightarrow> int
   \<Rightarrow> (error + ('c RRCERecord, 'm) RockRidgeBase_scheme) option" where
  "RockRidgeBase_parse_loop record is_first_dir_record_of_root self offset left =
     (if left = 0 then Some (Inr self)
      else if left = 1 then
        (if \<not> offset < length record then Some (Inl IndexError)
         else if record ! offset \<noteq> CHR 0x00 then Some (Inl (PyIsoException ''Invalid pad byte''))
         else Some (Inr self))
      else if left < 4 then
        Some (Inl (PyIsoException ''Not enough bytes left in the System Use field''))
      else if length (slice record offset (offset + 4)) \<noteq> 4 then Some (Inl StructError)
      else if of_char (record ! (offset + 3)) \<noteq> SU_ENTRY_VERSION then
        Some (Inl (PyIsoException ''Invalid RR version''))
      else
        (case RockRidgeBase_parse_dispatch record is_first_dir_record_of_root self offset left
                (slice record offset (offset + 2)) (of_char (record ! (offset + 2))) of
           Inl e \<Rightarrow> Some (Inl e)
         | Inr self' \<Rightarrow>
             RockRidgeBase_parse_loop record is_first_dir_record_of_root self'
               (offset + of_char (record ! (offset + 2)))
               (left - int (of_char (record ! (offset + 2))))))"

definition RockRidgeBase_parse ::
  "('c RRCERecord, 'm) RockRidgeBase_scheme \<Rightarrow> string \<Rightarrow> nat \<Rightarrow> bool
   \<Rightarrow> (error + ('c RRCERecord, 'm) RockRidgeBase_scheme) option" where
  "RockRidgeBase_parse self record skip_bytes is_first_dir_record_of_root =
     (case RockRidgeBase_parse_loop record is_first_dir_record_of_root self
             (0 + skip_bytes) (int (length record)) of
        None \<Rightarrow> None
      | Some (Inl e) \<Rightarrow> Some (Inl e)
      | Some (Inr self') \<Rightarrow> Some (Inr (self'\<lparr>initialized := True\<rparr>)))"

definition RockRidgeContinuation_parse ::
  "('c RRCERecord) RockRidgeContinuation \<Rightarrow> string \<Rightarrow> nat
   \<Rightarrow> (error + ('c RRCERecord) RockRidgeContinuation) option" where
  "RockRidgeContinuation_parse self record skip_bytes =
     RockRidgeBase_parse (self\<lparr>new_extent_loc := None\<rparr>) record skip_bytes False"

definition RockRidge_parse ::
  "RockRidge \<Rightarrow> string \<Rightarrow> bool \<Rightarrow> nat \<Rightarrow> (error + RockRidge) option" where
  "RockRidge_parse self record is_first_dir_record_of_root skip_bytes =
     (if initialized self then Some (Inl (PyIsoException ''Rock Ridge extension already initialized''))
      else RockRidgeBase_parse self record skip_bytes is_first_dir_record_of_root)"

text \<open>
  Two notions to speak about the run of the loop. \<open>dispatches\<close> holds of a loop state in
  which the loop reads a header and dispatches on its tag: at least four bytes are left,
  the header is there and its version is right. \<open>parse_visits\<close> holds of the states the
  loop comes through from a given start: each dispatch that returns leads to the state
  with the cursor moved on by the declared \<open>su_len\<close>.
\<close>

definition dispatches :: "string \<Rightarrow> nat \<Rightarrow> int \<Rightarrow> bool" where
  "dispatches record offset left \<longleftrightarrow>
     4 \<le> left \<and> length (slice record offset (offset + 4)) = 4
     \<and> of_char (record ! (offset + 3)) = SU_ENTRY_VERSION"

inductive parse_visits ::
  "string \<Rightarrow> bool \<Rightarrow> ('c RRCERecord, 'm) RockRidgeBase_scheme \<times> nat \<times> int
   \<Rightarrow> ('c RRCERecord, 'm) RockRidgeBase_scheme \<times> nat \<times> int \<Rightarrow> bool"
  for rr_bytes :: string and is_first_dir_record_of_root :: bool
    and start :: "('c RRCERecord, 'm) RockRidgeBase_scheme \<times> nat \<times> int" where
  visits_start: "parse_visits rr_bytes is_first_dir_record_of_root start start"
| visits_next:
  "parse_visits rr_bytes is_first_dir_record_of_root start (self, offset, left) \<Longrightarrow>
   dispatches rr_bytes offset left \<Longrightarrow>
   RockRidgeBase_parse_dispatch rr_bytes is_first_dir_record_of_root self offset left
     (slice rr_bytes offset (offset + 2)) (of_char (rr_bytes ! (offset + 2))) = Inr self' \<Longrightarrow>
   parse_visits rr_bytes is_first_dir_record_of_root start
     (self', offset + of_char (rr_bytes ! (offset + 2)),
      left - int (of_char (rr_bytes ! (offset + 2))))"

subsection \<open>Serialising an entry\<close>

text \<open>\<open>if x is not None: ret += x.record()\<close>, and the running concatenation \<open>ret\<close>, which
  stops at the first sub-record that raises.\<close>

definition record_of :: "('a \<Rightarrow> error + string) \<Rightarrow> 'a option \<Rightarrow> error + string" where
  "record_of rec x = (case x of None \<Rightarrow> Inr [] | Some r \<Rightarrow> rec r)"

fun join_records :: "(error + string) list \<Rightarrow> error + string" where
  "join_records [] = Inr []"
| "join_records (r # rs) =
     (case r of
        Inl e \<Rightarrow> Inl e
      | Inr s \<Rightarrow> (case join_records rs of Inl e \<Rightarrow> Inl e | Inr t \<Rightarrow> Inr (s @ t)))"

definition RockRidgeBase_record ::
  "('c RRCERecord, 'm) RockRidgeBase_scheme \<Rightarrow> error + string" where
  "RockRidgeBase_record self =
     (if \<not> initialized self then Inl (PyIsoException ''Rock Ridge extension not yet initialized'')
      else
        join_records
          ([record_of RRSPRecord_record (sp_record self),
            record_of RRRRRecord_record (rr_record self),
            record_of RRNMRecord_record (nm_record self),
            record_of (\<lambda>r. RRPXRecord_record r ''1.09'') (px_record self)]
           @ map RRSLRecord_record (sl_records self)
           @ [record_of RRTFRecord_record (tf_record self),
              record_of RRCLRecord_record (cl_record self),
              record_of RRPLRecord_record (pl_record self),
              record_of RRRERecord_record (re_record self),
              record_of RRCERecord_record (ce_record self),
              record_of RRERRecord_record (er_record self)]))"

subsection \<open>Constructing an entry: \<open>RockRidge.new\<close>\<close>

definition ALLOWED_DR_SIZE :: nat where
  "ALLOWED_DR_SIZE = 254"

definition TF_FLAGS :: nat where
  "TF_FLAGS = 0x0e"

definition EXT_ID :: string where
  "EXT_ID = ''RRIP_1991A''"

definition EXT_DES :: string where
  "EXT_DES = ''THE ROCK RIDGE INTERCHANGE PROTOCOL PROVIDES SUPPORT FOR POSIX FILE SYSTEM SEMANTICS''"

definition EXT_SRC :: string where
  "EXT_SRC = ''PLEASE CONTACT DISC PUBLISHER FOR SPECIFICATION SOURCE.  SEE PUBLISHER IDENTIFIER IN PRIMARY VOLUME DESCRIPTOR FOR CONTACT INFORMATION.''"

text \<open>
  Every access \<open>self.ce_record.\<dots>\<close> raises AttributeError when the slot holds \<open>None\<close>;
  otherwise the continuation owned by the CE record is changed in place.
\<close>

definition on_continuation ::
  "RockRidge \<Rightarrow> (RockRidgeContinuation1 \<Rightarrow> RockRidgeContinuation1) \<Rightarrow> error + RockRidge" where
  "on_continuation self f =
     (case ce_record self of
        None \<Rightarrow> Inl AttributeError
      | Some ce \<Rightarrow> Inr (self\<lparr>ce_record := Some (ce\<lparr>continuation_entry := f (continuation_entry ce)\<rparr>)\<rparr>))"

text \<open>
  The placement the source repeats for SP, RR, PX, TF, CL, RE, PL and ER: a record of
  length \<open>thislen\<close> that would take the directory record past \<open>ALLOWED_DR_SIZE\<close> goes into
  the continuation, whose length grows; otherwise it goes into the entry and the
  directory-record length \<open>this_dr_len\<close> grows. The state of the construction is the entry
  and \<open>this_dr_len\<close>.
\<close>

definition place_record ::
  "nat \<Rightarrow> (RockRidge \<Rightarrow> RockRidge) \<Rightarrow> (RockRidgeContinuation1 \<Rightarrow> RockRidgeContinuation1)
   \<Rightarrow> RockRidge \<times> nat \<Rightarrow> error + RockRidge \<times> nat" where
  "place_record thislen here there st =
     (case st of (self, this_dr_len) \<Rightarrow>
        if this_dr_len + thislen > ALLOWED_DR_SIZE then
          (case on_continuation self
                  (\<lambda>c. RockRidgeContinuation_increment_length (there c) thislen) of
             Inl e \<Rightarrow> Inl e
           | Inr self' \<Rightarrow> Inr (self', this_dr_len))
        else Inr (here self, this_dr_len + thislen))"

text \<open>\<open>if self.rr_record is not None: self.rr_record.append_field(name)\<close>.\<close>

definition append_rr_field :: "string \<Rightarrow> RockRidge \<times> nat \<Rightarrow> error + RockRidge \<times> nat" where
  "append_rr_field fieldname st =
     (case st of (self, this_dr_len) \<Rightarrow>
        (case rr_record self of
           None \<Rightarrow> Inr (self, this_dr_len)
         | Some rr \<Rightarrow>
             (case RRRRRecord_append_field rr fieldname of
                Inl e \<Rightarrow> Inl e
              | Inr rr' \<Rightarrow> Inr (self\<lparr>rr_record := Some rr'\<rparr>, this_dr_len))))"

text \<open>The steps of \<open>new\<close> run one after the other; an exception ends the run.\<close>

fun run_steps :: "'s \<Rightarrow> ('s \<Rightarrow> error + 's) list \<Rightarrow> error + 's" where
  "run_steps st [] = Inr st"
| "run_steps st (step # steps) =
     (case step st of Inl e \<Rightarrow> Inl e | Inr st' \<Rightarrow> run_steps st' steps)"

definition new_estimate ::
  "bool \<Rightarrow> string option \<Rightarrow> string option \<Rightarrow> string \<Rightarrow> bool \<Rightarrow> bool \<Rightarrow> bool \<Rightarrow> nat \<Rightarrow> nat" where
  "new_estimate is_first_dir_record_of_root rr_name symlink_path rr_version
       rr_relocated_child rr_relocated rr_relocated_parent curr_dr_len =
     curr_dr_len
     + (if is_first_dir_record_of_root then RRSPRecord_length else 0)
     + (if rr_version = ''1.09'' then RRRRRecord_length else 0)
     + (case rr_name of None \<Rightarrow> 0 | Some n \<Rightarrow> RRNMRecord_length n)
     + RRPXRecord_length ''1.09''
     + (case symlink_path of None \<Rightarrow> 0 | Some p \<Rightarrow> RRSLRecord_length (split p CHR ''/''))
     + RRTFRecord_length TF_FLAGS
     + (if rr_relocated_child then RRCLRecord_length else 0)
     + (if rr_relocated then RRRERecord_length else 0)
     + (if rr_relocated_parent then RRPLRecord_length else 0)
     + (if is_first_dir_record_of_root then RRERRecord_length EXT_ID EXT_DES EXT_SRC else 0)"

definition new_ce :: "nat \<Rightarrow> RockRidge \<times> nat \<Rightarrow> error + RockRidge \<times> nat" where
  "new_ce tmp_dr_len st =
     (case st of (self, this_dr_len) \<Rightarrow>
        if tmp_dr_len > ALLOWED_DR_SIZE then
          Inr (self\<lparr>ce_record := Some RRCERecord_new\<rparr>, this_dr_len + RRCERecord_length)
        else Inr (self, this_dr_len))"

definition new_sp :: "bool \<Rightarrow> RockRidge \<times> nat \<Rightarrow> error + RockRidge \<times> nat" where
  "new_sp is_first_dir_record_of_root st =
     (if is_first_dir_record_of_root then
        place_record RRSPRecord_length
          (\<lambda>s. s\<lparr>sp_record := Some RRSPRecord_new\<rparr>) (\<lambda>c. c\<lparr>sp_record := Some RRSPRecord_new\<rparr>) st
      else Inr st)"

definition new_rr :: "string \<Rightarrow> RockRidge \<times> nat \<Rightarrow> error + RockRidge \<times> nat" where
  "new_rr rr_version st =
     (if rr_version = ''1.09'' then
        place_record RRRRRecord_length
          (\<lambda>s. s\<lparr>rr_record := Some RRRRRecord_new\<rparr>) (\<lambda>c. c\<lparr>rr_record := Some RRRRRecord_new\<rparr>) st
      else Inr st)"

text \<open>
  The NM record. \<open>len_here\<close> is \<open>ALLOWED_DR_SIZE - this_dr_len.length() - 5\<close>, which is
  negative once the directory record is longer than 249 bytes; the slices
  \<open>rr_name[:len_here]\<close> and \<open>rr_name[len_here:]\<close> then count from the end of the name.
\<close>

definition new_nm :: "string option \<Rightarrow> RockRidge \<times> nat \<Rightarrow> error + RockRidge \<times> nat" where
  "new_nm rr_name st =
     (case rr_name of
        None \<Rightarrow> Inr st
      | Some name \<Rightarrow>
          (case st of (self, this_dr_len) \<Rightarrow>
             (case (if this_dr_len + RRNMRecord_length name > ALLOWED_DR_SIZE then
                      (let len_here = int ALLOWED_DR_SIZE - int this_dr_len - 5;
                           self1 = self\<lparr>nm_record :=
                                     Some (RRNMRecord_set_continued
                                             (RRNMRecord_new (slice_to name len_here)))\<rparr>;
                           dr_len1 = this_dr_len + RRNMRecord_length (slice_to name len_here)
                       in case on_continuation self1
                                 (\<lambda>c. RockRidgeContinuation_increment_length
                                         (c\<lparr>nm_record := Some (RRNMRecord_new (slice_from name len_here))\<rparr>)
                                         (RRNMRecord_length (slice_from name len_here))) of
                            Inl e \<Rightarrow> Inl e
                          | Inr self2 \<Rightarrow> Inr (self2, dr_len1))
                    else Inr (self\<lparr>nm_record := Some (RRNMRecord_new name)\<rparr>,
                              this_dr_len + RRNMRecord_length name)) of
                Inl e \<Rightarrow> Inl e
              | Inr st' \<Rightarrow> append_rr_field ''NM'' st')))"

definition new_px :: "bool \<Rightarrow> string option \<Rightarrow> RockRidge \<times> nat \<Rightarrow> error + RockRidge \<times> nat" where
  "new_px isdir symlink_path st =
     (let px = RRPXRecord_new isdir symlink_path in
      case place_record (RRPXRecord_length ''1.09'')
             (\<lambda>s. s\<lparr>px_record := Some px\<rparr>) (\<lambda>c. c\<lparr>px_record := Some px\<rparr>) st of
        Inl e \<Rightarrow> Inl e
      | Inr st' \<Rightarrow> append_rr_field ''PX'' st')"

text \<open>
  The SL records. \<open>curr_sl\<close> is an object that sits at the end of the list it was appended
  to, the list of the entry or the list of the continuation, and \<open>meta_record_len\<close> is the
  length counter of the same place; \<open>in_ce\<close> says which place it is. A change of \<open>curr_sl\<close>
  is a change of that last element of the list.
\<close>

definition store_curr_sl :: "RockRidge \<Rightarrow> bool \<Rightarrow> RRSLRecord \<Rightarrow> RockRidge" where
  "store_curr_sl self in_ce curr_sl =
     (if in_ce then
        (case ce_record self of
           None \<Rightarrow> self
         | Some ce \<Rightarrow>
             self\<lparr>ce_record := Some (ce\<lparr>continuation_entry :=
                     (continuation_entry ce)\<lparr>sl_records :=
                        (sl_records (continuation_entry ce))
                          [length (sl_records (continuation_entry ce)) - 1 := curr_sl]\<rparr>\<rparr>)\<rparr>)
      else self\<lparr>sl_records := (sl_records self)[length (sl_records self) - 1 := curr_sl]\<rparr>)"

definition meta_increment_length ::
  "RockRidge \<Rightarrow> nat \<Rightarrow> bool \<Rightarrow> nat \<Rightarrow> error + RockRidge \<times> nat" where
  "meta_increment_length self this_dr_len in_ce n =
     (if in_ce then
        (case on_continuation self (\<lambda>c. RockRidgeContinuation_increment_length c n) of
           Inl e \<Rightarrow> Inl e
         | Inr self' \<Rightarrow> Inr (self', this_dr_len))
      else Inr (self, this_dr_len + n))"

definition append_continuation_sl :: "RockRidge \<Rightarrow> RRSLRecord \<Rightarrow> nat \<Rightarrow> error + RockRidge" where
  "append_continuation_sl self new_sl n =
     on_continuation self
       (\<lambda>c. RockRidgeContinuation_increment_length (c\<lparr>sl_records := sl_records c @ [new_sl]\<rparr>) n)"

fun new_sl_loop ::
  "string list \<Rightarrow> RockRidge \<Rightarrow> nat \<Rightarrow> bool \<Rightarrow> RRSLRecord \<Rightarrow> error + RockRidge \<times> nat" where
  "new_sl_loop [] self this_dr_len in_ce curr_sl = Inr (self, this_dr_len)"
| "new_sl_loop (component # rest) self this_dr_len in_ce curr_sl =
     (if RRSLRecord_current_length curr_sl + 2 + length component < 255 then
        (case RRSLRecord_add_component curr_sl component of
           Inl e \<Rightarrow> Inl e
         | Inr sl' \<Rightarrow>
             (case meta_increment_length (store_curr_sl self in_ce sl') this_dr_len in_ce
                     (RRSLRecord_component_length component) of
                Inl e \<Rightarrow> Inl e
              | Inr (self', dr_len') \<Rightarrow> new_sl_loop rest self' dr_len' in_ce sl'))
      else if RRSLRecord_current_length curr_sl + 2 + 1 < 255 then
        (let len_here = 255 - RRSLRecord_current_length curr_sl - 2 in
         case RRSLRecord_add_component curr_sl (take len_here component) of
           Inl e \<Rightarrow> Inl e
         | Inr sl' \<Rightarrow>
             (case meta_increment_length (store_curr_sl self in_ce sl') this_dr_len in_ce
                     (RRSLRecord_component_length (take len_here component)) of
                Inl e \<Rightarrow> Inl e
              | Inr (self1, dr_len1) \<Rightarrow>
                  (let new_sl = RRSLRecord_new (Some (drop len_here component)) in
                   case append_continuation_sl self1 new_sl
                          (5 + RRSLRecord_component_length (drop len_here component)) of
                     Inl e \<Rightarrow> Inl e
                   | Inr self2 \<Rightarrow> new_sl_loop rest self2 dr_len1 True new_sl)))
      else
        (let new_sl = RRSLRecord_new (Some component) in
         case append_continuation_sl self new_sl (5 + RRSLRecord_component_length component) of
           Inl e \<Rightarrow> Inl e
         | Inr self1 \<Rightarrow> new_sl_loop rest self1 this_dr_len True new_sl))"

definition new_sl :: "string option \<Rightarrow> RockRidge \<times> nat \<Rightarrow> error + RockRidge \<times> nat" where
  "new_sl symlink_path st =
     (case symlink_path of
        None \<Rightarrow> Inr st
      | Some p \<Rightarrow>
          (case st of (self, this_dr_len) \<Rightarrow>
             (let curr_sl = RRSLRecord_new None in
              case (if this_dr_len + 5 + 2 + 1 < ALLOWED_DR_SIZE then
                      Inr (self\<lparr>sl_records := sl_records self @ [curr_sl]\<rparr>, False)
                    else
                      (case append_continuation_sl self curr_sl 0 of
                         Inl e \<Rightarrow> Inl e
                       | Inr self' \<Rightarrow> Inr (self', True))) of
                Inl e \<Rightarrow> Inl e
              | Inr (self1, in_ce) \<Rightarrow>
                  (case meta_increment_length self1 this_dr_len in_ce 5 of
                     Inl e \<Rightarrow> Inl e
                   | Inr (self2, dr_len2) \<Rightarrow>
                       (case new_sl_loop (split p CHR ''/'') self2 dr_len2 in_ce curr_sl of
                          Inl e \<Rightarrow> Inl e
                        | Inr st' \<Rightarrow> append_rr_field ''SL'' st')))))"

definition new_tf :: "(datetype \<Rightarrow> string) \<Rightarrow> RockRidge \<times> nat \<Rightarrow> error + RockRidge \<times> nat" where
  "new_tf clock st =
     (let tf = RRTFRecord_new TF_FLAGS clock in
      case place_record (RRTFRecord_length TF_FLAGS)
             (\<lambda>s. s\<lparr>tf_record := Some tf\<rparr>) (\<lambda>c. c\<lparr>tf_record := Some tf\<rparr>) st of
        Inl e \<Rightarrow> Inl e
      | Inr st' \<Rightarrow> append_rr_field ''TF'' st')"

definition new_cl :: "bool \<Rightarrow> RockRidge \<times> nat \<Rightarrow> error + RockRidge \<times> nat" where
  "new_cl rr_relocated_child st =
     (if rr_relocated_child then
        place_record RRCLRecord_length
          (\<lambda>s. s\<lparr>cl_record := Some RRCLRecord_new\<rparr>) (\<lambda>c. c\<lparr>cl_record := Some RRCLRecord_new\<rparr>) st
      else Inr st)"

definition new_re :: "bool \<Rightarrow> RockRidge \<times> nat \<Rightarrow> error + RockRidge \<times> nat" where
  "new_re rr_relocated st =
     (if rr_relocated then
        place_record RRRERecord_length
          (\<lambda>s. s\<lparr>re_record := Some RRRERecord_new\<rparr>) (\<lambda>c. c\<lparr>re_record := Some RRRERecord_new\<rparr>) st
      else Inr st)"

definition new_pl :: "bool \<Rightarrow> RockRidge \<times> nat \<Rightarrow> error + RockRidge \<times> nat" where
  "new_pl rr_relocated_parent st =
     (if rr_relocated_parent then
        place_record RRPLRecord_length
          (\<lambda>s. s\<lparr>pl_record := Some RRPLRecord_new\<rparr>) (\<lambda>c. c\<lparr>pl_record := Some RRPLRecord_new\<rparr>) st
      else Inr st)"

definition new_er :: "bool \<Rightarrow> RockRidge \<times> nat \<Rightarrow> error + RockRidge \<times> nat" where
  "new_er is_first_dir_record_of_root st =
     (if is_first_dir_record_of_root then
        (let er = RRERRecord_new EXT_ID EXT_DES EXT_SRC in
         place_record (RRERRecord_length EXT_ID EXT_DES EXT_SRC)
           (\<lambda>s. s\<lparr>er_record := Some er\<rparr>) (\<lambda>c. c\<lparr>er_record := Some er\<rparr>) st)
      else Inr st)"

text \<open>
  \<open>RockRidge.new\<close> up to the last record: the entry and the directory-record length
  \<open>this_dr_len\<close> as they are just before \<open>self.initialized = True\<close> and the padding to an
  even length. The clock read by the TF record is the parameter \<open>clock\<close>.
\<close>

definition RockRidge_new_layout ::
  "RockRidge \<Rightarrow> bool \<Rightarrow> string option \<Rightarrow> bool \<Rightarrow> string option \<Rightarrow> string \<Rightarrow> bool \<Rightarrow> bool \<Rightarrow> bool
   \<Rightarrow> nat \<Rightarrow> (datetype \<Rightarrow> string) \<Rightarrow> error + RockRidge \<times> nat" where
  "RockRidge_new_layout self is_first_dir_record_of_root rr_name isdir symlink_path rr_version
       rr_relocated_child rr_relocated rr_relocated_parent curr_dr_len clock =
     (if initialized self then Inl (PyIsoException ''Rock Ridge extension already initialized'')
      else if rr_version \<noteq> ''1.09'' \<and> rr_version \<noteq> ''1.12'' then
        Inl (PyIsoException ''Only Rock Ridge versions 1.09 and 1.12 are implemented'')
      else
        run_steps (self, curr_dr_len)
          [new_ce (new_estimate is_first_dir_record_of_root rr_name symlink_path rr_version
                     rr_relocated_child rr_relocated rr_relocated_parent curr_dr_len),
           new_sp is_first_dir_record_of_root,
           new_rr rr_version,
           new_nm rr_name,
           new_px isdir symlink_path,
           new_sl symlink_path,
           new_tf clock,
           new_cl rr_relocated_child,
           new_re rr_relocated,
           new_pl rr_relocated_parent,
           new_er is_first_dir_record_of_root])"

text \<open>\<open>RockRidge.new\<close>: the initialised entry and the returned length of the directory
  record.\<close>

definition RockRidge_new ::
  "RockRidge \<Rightarrow> bool \<Rightarrow> string option \<Rightarrow> bool \<Rightarrow> string option \<Rightarrow> string \<Rightarrow> bool \<Rightarrow> bool \<Rightarrow> bool
   \<Rightarrow> nat \<Rightarrow> (datetype \<Rightarrow> string) \<Rightarrow> error + RockRidge \<times> nat" where
  "RockRidge_new self is_first_dir_record_of_root rr_name isdir symlink_path rr_version
       rr_relocated_child rr_relocated rr_relocated_parent curr_dr_len clock =
     (case RockRidge_new_layout self is_first_dir_record_of_root rr_name isdir symlink_path
             rr_version rr_relocated_child rr_relocated rr_relocated_parent curr_dr_len clock of
        Inl e \<Rightarrow> Inl e
      | Inr (self', this_dr_len) \<Rightarrow>
          Inr (self'\<lparr>initialized := True\<rparr>, this_dr_len + this_dr_len mod 2))"

subsection \<open>Queries and updates\<close>

definition RockRidge_name :: "RockRidge \<Rightarrow> error + string" where
  "RockRidge_name self =
     (if \<not> initialized self then Inl (PyIsoException ''Rock Ridge extension not yet initialized'')
      else
        Inr ((case nm_record self of None \<Rightarrow> [] | Some nm \<Rightarrow> posix_name nm)
             @ (case ce_record self of
                  None \<Rightarrow> []
                | Some ce \<Rightarrow>
                    (case nm_record (continuation_entry ce) of
                       None \<Rightarrow> [] | Some nm \<Rightarrow> posix_name nm))))"

definition RockRidge_is_symlink :: "RockRidge \<Rightarrow> error + bool" where
  "RockRidge_is_symlink self =
     (if \<not> initialized self then Inl (PyIsoException ''Rock Ridge extension not yet initialized'')
      else if sl_records self \<noteq> [] then Inr True
      else
        (case ce_record self of
           None \<Rightarrow> Inr False
         | Some ce \<Rightarrow> Inr (sl_records (continuation_entry ce) \<noteq> [])))"

text \<open>The two loops of \<open>symlink_path\<close>: the text of every SL record, followed by a slash
  unless the text is the slash itself.\<close>

fun symlink_path_loop :: "RRSLRecord list \<Rightarrow> string" where
  "symlink_path_loop [] = []"
| "symlink_path_loop (rec # recs) =
     (let recstr = RRSLRecord_str rec in
      if recstr \<noteq> ''/'' then recstr @ ''/'' @ symlink_path_loop recs
      else recstr @ symlink_path_loop recs)"

definition RockRidge_symlink_path :: "RockRidge \<Rightarrow> error + string" where
  "RockRidge_symlink_path self =
     (if \<not> initialized self then Inl (PyIsoException ''Rock Ridge extension not yet initialized'')
      else if sl_records self = []
              \<or> (case ce_record self of
                    None \<Rightarrow> False
                  | Some ce \<Rightarrow> sl_records (continuation_entry ce) = []) then
        Inl (PyIsoException ''Entry is not a symlink!'')
      else
        Inr (butlast
               (symlink_path_loop (sl_records self)
                @ (case ce_record self of
                     None \<Rightarrow> []
                   | Some ce \<Rightarrow> symlink_path_loop (sl_records (continuation_entry ce))))))"

definition RockRidge_has_child_link_record :: "RockRidge \<Rightarrow> error + bool" where
  "RockRidge_has_child_link_record self =
     (if \<not> initialized self then Inl (PyIsoException ''Rock Ridge extension not yet initialized'')
      else
        Inr (cl_record self \<noteq> None
             \<or> (case ce_record self of
                   None \<Rightarrow> False
                 | Some ce \<Rightarrow> cl_record (continuation_entry ce) \<noteq> None)))"

definition RockRidge_update_child_link :: "RockRidge \<Rightarrow> error + RockRidge" where
  "RockRidge_update_child_link self =
     (if \<not> initialized self then Inl (PyIsoException ''Rock Ridge extension not yet initialized'')
      else
        (case child_link self of
           None \<Rightarrow> Inl (PyIsoException ''No child link found!'')
         | Some extent \<Rightarrow>
             (case cl_record self of
                Some cl \<Rightarrow> Inr (self\<lparr>cl_record := Some (RRCLRecord_set_log_block_num cl extent)\<rparr>)
              | None \<Rightarrow>
                  (case ce_record self of
                     None \<Rightarrow> Inl (PyIsoException ''Could not find child link record!'')
                   | Some ce \<Rightarrow>
                       (case cl_record (continuation_entry ce) of
                          None \<Rightarrow> Inl (PyIsoException ''Could not find child link record!'')
                        | Some cl \<Rightarrow>
                            Inr (self\<lparr>ce_record := Some (ce\<lparr>continuation_entry :=
                                   (continuation_entry ce)\<lparr>cl_record :=
                                      Some (RRCLRecord_set_log_block_num cl extent)\<rparr>\<rparr>)\<rparr>))))))"

definition RockRidge_child_link_block_num :: "RockRidge \<Rightarrow> error + nat" where
  "RockRidge_child_link_block_num self =
     (if \<not> initialized self then Inl (PyIsoException ''Rock Ridge extension not yet initialized'')
      else
        (case cl_record self of
           Some cl \<Rightarrow> Inr (child_log_block_num cl)
         | None \<Rightarrow>
             (case ce_record self of
                None \<Rightarrow> Inl (PyIsoException ''This RR record has no child link record'')
              | Some ce \<Rightarrow>
                  (case cl_record (continuation_entry ce) of
                     None \<Rightarrow> Inl (PyIsoException ''This RR record has no child link record'')
                   | Some cl \<Rightarrow> Inr (child_log_block_num cl)))))"

text \<open>A clock for the examples: it reads as zero bytes of the length of the date.\<close>

definition epoch_clock :: "datetype \<Rightarrow> string" where
  "epoch_clock dt = replicate (date_length dt) CHR 0x00"

section \<open>Properties\<close>

subsection \<open>Evaluation rules\<close>

lemma RRTFRecord_length_TF_FLAGS [simp]: "RRTFRecord_length TF_FLAGS = 26"
  by code_simp

lemmas char_eval = char_of_def bit_Suc_0_iff

lemma bit_TF_FLAGS [simp]:
  "\<not> bit TF_FLAGS 0" "bit TF_FLAGS 1" "bit TF_FLAGS (Suc 0)" "bit TF_FLAGS 2" "bit TF_FLAGS 3"
  "\<not> bit TF_FLAGS 4" "\<not> bit TF_FLAGS 5" "\<not> bit TF_FLAGS 6" "\<not> bit TF_FLAGS 7"
  by (simp_all add: TF_FLAGS_def bit_Suc_0_iff)

lemma TF_FLAGS_byte [simp]: "TF_FLAGS < 256" "char_of TF_FLAGS = CHR 0x0E"
  by (simp_all add: TF_FLAGS_def char_eval)

lemma split_no_separator: "c \<notin> set xs \<Longrightarrow> split xs c = [xs]"
  by (induction xs) auto

lemma split_at_separator: "c \<notin> set xs \<Longrightarrow> split (xs @ c # ys) c = xs # split ys c"
  by (induction xs) auto

lemma component_length_long:
  "2 < length xs \<Longrightarrow> RRSLRecord_component_length xs = 2 + length xs"
  by (auto simp add: RRSLRecord_component_length_def)

lemma long_not_single: "1 < length xs \<Longrightarrow> (xs = [y]) = False"
  by auto

lemmas new_defs = RockRidge_new_def RockRidge_new_layout_def new_estimate_def new_ce_def new_sp_def
  new_rr_def new_nm_def new_px_def new_sl_def new_tf_def new_cl_def new_re_def new_pl_def new_er_def
  place_record_def append_rr_field_def on_continuation_def store_curr_sl_def
  meta_increment_length_def append_continuation_sl_def ALLOWED_DR_SIZE_def
  EXT_ID_def EXT_DES_def EXT_SRC_def RockRidgeBase_init_def RockRidgeContinuation_init_def
  RRCERecord_new_def RRCERecord_length_def RRSPRecord_new_def RRSPRecord_length_def
  RRRRRecord_new_def RRRRRecord_length_def RRRRRecord_append_field_def
  RRNMRecord_new_def RRNMRecord_length_def RRNMRecord_set_continued_def
  RRPXRecord_new_def RRPXRecord_length_def RRSLRecord_new_def RRSLRecord_current_length_def
  RRSLRecord_add_component_def
  RRTFRecord_new_def RRCLRecord_new_def RRCLRecord_length_def
  RRRERecord_new_def RRRERecord_length_def RRPLRecord_new_def RRPLRecord_length_def
  RRERRecord_new_def RRERRecord_length_def RockRidgeContinuation_increment_length_def
  slice_to_def slice_from_def date_new_def

lemmas record_defs = RockRidgeBase_record_def record_of_def RRSPRecord_record_def
  RRRRRecord_record_def RRNMRecord_record_def RRPXRecord_record_def RRSLRecord_record_def
  RRTFRecord_record_def RRCLRecord_record_def RRPLRecord_record_def RRRERecord_record_def
  RRCERecord_record_def RRERRecord_record_def SU_ENTRY_VERSION_def pack_L_def swab_32bit_def
  unpack_L_def date_record_def

subsection \<open>The layout budget\<close>

text \<open>
  Claim C1. For every input of \<open>RockRidge.new\<close> with a starting directory-record length of
  at most 254, the running directory-record length stays within 254 bytes up to the final
  padding, and a CE record is created exactly when the estimate of the all-inline length
  exceeds 254.

  The code creates the CE record exactly when the estimate exceeds 254 (that is the test in
  \<open>new_ce\<close>), but it does not keep the length within 254: the SL records are placed in the
  entry as soon as eight more bytes fit, whatever the length of the components that follow.
  For a symlink named \<open>sym\<close> whose target is 120 times \<open>a\<close>, a slash and 120 times \<open>b\<close>, in
  a directory record of 40 bytes, the one SL record of 249 bytes goes into the entry and the
  directory-record length before padding is 366.
\<close>

theorem new_layout_exceeds_allowed_size:
  "(case RockRidge_new_layout RockRidgeBase_init False (Some ''sym'') False
           (Some (replicate 120 CHR ''a'' @ ''/'' @ replicate 120 CHR ''b''))
           ''1.09'' False False False 40 clock of
      Inl e \<Rightarrow> None
    | Inr (e, n) \<Rightarrow> Some (n, map symlink_components (sl_records e), ce_record e \<noteq> None))
   = Some (366, [[replicate 120 CHR ''a'', replicate 120 CHR ''b'']], True)"
  by (simp add: new_defs Let_def split_no_separator split_at_separator component_length_long)

subsection \<open>Splitting a symlink target\<close>

text \<open>
  Claim C4. For every slash-separated symlink target that \<open>RockRidge.new\<close> has to split
  across several SL records, \<open>symlink_path()\<close> gives back the original path.

  The code does not: a component cut in two at the 255-byte limit of an SL record comes back
  with a slash between its two parts. For the target 100 times \<open>b\<close>, a slash and 200 times
  \<open>c\<close>, the second component is cut after 146 bytes and \<open>symlink_path()\<close> returns a path of
  three components.
\<close>

theorem symlink_split_inserts_separator:
  "(case RockRidge_new RockRidgeBase_init False (Some ''sym'') False
           (Some (replicate 100 CHR ''b'' @ ''/'' @ replicate 200 CHR ''c''))
           ''1.09'' False False False 40 clock of
      Inl e \<Rightarrow> None
    | Inr (e, n) \<Rightarrow> Some (RockRidge_symlink_path e))
   = Some (Inr (replicate 100 CHR ''b'' @ ''/'' @ replicate 146 CHR ''c'' @ ''/''
                @ replicate 54 CHR ''c''))"
  by (simp add: new_defs Let_def split_no_separator split_at_separator component_length_long
        RockRidge_symlink_path_def RRSLRecord_str_def long_not_single butlast_append)

subsection \<open>The form of the PX record\<close>

text \<open>
  Claim C5. An entry constructed for protocol version 1.12 emits, and budgets for, the
  44-byte PX record with the serial number; version 1.09 uses the 36-byte form.

  The code passes the version neither to \<open>RRPXRecord.length\<close> nor to \<open>RRPXRecord.record\<close>,
  so both keep their default. For the file \<open>foo\<close> with version 1.12 in a directory record of
  34 bytes the returned length is 104, which is 34 + 8 + 36 + 26, and the PX record that
  \<open>record()\<close> emits has 36 bytes and no serial number.
\<close>

theorem new_1_12_emits_36_byte_px:
  "(case RockRidge_new RockRidgeBase_init False (Some ''foo'') False None ''1.12''
           False False False 34 clock of
      Inl e \<Rightarrow> None
    | Inr (e, n) \<Rightarrow> Some (n, RockRidgeBase_record e))
   = Some (104,
       Inr (''NM'' @ [CHR 0x08, CHR 0x01, CHR 0x00] @ ''foo''
            @ ''PX'' @ [CHR 0x24, CHR 0x01,
                 CHR 0x24, CHR 0x81, CHR 0x00, CHR 0x00,  CHR 0x00, CHR 0x00, CHR 0x81, CHR 0x24,
                 CHR 0x01, CHR 0x00, CHR 0x00, CHR 0x00,  CHR 0x00, CHR 0x00, CHR 0x00, CHR 0x01,
                 CHR 0x00, CHR 0x00, CHR 0x00, CHR 0x00,  CHR 0x00, CHR 0x00, CHR 0x00, CHR 0x00,
                 CHR 0x00, CHR 0x00, CHR 0x00, CHR 0x00,  CHR 0x00, CHR 0x00, CHR 0x00, CHR 0x00]
            @ ''TF'' @ [CHR 0x1A, CHR 0x01, CHR 0x0E]
            @ clock DirectoryRecordDate @ clock DirectoryRecordDate @ clock DirectoryRecordDate))"
  by (simp add: new_defs Let_def record_defs char_eval)

subsection \<open>Reading the symlink target\<close>

text \<open>
  Claim C7. For an initialised entry \<open>symlink_path()\<close> fails exactly when there is no SL
  record at all, neither in the entry nor in its continuation, and otherwise returns the
  components of the entry followed by those of the continuation.

  The code raises as soon as the entry has no SL record of its own, and also when a
  continuation exists and holds none, although \<open>is_symlink()\<close> answers \<open>True\<close> in both cases.
  A symlink with a name of 200 bytes and the target \<open>a\<close> has its only SL record in the
  continuation; with a name of 150 bytes the SL record is in the entry and the continuation
  holds the PX and TF records only. \<open>symlink_path()\<close> raises for both.
\<close>

theorem symlink_path_raises_for_symlinks:
  "(case RockRidge_new RockRidgeBase_init False (Some (replicate 200 CHR ''n'')) False
           (Some ''a'') ''1.09'' False False False 40 clock of
      Inl e \<Rightarrow> None
    | Inr (e, n) \<Rightarrow>
        Some (map symlink_components (sl_records e),
              map_option (\<lambda>ce. map symlink_components (sl_records (continuation_entry ce)))
                (ce_record e),
              RockRidge_is_symlink e, RockRidge_symlink_path e))
   = Some ([], Some [[''a'']], Inr True, Inl (PyIsoException ''Entry is not a symlink!''))
   \<and>
   (case RockRidge_new RockRidgeBase_init False (Some (replicate 150 CHR ''n'')) False
           (Some ''a'') ''1.09'' False False False 40 clock of
      Inl e \<Rightarrow> None
    | Inr (e, n) \<Rightarrow>
        Some (map symlink_components (sl_records e),
              map_option (\<lambda>ce. map symlink_components (sl_records (continuation_entry ce)))
                (ce_record e),
              RockRidge_is_symlink e, RockRidge_symlink_path e))
   = Some ([[''a'']], Some [], Inr True, Inl (PyIsoException ''Entry is not a symlink!''))"
  by (simp add: new_defs Let_def RRSLRecord_component_length_def RockRidge_symlink_path_def
        RockRidge_is_symlink_def)

subsection \<open>The alternate name is always available\<close>

text \<open>
  Claim C10. For every initialised Rock Ridge entry \<open>name()\<close> returns a string and never
  raises; when neither the entry nor its continuation holds an NM record the string is
  empty. \<open>symlink_path()\<close>, by contrast, raises when the entry has no SL record.
\<close>

theorem name_never_raises:
  "initialized self \<Longrightarrow>
     (\<exists>s. RockRidge_name self = Inr s)
   \<and> (nm_record self = None
        \<and> (\<forall>ce. ce_record self = Some ce \<longrightarrow> nm_record (continuation_entry ce) = None)
        \<longrightarrow> RockRidge_name self = Inr [])
   \<and> (sl_records self = []
        \<longrightarrow> RockRidge_symlink_path self = Inl (PyIsoException ''Entry is not a symlink!''))"
  by (auto simp add: RockRidge_name_def RockRidge_symlink_path_def split: option.splits)

theorem name_never_raises_witness:
  "initialized (RockRidgeBase_init\<lparr>initialized := True\<rparr> :: RockRidge)
   \<and> RockRidge_name (RockRidgeBase_init\<lparr>initialized := True\<rparr>) = Inr []
   \<and> RockRidge_symlink_path (RockRidgeBase_init\<lparr>initialized := True\<rparr>)
       = Inl (PyIsoException ''Entry is not a symlink!'')"
proof -
  have h: "initialized (RockRidgeBase_init\<lparr>initialized := True\<rparr> :: RockRidge)"
    by simp
  from name_never_raises [OF h] show ?thesis
    by (simp add: RockRidgeBase_init_def)
qed

subsection \<open>The child link of a relocated directory\<close>

text \<open>The steps of \<open>new\<close> before the CL record leave the slot \<open>cl_record\<close> of the entry
  alone; the steps after it leave the CL record alone, wherever it has been placed.\<close>

lemma run_steps_append:
  "run_steps st (fs @ gs) = (case run_steps st fs of Inl e \<Rightarrow> Inl e | Inr s \<Rightarrow> run_steps s gs)"
  by (induction fs arbitrary: st) (auto split: sum.splits)

lemma run_steps_invariant:
  "run_steps st fs = Inr st' \<Longrightarrow> P st \<Longrightarrow>
   (\<And>f a b. f \<in> set fs \<Longrightarrow> P a \<Longrightarrow> f a = Inr b \<Longrightarrow> P b) \<Longrightarrow> P st'"
proof (induction fs arbitrary: st)
  case Nil
  then show ?case by simp
next
  case (Cons f fs)
  from Cons.prems(1) obtain s where s: "f st = Inr s" and r: "run_steps s fs = Inr st'"
    by (auto split: sum.splits)
  have "P s" using Cons.prems(3) [of f st s] Cons.prems(2) s by simp
  with r show ?case using Cons.IH [of s] Cons.prems(3) by auto
qed

lemma on_continuation_cl:
  "on_continuation self f = Inr self' \<Longrightarrow> cl_record self' = cl_record self"
  by (auto simp add: on_continuation_def split: option.splits)

lemma place_record_cl:
  "place_record n here there (self, dl) = Inr (self', dl') \<Longrightarrow>
   (\<And>s. cl_record (here s) = cl_record s) \<Longrightarrow> cl_record self' = cl_record self"
  by (auto simp add: place_record_def dest: on_continuation_cl split: if_splits sum.splits)

lemma append_rr_field_cl:
  "append_rr_field name (self, dl) = Inr (self', dl') \<Longrightarrow> cl_record self' = cl_record self"
  by (auto simp add: append_rr_field_def split: option.splits sum.splits)

lemma new_ce_cl: "new_ce t (self, dl) = Inr (self', dl') \<Longrightarrow> cl_record self' = cl_record self"
  by (auto simp add: new_ce_def split: if_splits)

lemma new_sp_cl: "new_sp b (self, dl) = Inr (self', dl') \<Longrightarrow> cl_record self' = cl_record self"
  by (auto simp add: new_sp_def dest!: place_record_cl split: if_splits)

lemma new_rr_cl: "new_rr v (self, dl) = Inr (self', dl') \<Longrightarrow> cl_record self' = cl_record self"
  by (auto simp add: new_rr_def dest!: place_record_cl split: if_splits)

lemma new_nm_cl: "new_nm nm (self, dl) = Inr (self', dl') \<Longrightarrow> cl_record self' = cl_record self"
  by (auto simp add: new_nm_def Let_def dest!: on_continuation_cl append_rr_field_cl
        split: if_splits option.splits sum.splits prod.splits)

lemma new_px_cl: "new_px d p (self, dl) = Inr (self', dl') \<Longrightarrow> cl_record self' = cl_record self"
  by (auto simp add: new_px_def Let_def dest!: place_record_cl append_rr_field_cl
        split: sum.splits prod.splits)

lemma new_tf_cl: "new_tf c (self, dl) = Inr (self', dl') \<Longrightarrow> cl_record self' = cl_record self"
  by (auto simp add: new_tf_def Let_def dest!: place_record_cl append_rr_field_cl
        split: sum.splits prod.splits)

lemma store_curr_sl_cl: "cl_record (store_curr_sl self in_ce sl) = cl_record self"
  by (simp add: store_curr_sl_def split: option.splits)

lemma meta_increment_length_cl:
  "meta_increment_length self dl in_ce n = Inr (self', dl') \<Longrightarrow> cl_record self' = cl_record self"
  by (auto simp add: meta_increment_length_def dest!: on_continuation_cl split: if_splits sum.splits)

lemma append_continuation_sl_cl:
  "append_continuation_sl self sl n = Inr self' \<Longrightarrow> cl_record self' = cl_record self"
  by (auto simp add: append_continuation_sl_def dest!: on_continuation_cl)

lemma new_sl_loop_cl:
  "new_sl_loop comps self dl in_ce sl = Inr (self', dl') \<Longrightarrow> cl_record self' = cl_record self"
proof (induction comps arbitrary: self dl in_ce sl)
  case Nil
  then show ?case by simp
next
  case (Cons c comps)
  then show ?case
    by (auto simp add: Let_def store_curr_sl_cl
          dest!: meta_increment_length_cl append_continuation_sl_cl
          split: if_splits sum.splits prod.splits)
qed

lemma new_sl_cl: "new_sl p (self, dl) = Inr (self', dl') \<Longrightarrow> cl_record self' = cl_record self"
  by (auto simp add: new_sl_def Let_def
        dest!: new_sl_loop_cl meta_increment_length_cl append_continuation_sl_cl append_rr_field_cl
        split: if_splits option.splits sum.splits prod.splits)

lemma place_record_fresh_cl:
  assumes "place_record n here there (self, dl) = Inr (self', dl')"
    and "\<And>s. cl_record (here s) = cl_record s \<and> ce_record (here s) = ce_record s"
    and "\<And>c. cl_record (there c) = cl_record c"
    and "RockRidge_child_link_block_num (self\<lparr>initialized := True\<rparr>) = Inr 0"
  shows "RockRidge_child_link_block_num (self'\<lparr>initialized := True\<rparr>) = Inr 0"
  using assms
  by (auto simp add: place_record_def on_continuation_def RockRidge_child_link_block_num_def
        RockRidgeContinuation_increment_length_def
        split: if_splits sum.splits option.splits)

lemma new_cl_fresh:
  assumes "new_cl True (self, dl) = Inr (self', dl')" and "cl_record self = None"
  shows "RockRidge_child_link_block_num (self'\<lparr>initialized := True\<rparr>) = Inr 0"
  using assms
  by (auto simp add: new_cl_def place_record_def on_continuation_def
        RockRidge_child_link_block_num_def RockRidgeContinuation_increment_length_def
        RRCLRecord_new_def split: if_splits sum.splits option.splits)

lemma new_re_fresh_cl:
  "new_re b (self, dl) = Inr (self', dl') \<Longrightarrow>
   RockRidge_child_link_block_num (self\<lparr>initialized := True\<rparr>) = Inr 0 \<Longrightarrow>
   RockRidge_child_link_block_num (self'\<lparr>initialized := True\<rparr>) = Inr 0"
  by (cases b) (auto simp add: new_re_def elim!: place_record_fresh_cl [rotated 3])

lemma new_pl_fresh_cl:
  "new_pl b (self, dl) = Inr (self', dl') \<Longrightarrow>
   RockRidge_child_link_block_num (self\<lparr>initialized := True\<rparr>) = Inr 0 \<Longrightarrow>
   RockRidge_child_link_block_num (self'\<lparr>initialized := True\<rparr>) = Inr 0"
  by (cases b) (auto simp add: new_pl_def elim!: place_record_fresh_cl [rotated 3])

lemma new_er_fresh_cl:
  "new_er b (self, dl) = Inr (self', dl') \<Longrightarrow>
   RockRidge_child_link_block_num (self\<lparr>initialized := True\<rparr>) = Inr 0 \<Longrightarrow>
   RockRidge_child_link_block_num (self'\<lparr>initialized := True\<rparr>) = Inr 0"
  by (cases b) (auto simp add: new_er_def Let_def elim!: place_record_fresh_cl [rotated 3])

lemma update_child_link_assigns:
  assumes "RockRidge_child_link_block_num e = Inr b"
  shows "\<exists>e'. RockRidge_update_child_link (e\<lparr>child_link := Some extent\<rparr>) = Inr e'
              \<and> RockRidge_child_link_block_num e' = Inr extent"
proof (cases "cl_record e")
  case (Some cl)
  with assms show ?thesis
    by (simp add: RockRidge_child_link_block_num_def RockRidge_update_child_link_def
          RRCLRecord_set_log_block_num_def split: if_splits)
next
  case None
  with assms obtain ce cl where "ce_record e = Some ce" "cl_record (continuation_entry ce) = Some cl"
    "initialized e"
    by (auto simp add: RockRidge_child_link_block_num_def split: if_splits option.splits)
  with None show ?thesis
    by (simp add: RockRidge_child_link_block_num_def RockRidge_update_child_link_def
          RRCLRecord_set_log_block_num_def)
qed

text \<open>
  Claim C6. For an entry freshly constructed by \<open>new()\<close> with the relocated-child flag,
  \<open>child_link_block_num()\<close> raises before any extent has been assigned, and returns the
  assigned block number after the allocator has set the child link and called
  \<open>update_child_link()\<close>.

  The code does not do the first half. \<open>RRCLRecord.new\<close> stores the block number 0 under
  the comment \<open>FIXME: this isn't right\<close>, and \<open>child_link_block_num()\<close> returns whatever
  the CL record stores: before any extent has been assigned it returns 0, a block number
  that no allocator has chosen, where \<open>RockRidgeContinuation.extent_location()\<close> raises in
  the same situation. The theorem states what the code does on every entry that \<open>new()\<close>
  constructs with the flag: \<open>child_link_block_num()\<close> returns 0 instead of raising; and,
  the second half of the claim, once the child link is set \<open>update_child_link()\<close> succeeds
  and \<open>child_link_block_num()\<close> then returns the extent of the child link, whether the CL
  record is in the entry or in its continuation.
\<close>

theorem child_link_block_num_of_new:
  assumes "RockRidge_new RockRidgeBase_init is_first_dir_record_of_root rr_name isdir symlink_path
             rr_version True rr_relocated rr_relocated_parent curr_dr_len clock = Inr (e, n)"
  shows "RockRidge_child_link_block_num e = Inr 0
         \<and> (\<exists>e'. RockRidge_update_child_link (e\<lparr>child_link := Some extent\<rparr>) = Inr e'
                  \<and> RockRidge_child_link_block_num e' = Inr extent)"
proof -
  let ?before = "[new_ce (new_estimate is_first_dir_record_of_root rr_name symlink_path rr_version
                            True rr_relocated rr_relocated_parent curr_dr_len),
                  new_sp is_first_dir_record_of_root, new_rr rr_version, new_nm rr_name,
                  new_px isdir symlink_path, new_sl symlink_path, new_tf clock]"
  let ?after = "[new_re rr_relocated, new_pl rr_relocated_parent, new_er is_first_dir_record_of_root]"
  let ?fresh = "\<lambda>st. RockRidge_child_link_block_num ((fst st)\<lparr>initialized := True\<rparr>) = Inr 0"
  from assms obtain e0 n0 where
    lay: "run_steps (RockRidgeBase_init, curr_dr_len) (?before @ [new_cl True] @ ?after) = Inr (e0, n0)"
    and e: "e = e0\<lparr>initialized := True\<rparr>"
    by (auto simp add: RockRidge_new_def RockRidge_new_layout_def
          split: sum.splits prod.splits if_splits)
  from lay obtain s1 where
    s1: "run_steps (RockRidgeBase_init, curr_dr_len) ?before = Inr s1"
    and r1: "run_steps s1 ([new_cl True] @ ?after) = Inr (e0, n0)"
    unfolding run_steps_append [of _ ?before] by (auto split: sum.splits)
  from r1 obtain s2 where
    s2: "new_cl True s1 = Inr s2" and r2: "run_steps s2 ?after = Inr (e0, n0)"
    by (auto split: sum.splits)
  have "cl_record (fst s1) = None"
  proof (rule run_steps_invariant [OF s1, where P = "\<lambda>st. cl_record (fst st) = None"])
    show "cl_record (fst (RockRidgeBase_init :: RockRidge, curr_dr_len)) = None"
      by (simp add: RockRidgeBase_init_def)
  next
    fix f a b
    assume "f \<in> set ?before" and "cl_record (fst a) = None" and "f a = Inr b"
    then show "cl_record (fst b) = None"
      by (cases a; cases b)
         (auto dest: new_ce_cl new_sp_cl new_rr_cl new_nm_cl new_px_cl new_sl_cl new_tf_cl)
  qed
  with s2 have "?fresh s2"
    by (cases s1; cases s2) (auto dest: new_cl_fresh)
  have "?fresh (e0, n0)"
  proof (rule run_steps_invariant [OF r2, where P = ?fresh])
    show "?fresh s2" by fact
  next
    fix f a b
    assume "f \<in> set ?after" and "?fresh a" and "f a = Inr b"
    then show "?fresh b"
      by (cases a; cases b) (auto dest: new_re_fresh_cl new_pl_fresh_cl new_er_fresh_cl)
  qed
  with e have "RockRidge_child_link_block_num e = Inr 0"
    by simp
  with update_child_link_assigns [of e 0 extent] show ?thesis
    by simp
qed

theorem child_link_block_num_of_new_witness:
  "\<exists>e n. RockRidge_new RockRidgeBase_init False (Some (replicate 200 CHR ''n'')) True None
            ''1.09'' True False False 40 epoch_clock = Inr (e, n)
         \<and> cl_record e = None
         \<and> RockRidge_child_link_block_num e = Inr 0
         \<and> (\<exists>e'. RockRidge_update_child_link (e\<lparr>child_link := Some 25\<rparr>) = Inr e'
                  \<and> RockRidge_child_link_block_num e' = Inr 25)"
proof -
  obtain e n where
    h: "RockRidge_new RockRidgeBase_init False (Some (replicate 200 CHR ''n'')) True None
          ''1.09'' True False False 40 epoch_clock = Inr (e, n)"
    and c: "cl_record e = None"
    by (simp add: new_defs Let_def)
  from child_link_block_num_of_new [OF h, of 25] h c show ?thesis
    by blast
qed

theorem child_link_block_num_before_assignment:
  "(case RockRidge_new RockRidgeBase_init False (Some ''dir'') True None ''1.09''
           True False False 40 epoch_clock of
      Inl e \<Rightarrow> None
    | Inr (e, n) \<Rightarrow> Some (child_link e, RockRidge_child_link_block_num e))
   = Some (None, Inr 0)"
  by (simp add: new_defs Let_def RockRidge_child_link_block_num_def)

subsection \<open>Termination of the parse loop\<close>

lemma parse_loop_returns:
  assumes pos: "\<And>self offset left.
      parse_visits record is_first start (self, offset, left) \<Longrightarrow>
      dispatches record offset left \<Longrightarrow> (1::nat) \<le> of_char (record ! (offset + 2))"
    and vis: "parse_visits record is_first start (self, offset, left)"
  shows "\<exists>r. RockRidgeBase_parse_loop record is_first self offset left = Some r"
  using vis
proof (induction "nat left" arbitrary: self offset left rule: less_induct)
  case less
  show ?case
  proof (cases "dispatches record offset left")
    case False
    then show ?thesis
      by (subst RockRidgeBase_parse_loop.simps) (auto simp add: dispatches_def)
  next
    case True
    let ?n = "of_char (record ! (offset + 2)) :: nat"
    from pos [OF less.prems True] have n: "1 \<le> ?n" .
    show ?thesis
    proof (cases "RockRidgeBase_parse_dispatch record is_first self offset left
                    (slice record offset (offset + 2)) ?n")
      case (Inl e)
      with True show ?thesis
        by (subst RockRidgeBase_parse_loop.simps) (auto simp add: dispatches_def)
    next
      case (Inr self')
      from True have l: "4 \<le> left" by (simp add: dispatches_def)
      have "parse_visits record is_first start (self', offset + ?n, left - int ?n)"
        by (rule visits_next [OF less.prems True Inr])
      moreover have "nat (left - int ?n) < nat left"
        using n l by linarith
      ultimately have "\<exists>r. RockRidgeBase_parse_loop record is_first self' (offset + ?n) (left - int ?n) = Some r"
        by (rule less.hyps [rotated])
      with True Inr l show ?thesis
        by (subst RockRidgeBase_parse_loop.simps) (auto simp add: dispatches_def)
    qed
  qed
qed


lemma parse_loop_zero_length_diverges:
  "RockRidgeBase_parse_loop [CHR ''P'', CHR ''D'', CHR 0x00, CHR 0x01] is_first self 0 4 = None"
proof (cases "RockRidgeBase_parse_loop [CHR ''P'', CHR ''D'', CHR 0x00, CHR 0x01] is_first self 0 4")
  case None
  then show ?thesis .
next
  case (Some y)
  have "\<not> ([CHR ''P'', CHR ''D'', CHR 0x00, CHR 0x01] = [CHR ''P'', CHR ''D'', CHR 0x00, CHR 0x01]
           \<and> (0::nat) = 0 \<and> (4::int) = 4)"
  proof (rule RockRidgeBase_parse_loop.raw_induct
      [where P = "\<lambda>r b s off l y. \<not> (r = [CHR ''P'', CHR ''D'', CHR 0x00, CHR 0x01] \<and> off = 0 \<and> l = 4)",
        OF _ Some])
    fix loop :: "string \<Rightarrow> bool \<Rightarrow> ('a RRCERecord, 'b) RockRidgeBase_scheme \<Rightarrow> nat \<Rightarrow> int
                 \<Rightarrow> (error + ('a RRCERecord, 'b) RockRidgeBase_scheme) option"
    fix r b s off l y
    assume IH: "\<And>r b s off l y. loop r b s off l = Some y \<Longrightarrow>
                  \<not> (r = [CHR ''P'', CHR ''D'', CHR 0x00, CHR 0x01] \<and> off = 0 \<and> l = 4)"
    assume body: "(if l = 0 then Some (Inr s)
      else if l = 1 then
        (if \<not> off < length r then Some (Inl IndexError)
         else if r ! off \<noteq> CHR 0x00 then Some (Inl (PyIsoException ''Invalid pad byte''))
         else Some (Inr s))
      else if l < 4 then
        Some (Inl (PyIsoException ''Not enough bytes left in the System Use field''))
      else if length (slice r off (off + 4)) \<noteq> 4 then Some (Inl StructError)
      else if of_char (r ! (off + 3)) \<noteq> SU_ENTRY_VERSION then
        Some (Inl (PyIsoException ''Invalid RR version''))
      else
        (case RockRidgeBase_parse_dispatch r b s off l
                (slice r off (off + 2)) (of_char (r ! (off + 2))) of
           Inl e \<Rightarrow> Some (Inl e)
         | Inr self' \<Rightarrow>
             loop r b self'
               (off + of_char (r ! (off + 2)))
               (l - int (of_char (r ! (off + 2)))))) = Some y"
    show "\<not> (r = [CHR ''P'', CHR ''D'', CHR 0x00, CHR 0x01] \<and> off = 0 \<and> l = 4)"
    proof
      assume bad: "r = [CHR ''P'', CHR ''D'', CHR 0x00, CHR 0x01] \<and> off = 0 \<and> l = 4"
      with body have "loop r b s off l = Some y"
        by (simp add: slice_def SU_ENTRY_VERSION_def RockRidgeBase_parse_dispatch_def)
      from IH [OF this] bad show False by simp
    qed
  qed
  then show ?thesis by simp
qed

text \<open>
  Claim C9. The parse loop of \<open>_parse\<close> terminates on every input in which each
  dispatched sub-record declares a length \<open>su_len\<close> of at least 1, because every round takes
  \<open>su_len\<close> off the bytes left; a header that declares the length 0 leaves the cursor where
  it is, so termination holds under that precondition only. The second half of the theorem
  is such an input: a PD record of declared length 0, on which \<open>_parse\<close> never returns.
\<close>

theorem parse_terminates_for_positive_lengths:
  "((\<forall>self offset left.
        parse_visits rr_bytes is_first_dir_record_of_root (self0, 0 + skip_bytes, int (length rr_bytes))
          (self, offset, left)
        \<and> dispatches rr_bytes offset left
        \<longrightarrow> (1::nat) \<le> of_char (rr_bytes ! (offset + 2)))
    \<longrightarrow> (\<exists>r. RockRidgeBase_parse self0 rr_bytes skip_bytes is_first_dir_record_of_root = Some r))
   \<and> RockRidgeBase_parse self1 (''PD'' @ [CHR 0x00, CHR 0x01]) 0 is_first1 = None"
proof (intro conjI impI)
  assume pos: "\<forall>self offset left.
        parse_visits rr_bytes is_first_dir_record_of_root (self0, 0 + skip_bytes, int (length rr_bytes))
          (self, offset, left)
        \<and> dispatches rr_bytes offset left
        \<longrightarrow> (1::nat) \<le> of_char (rr_bytes ! (offset + 2))"
  have "\<exists>r. RockRidgeBase_parse_loop rr_bytes is_first_dir_record_of_root self0 (0 + skip_bytes)
              (int (length rr_bytes)) = Some r"
    by (rule parse_loop_returns [where start = "(self0, 0 + skip_bytes, int (length rr_bytes))"])
       (use pos in \<open>auto intro: visits_start\<close>)
  then show "\<exists>r. RockRidgeBase_parse self0 rr_bytes skip_bytes is_first_dir_record_of_root = Some r"
    by (auto simp add: RockRidgeBase_parse_def split: sum.splits)
next
  show "RockRidgeBase_parse self1 (''PD'' @ [CHR 0x00, CHR 0x01]) 0 is_first1 = None"
    by (simp add: RockRidgeBase_parse_def parse_loop_zero_length_diverges)
qed

theorem parse_terminates_for_positive_lengths_witness:
  "\<exists>r. RockRidgeBase_parse (RockRidgeBase_init :: RockRidge)
          (''RR'' @ [CHR 0x05, CHR 0x01, CHR 0x08] @ ''NM'' @ [CHR 0x08, CHR 0x01, CHR 0x00] @ ''foo''
           @ [CHR 0x00]) 0 False = Some r"
proof -
  let ?b = "''RR'' @ [CHR 0x05, CHR 0x01, CHR 0x08] @ ''NM'' @ [CHR 0x08, CHR 0x01, CHR 0x00] @ ''foo''
            @ [CHR 0x00]"
  let ?s = "(RockRidgeBase_init :: RockRidge, 0 + 0 :: nat, int (length ?b))"
  have at: "snd t \<in> {(0, 14), (5, 9), (13, 1)}" if "parse_visits ?b False ?s t" for t
    using that
  proof (induction rule: parse_visits.induct)
    case visits_start
    then show ?case by simp
  next
    case (visits_next self offset left self')
    then show ?case
      by (auto simp add: dispatches_def)
  qed
  have "\<forall>self offset left.
          parse_visits ?b False ?s (self, offset, left) \<and> dispatches ?b offset left
          \<longrightarrow> (1::nat) \<le> of_char (?b ! (offset + 2))"
  proof (intro allI impI, elim conjE)
    fix self :: RockRidge and offset :: nat and left :: int
    assume "parse_visits ?b False ?s (self, offset, left)" and d: "dispatches ?b offset left"
    from at [OF this(1)] have "(offset, left) \<in> {(0, 14), (5, 9), (13, 1)}"
      by simp
    with d show "(1::nat) \<le> of_char (?b ! (offset + 2))"
      by (auto simp add: dispatches_def)
  qed
  with parse_terminates_for_positive_lengths
         [of ?b False "RockRidgeBase_init :: RockRidge" 0, THEN conjunct1]
  show ?thesis by blast
qed

subsection \<open>Packing and unpacking\<close>

text \<open>Four bytes in little-endian order and the number they stand for; \<open>struct.unpack\<close>
  undoes \<open>struct.pack\<close>.\<close>

lemma of_char_le_255: "(of_char c :: nat) \<le> 255"
proof -
  have "(of_char c :: nat) < 256" by simp
  then show ?thesis by linarith
qed

lemma unpack_L_less: "unpack_L s < 4294967296"
  using of_char_le_255 [of "s ! 0"] of_char_le_255 [of "s ! 1"]
        of_char_le_255 [of "s ! 2"] of_char_le_255 [of "s ! 3"]
  unfolding unpack_L_def by linarith

lemma byte_step:
  fixes a m :: nat
  assumes "a < 256"
  shows "(a + 256 * m) mod 256 = a" and "(a + 256 * m) div 256 = m"
  using assms by simp_all

lemma div_65536: "(n::nat) div 65536 = n div 256 div 256"
  by (simp add: div_mult2_eq [symmetric])

lemma div_16777216: "(n::nat) div 16777216 = n div 256 div 256 div 256"
  by (simp add: div_mult2_eq [symmetric])

lemma le32_join:
  fixes n :: nat
  assumes "n < 4294967296"
  shows "n mod 256 + 256 * (n div 256 mod 256) + 65536 * (n div 65536 mod 256)
           + 16777216 * (n div 16777216 mod 256) = n"
proof -
  define n1 where "n1 = n div 256"
  define n2 where "n2 = n1 div 256"
  define n3 where "n3 = n2 div 256"
  have d2: "n div 65536 = n2" and d3: "n div 16777216 = n3"
    by (simp_all only: n1_def n2_def n3_def div_65536 div_16777216)
  have e0: "n = n mod 256 + 256 * n1" and e1: "n1 = n1 mod 256 + 256 * n2"
    and e2: "n2 = n2 mod 256 + 256 * n3"
    by (simp_all add: n1_def n2_def n3_def)
  have "n div 16777216 < 256"
    by (rule less_mult_imp_div_less) (use assms in simp)
  then have "n3 mod 256 = n3" by (simp add: d3)
  with e0 e1 e2 show ?thesis
    unfolding d2 d3 n1_def [symmetric] by linarith
qed

lemma unpack_pack_L:
  assumes n: "n < 4294967296"
  shows "unpack_L (pack_L n) = n"
proof -
  have "unpack_L (pack_L n) = n mod 256 + 256 * (n div 256 mod 256)
          + 65536 * (n div 65536 mod 256) + 16777216 * (n div 16777216 mod 256)"
    by (simp only: unpack_L_def pack_L_def nth_Cons_0 nth_Cons_numeral nth_Cons_Suc
          of_char_of One_nat_def numeral_2_eq_2 numeral_3_eq_3 diff_Suc_1 pred_numeral_simps)
  also have "\<dots> = n"
    by (rule le32_join [OF n])
  finally show ?thesis .
qed

lemma le32_split:
  fixes a b c d :: nat
  assumes "a < 256" "b < 256" "c < 256" "d < 256"
  shows "(a + 256 * (b + 256 * (c + 256 * d))) mod 256 = a"
    and "(a + 256 * (b + 256 * (c + 256 * d))) div 256 mod 256 = b"
    and "(a + 256 * (b + 256 * (c + 256 * d))) div 65536 mod 256 = c"
    and "(a + 256 * (b + 256 * (c + 256 * d))) div 16777216 mod 256 = d"
  using assms by (simp_all only: div_65536 div_16777216 byte_step mod_less)

lemma char_of_eqI: "n mod 256 = of_char c \<Longrightarrow> char_of (n::nat) = c"
  by (metis char_of_char char_of_mod_256)

lemma pack_unpack_L: "pack_L (unpack_L [a, b, c, d]) = [a, b, c, d]"
proof -
  let ?a = "of_char a :: nat" and ?b = "of_char b :: nat"
  let ?c = "of_char c :: nat" and ?d = "of_char d :: nat"
  let ?v = "?a + 256 * (?b + 256 * (?c + 256 * ?d))"
  have v: "unpack_L [a, b, c, d] = ?v"
    by (simp add: unpack_L_def)
  have lt: "?a < 256" "?b < 256" "?c < 256" "?d < 256" by simp_all
  have "char_of ?v = a" "char_of (?v div 256) = b" "char_of (?v div 65536) = c"
    "char_of (?v div 16777216) = d"
    by (rule char_of_eqI, rule le32_split [OF lt])+
  then show ?thesis
    by (simp only: v pack_L_def)
qed

lemma swab_32bit_less: "swab_32bit n < 4294967296"
  by (simp only: swab_32bit_def unpack_L_less)

lemma pack_L_swab: "pack_L (swab_32bit n) = rev (pack_L n)"
proof -
  have "rev (pack_L n) = [char_of (n div 16777216), char_of (n div 65536), char_of (n div 256), char_of n]"
    by (simp only: pack_L_def rev.simps append.simps)
  then show ?thesis
    by (simp only: swab_32bit_def pack_unpack_L)
qed

lemma swab_swab: "n < 4294967296 \<Longrightarrow> swab_32bit (swab_32bit n) = n"
  by (metis pack_L_swab rev_rev_ident swab_32bit_def unpack_pack_L)

lemma length_pack_L [simp]: "length (pack_L n) = 4"
  by (simp add: pack_L_def)

lemma struct_unpack_pack:
  "struct_pack fmt vs = Inr s \<Longrightarrow> struct_unpack fmt s = Inr vs"
proof (induction fmt vs arbitrary: s rule: struct_pack.induct)
  case 1
  then show ?case by simp
next
  case (2 f fs v vs)
  show ?case
  proof (cases "f = CHR ''B'' \<and> v < 256")
    case True
    with "2.prems" obtain t where t: "struct_pack fs vs = Inr t" and s: "s = char_of v # t"
      by (auto split: sum.splits)
    from "2.IH"(1) [OF True t] True s show ?thesis by simp
  next
    case False
    with "2.prems" have L: "f = CHR ''L'' \<and> v < 4294967296"
      by (auto split: if_splits)
    with False "2.prems" obtain t where t: "struct_pack fs vs = Inr t" and s: "s = pack_L v @ t"
      by (auto split: sum.splits)
    from "2.IH"(2) [OF False L t] L s show ?thesis
      by (simp add: unpack_pack_L)
  qed
qed simp_all

lemma struct_pack_length:
  "struct_pack fmt vs = Inr s \<Longrightarrow>
   length s = length (filter (\<lambda>f. f = CHR ''B'') fmt) + 4 * length (filter (\<lambda>f. f = CHR ''L'') fmt)"
proof (induction fmt vs arbitrary: s rule: struct_pack.induct)
  case (2 f fs v vs)
  then show ?case
    by (auto split: if_splits sum.splits)
qed simp_all

lemma struct_pack_range:
  "struct_pack fmt vs = Inr s \<Longrightarrow> \<forall>v \<in> set vs. v < 4294967296"
proof (induction fmt vs arbitrary: s rule: struct_pack.induct)
  case (2 f fs v vs)
  then show ?case
    by (auto split: if_splits sum.splits)
qed simp_all

lemma slice_prefix2 [simp]: "length p = n - 2 \<Longrightarrow> slice (a # b # p @ rest) 2 n = p"
  by (simp add: slice_def)

subsection \<open>Dual-endian fields\<close>

lemma dual_field_at:
  assumes "s = pre @ pack_L x @ pack_L (swab_32bit x) @ post" and "length pre = i"
    and "x < 4294967296"
  shows "unpack_L (slice s i (i + 4)) = x"
    and "unpack_L (slice s (i + 4) (i + 8)) = swab_32bit x"
proof -
  from assms(1,2) have "slice s i (i + 4) = pack_L x"
    by (simp add: slice_def)
  with assms(3) show "unpack_L (slice s i (i + 4)) = x"
    by (simp add: unpack_pack_L)
  from assms(1,2) have "slice s (i + 4) (i + 8) = pack_L (swab_32bit x)"
    by (simp add: slice_def)
  then show "unpack_L (slice s (i + 4) (i + 8)) = swab_32bit x"
    by (simp add: unpack_pack_L swab_32bit_less)
qed

lemma CL_encodes_dual:
  assumes "child_log_block_num r < 4294967296"
  shows "\<exists>s. RRCLRecord_record r = Inr s
           \<and> unpack_L (slice s 4 8) = child_log_block_num r
           \<and> unpack_L (slice s 8 12) = swab_32bit (child_log_block_num r)"
proof -
  let ?x = "child_log_block_num r"
  let ?s = "''CL'' @ [char_of RRCLRecord_length, char_of SU_ENTRY_VERSION] @ pack_L ?x @ pack_L (swab_32bit ?x)"
  have r: "RRCLRecord_record r = Inr ?s"
    using assms by (simp add: RRCLRecord_record_def RRCLRecord_length_def SU_ENTRY_VERSION_def
      swab_32bit_less)
  have "?s = (''CL'' @ [char_of RRCLRecord_length, char_of SU_ENTRY_VERSION]) @ pack_L ?x @ pack_L (swab_32bit ?x) @ []"
    by simp
  from dual_field_at [OF this _ assms, of 4] r show ?thesis
    by simp
qed


lemma PL_encodes_dual:
  assumes "parent_log_block_num r < 4294967296"
  shows "\<exists>s. RRPLRecord_record r = Inr s
           \<and> unpack_L (slice s 4 8) = parent_log_block_num r
           \<and> unpack_L (slice s 8 12) = swab_32bit (parent_log_block_num r)"
proof -
  let ?x = "parent_log_block_num r"
  let ?s = "''PL'' @ [char_of RRPLRecord_length, char_of SU_ENTRY_VERSION] @ pack_L ?x @ pack_L (swab_32bit ?x)"
  have r: "RRPLRecord_record r = Inr ?s"
    using assms by (simp add: RRPLRecord_record_def RRPLRecord_length_def SU_ENTRY_VERSION_def
      swab_32bit_less)
  have "?s = (''PL'' @ [char_of RRPLRecord_length, char_of SU_ENTRY_VERSION]) @ pack_L ?x @ pack_L (swab_32bit ?x) @ []"
    by simp
  from dual_field_at [OF this _ assms, of 4] r show ?thesis
    by simp
qed

lemma PN_encodes_dual:
  assumes h: "dev_t_high r < 4294967296" and l: "dev_t_low r < 4294967296"
  shows "\<exists>s. RRPNRecord_record r = Inr s
           \<and> unpack_L (slice s 4 8) = dev_t_high r
           \<and> unpack_L (slice s 8 12) = swab_32bit (dev_t_high r)
           \<and> unpack_L (slice s 12 16) = dev_t_low r
           \<and> unpack_L (slice s 16 20) = swab_32bit (dev_t_low r)"
proof -
  let ?h = "dev_t_high r" and ?l = "dev_t_low r"
  let ?hd = "''PN'' @ [char_of RRPNRecord_length, char_of SU_ENTRY_VERSION]"
  let ?s = "?hd @ pack_L ?h @ pack_L (swab_32bit ?h) @ pack_L ?l @ pack_L (swab_32bit ?l)"
  have r: "RRPNRecord_record r = Inr ?s"
    using assms by (simp add: RRPNRecord_record_def RRPNRecord_length_def SU_ENTRY_VERSION_def
      swab_32bit_less)
  have 1: "?s = ?hd @ pack_L ?h @ pack_L (swab_32bit ?h) @ (pack_L ?l @ pack_L (swab_32bit ?l))"
    and 2: "?s = (?hd @ pack_L ?h @ pack_L (swab_32bit ?h)) @ pack_L ?l @ pack_L (swab_32bit ?l) @ []"
    by simp_all
  from dual_field_at [OF 1 _ h, of 4] dual_field_at [OF 2 _ l, of 12] r show ?thesis
    by simp
qed

lemma SF_encodes_dual:
  assumes h: "virtual_file_size_high r < 4294967296" and l: "virtual_file_size_low r < 4294967296"
    and d: "table_depth r < 256"
  shows "\<exists>s. RRSFRecord_record r = Inr s
           \<and> unpack_L (slice s 4 8) = virtual_file_size_high r
           \<and> unpack_L (slice s 8 12) = swab_32bit (virtual_file_size_high r)
           \<and> unpack_L (slice s 12 16) = virtual_file_size_low r
           \<and> unpack_L (slice s 16 20) = swab_32bit (virtual_file_size_low r)"
proof -
  let ?h = "virtual_file_size_high r" and ?l = "virtual_file_size_low r"
  let ?hd = "''SF'' @ [char_of RRSFRecord_length, char_of SU_ENTRY_VERSION]"
  let ?s = "?hd @ pack_L ?h @ pack_L (swab_32bit ?h) @ pack_L ?l @ pack_L (swab_32bit ?l)
            @ [char_of (table_depth r)]"
  have r: "RRSFRecord_record r = Inr ?s"
    using assms by (simp add: RRSFRecord_record_def RRSFRecord_length_def SU_ENTRY_VERSION_def
      swab_32bit_less)
  have 1: "?s = ?hd @ pack_L ?h @ pack_L (swab_32bit ?h)
             @ (pack_L ?l @ pack_L (swab_32bit ?l) @ [char_of (table_depth r)])"
    and 2: "?s = (?hd @ pack_L ?h @ pack_L (swab_32bit ?h)) @ pack_L ?l @ pack_L (swab_32bit ?l)
             @ [char_of (table_depth r)]"
    by simp_all
  from dual_field_at [OF 1 _ h, of 4] dual_field_at [OF 2 _ l, of 12] r show ?thesis
    by simp
qed

lemma CE_encodes_dual:
  assumes e: "RockRidgeContinuation_extent_location (continuation_entry r) = Inr loc"
    and a: "loc < 4294967296"
    and b: "continue_offset (continuation_entry r) < 4294967296"
    and c: "continue_length (continuation_entry r) < 4294967296"
  shows "\<exists>s. RRCERecord_record r = Inr s
           \<and> unpack_L (slice s 4 8) = loc
           \<and> unpack_L (slice s 8 12) = swab_32bit loc
           \<and> unpack_L (slice s 12 16) = continue_offset (continuation_entry r)
           \<and> unpack_L (slice s 16 20) = swab_32bit (continue_offset (continuation_entry r))
           \<and> unpack_L (slice s 20 24) = continue_length (continuation_entry r)
           \<and> unpack_L (slice s 24 28) = swab_32bit (continue_length (continuation_entry r))"
proof -
  let ?b = "continue_offset (continuation_entry r)" and ?c = "continue_length (continuation_entry r)"
  let ?hd = "''CE'' @ [char_of RRCERecord_length, char_of SU_ENTRY_VERSION]"
  let ?s = "?hd @ pack_L loc @ pack_L (swab_32bit loc) @ pack_L ?b @ pack_L (swab_32bit ?b)
            @ pack_L ?c @ pack_L (swab_32bit ?c)"
  have r: "RRCERecord_record r = Inr ?s"
    using assms by (simp add: RRCERecord_record_def RRCERecord_length_def SU_ENTRY_VERSION_def
      swab_32bit_less RockRidgeContinuation_offset_def RockRidgeContinuation_length_def Let_def)
  have 1: "?s = ?hd @ pack_L loc @ pack_L (swab_32bit loc)
             @ (pack_L ?b @ pack_L (swab_32bit ?b) @ pack_L ?c @ pack_L (swab_32bit ?c))"
    and 2: "?s = (?hd @ pack_L loc @ pack_L (swab_32bit loc)) @ pack_L ?b @ pack_L (swab_32bit ?b)
             @ (pack_L ?c @ pack_L (swab_32bit ?c))"
    and 3: "?s = (?hd @ pack_L loc @ pack_L (swab_32bit loc) @ pack_L ?b @ pack_L (swab_32bit ?b))
             @ pack_L ?c @ pack_L (swab_32bit ?c) @ []"
    by simp_all
  from dual_field_at [OF 1 _ a, of 4] dual_field_at [OF 2 _ b, of 12]
    dual_field_at [OF 3 _ c, of 20] r show ?thesis
    by simp
qed

lemma PX_encodes_dual:
  assumes m: "posix_file_mode r < 4294967296" and l: "posix_file_links r < 4294967296"
    and u: "posix_user_id r < 4294967296" and g: "posix_group_id r < 4294967296"
    and n: "posix_serial_number r < 4294967296"
  shows "\<exists>s. RRPXRecord_record r rr_version = Inr s
           \<and> unpack_L (slice s 4 8) = posix_file_mode r
           \<and> unpack_L (slice s 8 12) = swab_32bit (posix_file_mode r)
           \<and> unpack_L (slice s 12 16) = posix_file_links r
           \<and> unpack_L (slice s 16 20) = swab_32bit (posix_file_links r)
           \<and> unpack_L (slice s 20 24) = posix_user_id r
           \<and> unpack_L (slice s 24 28) = swab_32bit (posix_user_id r)
           \<and> unpack_L (slice s 28 32) = posix_group_id r
           \<and> unpack_L (slice s 32 36) = swab_32bit (posix_group_id r)
           \<and> (rr_version \<noteq> ''1.09'' \<longrightarrow>
                unpack_L (slice s 36 40) = posix_serial_number r
              \<and> unpack_L (slice s 40 44) = swab_32bit (posix_serial_number r))"
proof -
  let ?m = "posix_file_mode r" and ?l = "posix_file_links r" and ?u = "posix_user_id r"
  let ?g = "posix_group_id r" and ?n = "posix_serial_number r"
  let ?hd = "''PX'' @ [char_of (RRPXRecord_length ''1.09''), char_of SU_ENTRY_VERSION]"
  let ?t = "if rr_version \<noteq> ''1.09'' then pack_L ?n @ pack_L (swab_32bit ?n) else []"
  let ?s = "?hd @ pack_L ?m @ pack_L (swab_32bit ?m) @ pack_L ?l @ pack_L (swab_32bit ?l)
            @ pack_L ?u @ pack_L (swab_32bit ?u) @ pack_L ?g @ pack_L (swab_32bit ?g) @ ?t"
  have r: "RRPXRecord_record r rr_version = Inr ?s"
    using assms by (simp add: RRPXRecord_record_def RRPXRecord_length_def SU_ENTRY_VERSION_def
      swab_32bit_less)
  have 1: "?s = ?hd @ pack_L ?m @ pack_L (swab_32bit ?m) @ (pack_L ?l @ pack_L (swab_32bit ?l)
            @ pack_L ?u @ pack_L (swab_32bit ?u) @ pack_L ?g @ pack_L (swab_32bit ?g) @ ?t)"
    and 2: "?s = (?hd @ pack_L ?m @ pack_L (swab_32bit ?m)) @ pack_L ?l @ pack_L (swab_32bit ?l)
            @ (pack_L ?u @ pack_L (swab_32bit ?u) @ pack_L ?g @ pack_L (swab_32bit ?g) @ ?t)"
    and 3: "?s = (?hd @ pack_L ?m @ pack_L (swab_32bit ?m) @ pack_L ?l @ pack_L (swab_32bit ?l))
            @ pack_L ?u @ pack_L (swab_32bit ?u) @ (pack_L ?g @ pack_L (swab_32bit ?g) @ ?t)"
    and 4: "?s = (?hd @ pack_L ?m @ pack_L (swab_32bit ?m) @ pack_L ?l @ pack_L (swab_32bit ?l)
            @ pack_L ?u @ pack_L (swab_32bit ?u)) @ pack_L ?g @ pack_L (swab_32bit ?g) @ ?t"
    by simp_all
  have 5: "rr_version \<noteq> ''1.09'' \<Longrightarrow>
       ?s = (?hd @ pack_L ?m @ pack_L (swab_32bit ?m) @ pack_L ?l @ pack_L (swab_32bit ?l)
            @ pack_L ?u @ pack_L (swab_32bit ?u) @ pack_L ?g @ pack_L (swab_32bit ?g))
            @ pack_L ?n @ pack_L (swab_32bit ?n) @ []"
    by simp
  have "rr_version \<noteq> ''1.09'' \<longrightarrow>
          unpack_L (slice ?s 36 40) = ?n \<and> unpack_L (slice ?s 40 44) = swab_32bit ?n"
    using dual_field_at [OF 5 _ n, of 36] by simp
  with dual_field_at [OF 1 _ m, of 4] dual_field_at [OF 2 _ l, of 12]
    dual_field_at [OF 3 _ u, of 20] dual_field_at [OF 4 _ g, of 28] r show ?thesis
    by simp
qed

lemma struct_unpack_BBLL:
  assumes "struct_unpack ''BBLL'' t = Inr vs"
  shows "length t = 10" and "vs ! 2 = unpack_L (take 4 (drop 2 t))"
    and "vs ! 3 = unpack_L (take 4 (drop 6 t))"
  using assms by (auto split: if_splits sum.splits simp add: numeral_2_eq_2)

lemma slice_of_slice:
  assumes "length (slice s 2 12) = 10"
  shows "take 4 (drop 2 (slice s 2 12)) = slice s 4 8"
    and "take 4 (drop 6 (slice s 2 12)) = slice s 8 12"
  using assms by (simp_all add: slice_def drop_take)

lemma swab_eq_iff:
  "(unpack_L a = swab_32bit (unpack_L b)) = (unpack_L b = swab_32bit (unpack_L a))"
  by (metis swab_swab unpack_L_less)

lemma CL_rejects_mismatch:
  assumes "unpack_L (slice rrstr 8 12) \<noteq> swab_32bit (unpack_L (slice rrstr 4 8))"
  shows "\<exists>e. RRCLRecord_parse rrstr = Inl e"
proof (cases "struct_unpack ''BBLL'' (slice rrstr 2 12)")
  case (Inl e)
  then show ?thesis by (simp add: RRCLRecord_parse_def)
next
  case (Inr vs)
  from struct_unpack_BBLL [OF Inr] slice_of_slice [of rrstr]
  have "vs ! 2 = unpack_L (slice rrstr 4 8)" "vs ! 3 = unpack_L (slice rrstr 8 12)"
    by simp_all
  with assms swab_eq_iff [of "slice rrstr 4 8" "slice rrstr 8 12"] show ?thesis
    unfolding RRCLRecord_parse_def Inr by (simp add: Let_def)
qed

lemma PL_rejects_mismatch:
  assumes "unpack_L (slice rrstr 8 12) \<noteq> swab_32bit (unpack_L (slice rrstr 4 8))"
  shows "\<exists>e. RRPLRecord_parse rrstr = Inl e"
proof (cases "struct_unpack ''BBLL'' (slice rrstr 2 12)")
  case (Inl e)
  then show ?thesis by (simp add: RRPLRecord_parse_def)
next
  case (Inr vs)
  from struct_unpack_BBLL [OF Inr] slice_of_slice [of rrstr]
  have "vs ! 2 = unpack_L (slice rrstr 4 8)" "vs ! 3 = unpack_L (slice rrstr 8 12)"
    by simp_all
  with assms swab_eq_iff [of "slice rrstr 4 8" "slice rrstr 8 12"] show ?thesis
    unfolding RRPLRecord_parse_def Inr by (simp add: Let_def)
qed

lemma unpack_L_at [simp]:
  "unpack_L (take 4 (pack_L x @ rest)) = unpack_L (pack_L x)"
  by simp

lemma PN_accepts_any_copy:
  assumes "h < 4294967296" and "l < 4294967296"
  shows "RRPNRecord_parse (''PN'' @ [char_of RRPNRecord_length, ver] @ pack_L h @ [b0, b1, b2, b3]
           @ pack_L l @ [c0, c1, c2, c3] @ rest)
         = Inr \<lparr>dev_t_high = h, dev_t_low = l\<rparr>"
  using assms
  by (simp add: RRPNRecord_parse_def RRPNRecord_length_def slice_def unpack_pack_L)

lemma SF_accepts_any_copy:
  assumes "h < 4294967296" and "l < 4294967296"
  shows "RRSFRecord_parse (''SF'' @ [char_of RRSFRecord_length, ver] @ pack_L h @ [b0, b1, b2, b3]
           @ pack_L l @ [c0, c1, c2, c3] @ [d] @ rest)
         = Inr \<lparr>virtual_file_size_high = h, virtual_file_size_low = l, table_depth = of_char d\<rparr>"
  using assms
  by (simp add: RRSFRecord_parse_def RRSFRecord_length_def slice_def unpack_pack_L)

lemma CE_accepts_any_copy:
  assumes "a < 4294967296" and "b < 4294967296" and "c < 4294967296"
  shows "RRCERecord_parse (''CE'' @ [char_of RRCERecord_length, ver] @ pack_L a @ [a0, a1, a2, a3]
           @ pack_L b @ [b0, b1, b2, b3] @ pack_L c @ [c0, c1, c2, c3] @ rest)
         = Inr \<lparr>continuation_entry = RockRidgeContinuation_init
                  \<lparr>orig_extent_loc := Some a, continue_offset := b, continue_length := c\<rparr>\<rparr>"
  using assms
  by (simp add: RRCERecord_parse_def RRCERecord_length_def slice_def unpack_pack_L
        RockRidgeContinuation_increment_length_def RockRidgeContinuation_init_def)

lemma PX_accepts_any_copy:
  assumes "m < 4294967296" and "l < 4294967296" and "u < 4294967296" and "g < 4294967296"
  shows "RRPXRecord_parse (''PX'' @ [char_of (36::nat), ver] @ pack_L m @ [m0, m1, m2, m3]
           @ pack_L l @ [l0, l1, l2, l3] @ pack_L u @ [u0, u1, u2, u3]
           @ pack_L g @ [g0, g1, g2, g3] @ rest)
         = Inr \<lparr>posix_file_mode = m, posix_file_links = l, posix_user_id = u,
                posix_group_id = g, posix_serial_number = 0\<rparr>"
  using assms
  by (simp add: RRPXRecord_parse_def slice_def unpack_pack_L)

lemma PX_long_accepts_any_copy:
  assumes "m < 4294967296" and "l < 4294967296" and "u < 4294967296" and "g < 4294967296"
    and "n < 4294967296"
  shows "RRPXRecord_parse (''PX'' @ [char_of (44::nat), ver] @ pack_L m @ [m0, m1, m2, m3]
           @ pack_L l @ [l0, l1, l2, l3] @ pack_L u @ [u0, u1, u2, u3]
           @ pack_L g @ [g0, g1, g2, g3] @ pack_L n @ [n0, n1, n2, n3] @ rest)
         = Inr \<lparr>posix_file_mode = m, posix_file_links = l, posix_user_id = u,
                posix_group_id = g, posix_serial_number = n\<rparr>"
  using assms
  by (simp add: RRPXRecord_parse_def slice_def unpack_pack_L)

text \<open>
  Claim C3. For each of the CL, PL, PX, PN, CE and SF records, encoding emits every
  dual-endian field as the little-endian value followed by its byte-swapped copy, and
  decoding raises an error on every input in which the big-endian copy is not the byte
  swap of the little-endian value.

  The encoding half holds for all six records. The decoding half holds for CL and PL only:
  the decoders of PX, PN, CE and SF unpack both copies and use the little-endian one
  without comparing them. As amended and proved here: for values that fit their fields
  and, for CE, a continuation whose extent has been assigned (\<open>extent_location()\<close> raises
  otherwise), \<open>record()\<close> succeeds and each big-endian copy it emits is the byte swap of
  the little-endian value before it; \<open>RRCLRecord.parse\<close> and \<open>RRPLRecord.parse\<close> raise on
  every input whose copies disagree; the PX decoder, in its branch for the length 36 and
  in its branch for the length 44 with the serial number as fifth field, and the PN, CE
  and SF decoders accept any four bytes in the place of a big-endian copy and return the
  little-endian values.
\<close>

theorem dual_endian_fields:
  "(child_log_block_num cl < 4294967296 \<longrightarrow>
      (\<exists>s. RRCLRecord_record cl = Inr s
         \<and> unpack_L (slice s 4 8) = child_log_block_num cl
         \<and> unpack_L (slice s 8 12) = swab_32bit (child_log_block_num cl)))
   \<and> (parent_log_block_num pl < 4294967296 \<longrightarrow>
      (\<exists>s. RRPLRecord_record pl = Inr s
         \<and> unpack_L (slice s 4 8) = parent_log_block_num pl
         \<and> unpack_L (slice s 8 12) = swab_32bit (parent_log_block_num pl)))
   \<and> (posix_file_mode px < 4294967296 \<and> posix_file_links px < 4294967296
        \<and> posix_user_id px < 4294967296 \<and> posix_group_id px < 4294967296
        \<and> posix_serial_number px < 4294967296 \<longrightarrow>
      (\<exists>s. RRPXRecord_record px rr_version = Inr s
         \<and> unpack_L (slice s 4 8) = posix_file_mode px
         \<and> unpack_L (slice s 8 12) = swab_32bit (posix_file_mode px)
         \<and> unpack_L (slice s 12 16) = posix_file_links px
         \<and> unpack_L (slice s 16 20) = swab_32bit (posix_file_links px)
         \<and> unpack_L (slice s 20 24) = posix_user_id px
         \<and> unpack_L (slice s 24 28) = swab_32bit (posix_user_id px)
         \<and> unpack_L (slice s 28 32) = posix_group_id px
         \<and> unpack_L (slice s 32 36) = swab_32bit (posix_group_id px)
         \<and> (rr_version \<noteq> ''1.09'' \<longrightarrow>
              unpack_L (slice s 36 40) = posix_serial_number px
            \<and> unpack_L (slice s 40 44) = swab_32bit (posix_serial_number px))))
   \<and> (dev_t_high pn < 4294967296 \<and> dev_t_low pn < 4294967296 \<longrightarrow>
      (\<exists>s. RRPNRecord_record pn = Inr s
         \<and> unpack_L (slice s 4 8) = dev_t_high pn
         \<and> unpack_L (slice s 8 12) = swab_32bit (dev_t_high pn)
         \<and> unpack_L (slice s 12 16) = dev_t_low pn
         \<and> unpack_L (slice s 16 20) = swab_32bit (dev_t_low pn)))
   \<and> (RockRidgeContinuation_extent_location (continuation_entry ce) = Inr loc
        \<and> loc < 4294967296 \<and> continue_offset (continuation_entry ce) < 4294967296
        \<and> continue_length (continuation_entry ce) < 4294967296 \<longrightarrow>
      (\<exists>s. RRCERecord_record ce = Inr s
         \<and> unpack_L (slice s 4 8) = loc
         \<and> unpack_L (slice s 8 12) = swab_32bit loc
         \<and> unpack_L (slice s 12 16) = continue_offset (continuation_entry ce)
         \<and> unpack_L (slice s 16 20) = swab_32bit (continue_offset (continuation_entry ce))
         \<and> unpack_L (slice s 20 24) = continue_length (continuation_entry ce)
         \<and> unpack_L (slice s 24 28) = swab_32bit (continue_length (continuation_entry ce))))
   \<and> (virtual_file_size_high sf < 4294967296 \<and> virtual_file_size_low sf < 4294967296
        \<and> table_depth sf < 256 \<longrightarrow>
      (\<exists>s. RRSFRecord_record sf = Inr s
         \<and> unpack_L (slice s 4 8) = virtual_file_size_high sf
         \<and> unpack_L (slice s 8 12) = swab_32bit (virtual_file_size_high sf)
         \<and> unpack_L (slice s 12 16) = virtual_file_size_low sf
         \<and> unpack_L (slice s 16 20) = swab_32bit (virtual_file_size_low sf)))
   \<and> (unpack_L (slice rrstr 8 12) \<noteq> swab_32bit (unpack_L (slice rrstr 4 8)) \<longrightarrow>
      (\<exists>e. RRCLRecord_parse rrstr = Inl e) \<and> (\<exists>e. RRPLRecord_parse rrstr = Inl e))
   \<and> (va < 4294967296 \<and> vb < 4294967296 \<and> vc < 4294967296 \<and> vd < 4294967296 \<longrightarrow>
      RRPXRecord_parse (''PX'' @ [char_of (36::nat), ver] @ pack_L va @ [ka, kb, kc, kd]
           @ pack_L vb @ [la, lb, lc, ld] @ pack_L vc @ [ma, mb, mc, md]
           @ pack_L vd @ [na, nb, nc, nd] @ rest)
        = Inr \<lparr>posix_file_mode = va, posix_file_links = vb, posix_user_id = vc,
               posix_group_id = vd, posix_serial_number = 0\<rparr>
    \<and> RRPNRecord_parse (''PN'' @ [char_of RRPNRecord_length, ver] @ pack_L va @ [ka, kb, kc, kd]
           @ pack_L vb @ [la, lb, lc, ld] @ rest)
        = Inr \<lparr>dev_t_high = va, dev_t_low = vb\<rparr>
    \<and> RRCERecord_parse (''CE'' @ [char_of RRCERecord_length, ver] @ pack_L va @ [ka, kb, kc, kd]
           @ pack_L vb @ [la, lb, lc, ld] @ pack_L vc @ [ma, mb, mc, md] @ rest)
        = Inr (\<lparr>continuation_entry = RockRidgeContinuation_init
                  \<lparr>orig_extent_loc := Some va, continue_offset := vb, continue_length := vc\<rparr>\<rparr>
               :: 'c RRCERecord)
    \<and> RRSFRecord_parse (''SF'' @ [char_of RRSFRecord_length, ver] @ pack_L va @ [ka, kb, kc, kd]
           @ pack_L vb @ [la, lb, lc, ld] @ [na] @ rest)
        = Inr \<lparr>virtual_file_size_high = va, virtual_file_size_low = vb,
               table_depth = of_char na\<rparr>)
   \<and> (va < 4294967296 \<and> vb < 4294967296 \<and> vc < 4294967296 \<and> vd < 4294967296
        \<and> ve < 4294967296 \<longrightarrow>
      RRPXRecord_parse (''PX'' @ [char_of (44::nat), ver] @ pack_L va @ [ka, kb, kc, kd]
           @ pack_L vb @ [la, lb, lc, ld] @ pack_L vc @ [ma, mb, mc, md]
           @ pack_L vd @ [na, nb, nc, nd] @ pack_L ve @ [oa, ob, oc, od] @ rest)
        = Inr \<lparr>posix_file_mode = va, posix_file_links = vb, posix_user_id = vc,
               posix_group_id = vd, posix_serial_number = ve\<rparr>)"
proof (intro conjI impI; (elim conjE)?)
  show "\<exists>s. RRCLRecord_record cl = Inr s
         \<and> unpack_L (slice s 4 8) = child_log_block_num cl
         \<and> unpack_L (slice s 8 12) = swab_32bit (child_log_block_num cl)"
    if "child_log_block_num cl < 4294967296"
    using that by (rule CL_encodes_dual)
qed (rule PL_encodes_dual PX_encodes_dual PN_encodes_dual CE_encodes_dual SF_encodes_dual
      CL_rejects_mismatch PL_rejects_mismatch PX_accepts_any_copy PN_accepts_any_copy
      CE_accepts_any_copy SF_accepts_any_copy PX_long_accepts_any_copy; assumption)+

theorem PN_parse_accepts_mismatch:
  "RRPNRecord_parse (''PN'' @ [CHR 0x14, CHR 0x01,
        CHR 0x01, CHR 0x00, CHR 0x00, CHR 0x00,  CHR 0xFF, CHR 0xFF, CHR 0xFF, CHR 0xFF,
        CHR 0x02, CHR 0x00, CHR 0x00, CHR 0x00,  CHR 0x00, CHR 0x00, CHR 0x00, CHR 0x00])
     = Inr \<lparr>dev_t_high = 1, dev_t_low = 2\<rparr>
   \<and> unpack_L [CHR 0xFF, CHR 0xFF, CHR 0xFF, CHR 0xFF]
       \<noteq> swab_32bit (unpack_L [CHR 0x01, CHR 0x00, CHR 0x00, CHR 0x00])"
  by (simp add: RRPNRecord_parse_def RRPNRecord_length_def slice_def unpack_L_def swab_32bit_def
        pack_L_def)

theorem dual_endian_fields_witness:
  "(child_log_block_num \<lparr>child_log_block_num = 24\<rparr> < 4294967296 \<and>
      (\<exists>s. RRCLRecord_record \<lparr>child_log_block_num = 24\<rparr> = Inr s
         \<and> unpack_L (slice s 4 8) = child_log_block_num \<lparr>child_log_block_num = 24\<rparr>
         \<and> unpack_L (slice s 8 12) = swab_32bit (child_log_block_num \<lparr>child_log_block_num = 24\<rparr>)))
   \<and> (parent_log_block_num \<lparr>parent_log_block_num = 25\<rparr> < 4294967296 \<and>
      (\<exists>s. RRPLRecord_record \<lparr>parent_log_block_num = 25\<rparr> = Inr s
         \<and> unpack_L (slice s 4 8) = parent_log_block_num \<lparr>parent_log_block_num = 25\<rparr>
         \<and> unpack_L (slice s 8 12) = swab_32bit (parent_log_block_num \<lparr>parent_log_block_num = 25\<rparr>)))
   \<and> (posix_file_mode \<lparr>posix_file_mode = 33060, posix_file_links = 1, posix_user_id = 0, posix_group_id = 0, posix_serial_number = 7\<rparr> < 4294967296 \<and> posix_file_links \<lparr>posix_file_mode = 33060, posix_file_links = 1, posix_user_id = 0, posix_group_id = 0, posix_serial_number = 7\<rparr> < 4294967296
        \<and> posix_user_id \<lparr>posix_file_mode = 33060, posix_file_links = 1, posix_user_id = 0, posix_group_id = 0, posix_serial_number = 7\<rparr> < 4294967296 \<and> posix_group_id \<lparr>posix_file_mode = 33060, posix_file_links = 1, posix_user_id = 0, posix_group_id = 0, posix_serial_number = 7\<rparr> < 4294967296
        \<and> posix_serial_number \<lparr>posix_file_mode = 33060, posix_file_links = 1, posix_user_id = 0, posix_group_id = 0, posix_serial_number = 7\<rparr> < 4294967296 \<and>
      (\<exists>s. RRPXRecord_record \<lparr>posix_file_mode = 33060, posix_file_links = 1, posix_user_id = 0, posix_group_id = 0, posix_serial_number = 7\<rparr> ''1.12'' = Inr s
         \<and> unpack_L (slice s 4 8) = posix_file_mode \<lparr>posix_file_mode = 33060, posix_file_links = 1, posix_user_id = 0, posix_group_id = 0, posix_serial_number = 7\<rparr>
         \<and> unpack_L (slice s 8 12) = swab_32bit (posix_file_mode \<lparr>posix_file_mode = 33060, posix_file_links = 1, posix_user_id = 0, posix_group_id = 0, posix_serial_number = 7\<rparr>)
         \<and> unpack_L (slice s 12 16) = posix_file_links \<lparr>posix_file_mode = 33060, posix_file_links = 1, posix_user_id = 0, posix_group_id = 0, posix_serial_number = 7\<rparr>
         \<and> unpack_L (slice s 16 20) = swab_32bit (posix_file_links \<lparr>posix_file_mode = 33060, posix_file_links = 1, posix_user_id = 0, posix_group_id = 0, posix_serial_number = 7\<rparr>)
         \<and> unpack_L (slice s 20 24) = posix_user_id \<lparr>posix_file_mode = 33060, posix_file_links = 1, posix_user_id = 0, posix_group_id = 0, posix_serial_number = 7\<rparr>
         \<and> unpack_L (slice s 24 28) = swab_32bit (posix_user_id \<lparr>posix_file_mode = 33060, posix_file_links = 1, posix_user_id = 0, posix_group_id = 0, posix_serial_number = 7\<rparr>)
         \<and> unpack_L (slice s 28 32) = posix_group_id \<lparr>posix_file_mode = 33060, posix_file_links = 1, posix_user_id = 0, posix_group_id = 0, posix_serial_number = 7\<rparr>
         \<and> unpack_L (slice s 32 36) = swab_32bit (posix_group_id \<lparr>posix_file_mode = 33060, posix_file_links = 1, posix_user_id = 0, posix_group_id = 0, posix_serial_number = 7\<rparr>)
         \<and> (''1.12'' \<noteq> ''1.09'' \<and>
              unpack_L (slice s 36 40) = posix_serial_number \<lparr>posix_file_mode = 33060, posix_file_links = 1, posix_user_id = 0, posix_group_id = 0, posix_serial_number = 7\<rparr>
            \<and> unpack_L (slice s 40 44) = swab_32bit (posix_serial_number \<lparr>posix_file_mode = 33060, posix_file_links = 1, posix_user_id = 0, posix_group_id = 0, posix_serial_number = 7\<rparr>))))
   \<and> (dev_t_high \<lparr>dev_t_high = 8, dev_t_low = 1\<rparr> < 4294967296 \<and> dev_t_low \<lparr>dev_t_high = 8, dev_t_low = 1\<rparr> < 4294967296 \<and>
      (\<exists>s. RRPNRecord_record \<lparr>dev_t_high = 8, dev_t_low = 1\<rparr> = Inr s
         \<and> unpack_L (slice s 4 8) = dev_t_high \<lparr>dev_t_high = 8, dev_t_low = 1\<rparr>
         \<and> unpack_L (slice s 8 12) = swab_32bit (dev_t_high \<lparr>dev_t_high = 8, dev_t_low = 1\<rparr>)
         \<and> unpack_L (slice s 12 16) = dev_t_low \<lparr>dev_t_high = 8, dev_t_low = 1\<rparr>
         \<and> unpack_L (slice s 16 20) = swab_32bit (dev_t_low \<lparr>dev_t_high = 8, dev_t_low = 1\<rparr>)))
   \<and> (RockRidgeContinuation_extent_location (continuation_entry (\<lparr>continuation_entry = RockRidgeContinuation_init\<lparr>new_extent_loc := Some 30, continue_length := 26\<rparr>\<rparr> :: unit RRCERecord)) = Inr (30::nat)
        \<and> (30::nat) < 4294967296 \<and> continue_offset (continuation_entry (\<lparr>continuation_entry = RockRidgeContinuation_init\<lparr>new_extent_loc := Some 30, continue_length := 26\<rparr>\<rparr> :: unit RRCERecord)) < 4294967296
        \<and> continue_length (continuation_entry (\<lparr>continuation_entry = RockRidgeContinuation_init\<lparr>new_extent_loc := Some 30, continue_length := 26\<rparr>\<rparr> :: unit RRCERecord)) < 4294967296 \<and>
      (\<exists>s. RRCERecord_record (\<lparr>continuation_entry = RockRidgeContinuation_init\<lparr>new_extent_loc := Some 30, continue_length := 26\<rparr>\<rparr> :: unit RRCERecord) = Inr s
         \<and> unpack_L (slice s 4 8) = (30::nat)
         \<and> unpack_L (slice s 8 12) = swab_32bit (30::nat)
         \<and> unpack_L (slice s 12 16) = continue_offset (continuation_entry (\<lparr>continuation_entry = RockRidgeContinuation_init\<lparr>new_extent_loc := Some 30, continue_length := 26\<rparr>\<rparr> :: unit RRCERecord))
         \<and> unpack_L (slice s 16 20) = swab_32bit (continue_offset (continuation_entry (\<lparr>continuation_entry = RockRidgeContinuation_init\<lparr>new_extent_loc := Some 30, continue_length := 26\<rparr>\<rparr> :: unit RRCERecord)))
         \<and> unpack_L (slice s 20 24) = continue_length (continuation_entry (\<lparr>continuation_entry = RockRidgeContinuation_init\<lparr>new_extent_loc := Some 30, continue_length := 26\<rparr>\<rparr> :: unit RRCERecord))
         \<and> unpack_L (slice s 24 28) = swab_32bit (continue_length (continuation_entry (\<lparr>continuation_entry = RockRidgeContinuation_init\<lparr>new_extent_loc := Some 30, continue_length := 26\<rparr>\<rparr> :: unit RRCERecord)))))
   \<and> (virtual_file_size_high \<lparr>virtual_file_size_high = 0, virtual_file_size_low = 4096, table_depth = 1\<rparr> < 4294967296 \<and> virtual_file_size_low \<lparr>virtual_file_size_high = 0, virtual_file_size_low = 4096, table_depth = 1\<rparr> < 4294967296
        \<and> table_depth \<lparr>virtual_file_size_high = 0, virtual_file_size_low = 4096, table_depth = 1\<rparr> < 256 \<and>
      (\<exists>s. RRSFRecord_record \<lparr>virtual_file_size_high = 0, virtual_file_size_low = 4096, table_depth = 1\<rparr> = Inr s
         \<and> unpack_L (slice s 4 8) = virtual_file_size_high \<lparr>virtual_file_size_high = 0, virtual_file_size_low = 4096, table_depth = 1\<rparr>
         \<and> unpack_L (slice s 8 12) = swab_32bit (virtual_file_size_high \<lparr>virtual_file_size_high = 0, virtual_file_size_low = 4096, table_depth = 1\<rparr>)
         \<and> unpack_L (slice s 12 16) = virtual_file_size_low \<lparr>virtual_file_size_high = 0, virtual_file_size_low = 4096, table_depth = 1\<rparr>
         \<and> unpack_L (slice s 16 20) = swab_32bit (virtual_file_size_low \<lparr>virtual_file_size_high = 0, virtual_file_size_low = 4096, table_depth = 1\<rparr>)))
   \<and> (unpack_L (slice (''CL'' @ [CHR 0x0C, CHR 0x01, CHR 0x18, CHR 0x00, CHR 0x00, CHR 0x00, CHR 0x00, CHR 0x00, CHR 0x00, CHR 0x00]) 8 12) \<noteq> swab_32bit (unpack_L (slice (''CL'' @ [CHR 0x0C, CHR 0x01, CHR 0x18, CHR 0x00, CHR 0x00, CHR 0x00, CHR 0x00, CHR 0x00, CHR 0x00, CHR 0x00]) 4 8)) \<and>
      (\<exists>e. RRCLRecord_parse (''CL'' @ [CHR 0x0C, CHR 0x01, CHR 0x18, CHR 0x00, CHR 0x00, CHR 0x00, CHR 0x00, CHR 0x00, CHR 0x00, CHR 0x00]) = Inl e) \<and> (\<exists>e. RRPLRecord_parse (''CL'' @ [CHR 0x0C, CHR 0x01, CHR 0x18, CHR 0x00, CHR 0x00, CHR 0x00, CHR 0x00, CHR 0x00, CHR 0x00, CHR 0x00]) = Inl e))
   \<and> ((1::nat) < 4294967296 \<and> (2::nat) < 4294967296 \<and> (3::nat) < 4294967296 \<and> (4::nat) < 4294967296 \<and>
      RRPXRecord_parse (''PX'' @ [char_of (36::nat), CHR 0x01] @ pack_L (1::nat) @ [CHR 0x00, CHR 0x00, CHR 0x00, CHR 0x00]
           @ pack_L (2::nat) @ [CHR 0x00, CHR 0x00, CHR 0x00, CHR 0x00] @ pack_L (3::nat) @ [CHR 0x00, CHR 0x00, CHR 0x00, CHR 0x00]
           @ pack_L (4::nat) @ [CHR 0x00, CHR 0x00, CHR 0x00, CHR 0x00] @ [])
        = Inr \<lparr>posix_file_mode = (1::nat), posix_file_links = (2::nat), posix_user_id = (3::nat),
               posix_group_id = (4::nat), posix_serial_number = 0\<rparr>
    \<and> RRPNRecord_parse (''PN'' @ [char_of RRPNRecord_length, CHR 0x01] @ pack_L (1::nat) @ [CHR 0x00, CHR 0x00, CHR 0x00, CHR 0x00]
           @ pack_L (2::nat) @ [CHR 0x00, CHR 0x00, CHR 0x00, CHR 0x00] @ [])
        = Inr \<lparr>dev_t_high = (1::nat), dev_t_low = (2::nat)\<rparr>
    \<and> RRCERecord_parse (''CE'' @ [char_of RRCERecord_length, CHR 0x01] @ pack_L (1::nat) @ [CHR 0x00, CHR 0x00, CHR 0x00, CHR 0x00]
           @ pack_L (2::nat) @ [CHR 0x00, CHR 0x00, CHR 0x00, CHR 0x00] @ pack_L (3::nat) @ [CHR 0x00, CHR 0x00, CHR 0x00, CHR 0x00] @ [])
        = Inr (\<lparr>continuation_entry = RockRidgeContinuation_init
                  \<lparr>orig_extent_loc := Some (1::nat), continue_offset := (2::nat), continue_length := (3::nat)\<rparr>\<rparr>
               :: unit RRCERecord)
    \<and> RRSFRecord_parse (''SF'' @ [char_of RRSFRecord_length, CHR 0x01] @ pack_L (1::nat) @ [CHR 0x00, CHR 0x00, CHR 0x00, CHR 0x00]
           @ pack_L (2::nat) @ [CHR 0x00, CHR 0x00, CHR 0x00, CHR 0x00] @ [CHR 0x00] @ [])
        = Inr \<lparr>virtual_file_size_high = (1::nat), virtual_file_size_low = (2::nat),
               table_depth = of_char CHR 0x00\<rparr>)
   \<and> ((1::nat) < 4294967296 \<and> (2::nat) < 4294967296 \<and> (3::nat) < 4294967296 \<and> (4::nat) < 4294967296
        \<and> (5::nat) < 4294967296 \<and>
      RRPXRecord_parse (''PX'' @ [char_of (44::nat), CHR 0x01] @ pack_L (1::nat) @ [CHR 0x00, CHR 0x00, CHR 0x00, CHR 0x00]
           @ pack_L (2::nat) @ [CHR 0x00, CHR 0x00, CHR 0x00, CHR 0x00] @ pack_L (3::nat) @ [CHR 0x00, CHR 0x00, CHR 0x00, CHR 0x00]
           @ pack_L (4::nat) @ [CHR 0x00, CHR 0x00, CHR 0x00, CHR 0x00] @ pack_L (5::nat) @ [CHR 0x00, CHR 0x00, CHR 0x00, CHR 0x00] @ [])
        = Inr \<lparr>posix_file_mode = (1::nat), posix_file_links = (2::nat), posix_user_id = (3::nat),
               posix_group_id = (4::nat), posix_serial_number = (5::nat)\<rparr>)"
proof -
  have loc: "RockRidgeContinuation_extent_location (continuation_entry (\<lparr>continuation_entry = RockRidgeContinuation_init\<lparr>new_extent_loc := Some 30, continue_length := 26\<rparr>\<rparr> :: unit RRCERecord)) = Inr 30"
    "continue_offset (continuation_entry (\<lparr>continuation_entry = RockRidgeContinuation_init\<lparr>new_extent_loc := Some 30, continue_length := 26\<rparr>\<rparr> :: unit RRCERecord)) = 0"
    "continue_length (continuation_entry (\<lparr>continuation_entry = RockRidgeContinuation_init\<lparr>new_extent_loc := Some 30, continue_length := 26\<rparr>\<rparr> :: unit RRCERecord)) = 26"
    by (simp_all add: RockRidgeContinuation_extent_location_def RockRidgeContinuation_init_def)
  have mismatch: "unpack_L (slice (''CL'' @ [CHR 0x0C, CHR 0x01, CHR 0x18, CHR 0x00, CHR 0x00, CHR 0x00, CHR 0x00, CHR 0x00, CHR 0x00, CHR 0x00]) 8 12) \<noteq> swab_32bit (unpack_L (slice (''CL'' @ [CHR 0x0C, CHR 0x01, CHR 0x18, CHR 0x00, CHR 0x00, CHR 0x00, CHR 0x00, CHR 0x00, CHR 0x00, CHR 0x00]) 4 8))"
    by (simp add: slice_def unpack_L_def swab_32bit_def pack_L_def)
  from loc mismatch dual_endian_fields
    [where cl = "\<lparr>child_log_block_num = 24\<rparr>"
       and pl = "\<lparr>parent_log_block_num = 25\<rparr>"
       and px = "\<lparr>posix_file_mode = 33060, posix_file_links = 1, posix_user_id = 0, posix_group_id = 0, posix_serial_number = 7\<rparr>"
       and rr_version = "''1.12''"
       and pn = "\<lparr>dev_t_high = 8, dev_t_low = 1\<rparr>"
       and ce = "\<lparr>continuation_entry = RockRidgeContinuation_init\<lparr>new_extent_loc := Some 30, continue_length := 26\<rparr>\<rparr> :: unit RRCERecord"
       and loc = "30::nat"
       and sf = "\<lparr>virtual_file_size_high = 0, virtual_file_size_low = 4096, table_depth = 1\<rparr>"
       and rrstr = "''CL'' @ [CHR 0x0C, CHR 0x01, CHR 0x18, CHR 0x00, CHR 0x00, CHR 0x00, CHR 0x00, CHR 0x00, CHR 0x00, CHR 0x00]"
       and va = "1::nat"
       and vb = "2::nat"
       and vc = "3::nat"
       and vd = "4::nat"
       and ve = "5::nat"
       and oa = "CHR 0x00"
       and ob = "CHR 0x00"
       and oc = "CHR 0x00"
       and od = "CHR 0x00"
       and ver = "CHR 0x01"
       and rest = "[]"
       and ka = "CHR 0x00"
       and kb = "CHR 0x00"
       and kc = "CHR 0x00"
       and kd = "CHR 0x00"
       and la = "CHR 0x00"
       and lb = "CHR 0x00"
       and lc = "CHR 0x00"
       and ld = "CHR 0x00"
       and ma = "CHR 0x00"
       and mb = "CHR 0x00"
       and mc = "CHR 0x00"
       and md = "CHR 0x00"
       and na = "CHR 0x00"
       and nb = "CHR 0x00"
       and nc = "CHR 0x00"
       and nd = "CHR 0x00"]
  show ?thesis
    by simp
qed

subsection \<open>The canonical order of serialisation\<close>

lemma join_records_append:
  "join_records (xs @ ys) =
     (case join_records xs of
        Inl e \<Rightarrow> Inl e
      | Inr a \<Rightarrow> (case join_records ys of Inl e \<Rightarrow> Inl e | Inr b \<Rightarrow> Inr (a @ b)))"
  by (induction xs) (auto split: sum.splits)

lemma join_records_map_Inr: "join_records (map Inr xs) = Inr (concat xs)"
  by (induction xs) auto

text \<open>
  Claim C8. For every initialised entry, of a directory record or of a continuation,
  \<open>record()\<close> emits the records that are present in the fixed order SP, RR, NM, PX, the SL
  records in list order, TF, CL, PL, RE, CE, ER; an absent record contributes no bytes; and
  the output does not depend on the order in which the records were put into the entry.
  The theorem speaks of any entry whose present records can be encoded, with the bytes
  \<open>sp\<close>, \<open>rr\<close>, and so on, of each; its last part fills the same records into the slots in
  the reverse and in the canonical order.
\<close>

theorem record_canonical_order:
  fixes self :: "('c RRCERecord, 'm) RockRidgeBase_scheme"
  assumes "initialized self"
    and "record_of RRSPRecord_record (sp_record self) = Inr sp"
    and "record_of RRRRRecord_record (rr_record self) = Inr rr"
    and "record_of RRNMRecord_record (nm_record self) = Inr nm"
    and "record_of (\<lambda>r. RRPXRecord_record r ''1.09'') (px_record self) = Inr px"
    and "map RRSLRecord_record (sl_records self) = map Inr sls"
    and "record_of RRTFRecord_record (tf_record self) = Inr tf"
    and "record_of RRCLRecord_record (cl_record self) = Inr cl"
    and "record_of RRPLRecord_record (pl_record self) = Inr pl"
    and "record_of RRRERecord_record (re_record self) = Inr re"
    and "record_of RRCERecord_record (ce_record self) = Inr ce"
    and "record_of RRERRecord_record (er_record self) = Inr er"
  shows "RockRidgeBase_record self
           = Inr (sp @ rr @ nm @ px @ concat sls @ tf @ cl @ pl @ re @ ce @ er)
         \<and> (sp_record self = None \<longrightarrow> sp = []) \<and> (rr_record self = None \<longrightarrow> rr = [])
         \<and> (nm_record self = None \<longrightarrow> nm = []) \<and> (px_record self = None \<longrightarrow> px = [])
         \<and> (sl_records self = [] \<longrightarrow> concat sls = [])
         \<and> (tf_record self = None \<longrightarrow> tf = []) \<and> (cl_record self = None \<longrightarrow> cl = [])
         \<and> (pl_record self = None \<longrightarrow> pl = []) \<and> (re_record self = None \<longrightarrow> re = [])
         \<and> (ce_record self = None \<longrightarrow> ce = []) \<and> (er_record self = None \<longrightarrow> er = [])
         \<and> RockRidgeBase_record
               (self\<lparr>er_record := slot_er, ce_record := slot_ce, re_record := slot_re, pl_record := slot_pl,
                     cl_record := slot_cl, tf_record := slot_tf, sl_records := slot_sl, px_record := slot_px,
                     nm_record := slot_nm, rr_record := slot_rr, sp_record := slot_sp\<rparr>)
             = RockRidgeBase_record
               (self\<lparr>sp_record := slot_sp, rr_record := slot_rr, nm_record := slot_nm, px_record := slot_px,
                     sl_records := slot_sl, tf_record := slot_tf, cl_record := slot_cl, pl_record := slot_pl,
                     re_record := slot_re, ce_record := slot_ce, er_record := slot_er\<rparr>)"
proof -
  have "RockRidgeBase_record self
           = Inr (sp @ rr @ nm @ px @ concat sls @ tf @ cl @ pl @ re @ ce @ er)"
    using assms
    by (simp add: RockRidgeBase_record_def join_records_append join_records_map_Inr)
  moreover have "RockRidgeBase_record
               (self\<lparr>er_record := slot_er, ce_record := slot_ce, re_record := slot_re, pl_record := slot_pl,
                     cl_record := slot_cl, tf_record := slot_tf, sl_records := slot_sl, px_record := slot_px,
                     nm_record := slot_nm, rr_record := slot_rr, sp_record := slot_sp\<rparr>)
             = RockRidgeBase_record
               (self\<lparr>sp_record := slot_sp, rr_record := slot_rr, nm_record := slot_nm, px_record := slot_px,
                     sl_records := slot_sl, tf_record := slot_tf, cl_record := slot_cl, pl_record := slot_pl,
                     re_record := slot_re, ce_record := slot_ce, er_record := slot_er\<rparr>)"
    by (simp add: RockRidgeBase_record_def)
  ultimately show ?thesis
    using assms by (auto simp add: record_of_def)
qed


theorem record_canonical_order_witness:
  "initialized (RockRidgeBase_init\<lparr>initialized := True, re_record := Some RRRERecord,
       sl_records := [\<lparr>symlink_components = [''a''], flags = 0\<rparr>],
       nm_record := Some (RRNMRecord_new ''foo'')\<rparr> :: RockRidge)
   \<and> RockRidgeBase_record (RockRidgeBase_init\<lparr>initialized := True, re_record := Some RRRERecord,
       sl_records := [\<lparr>symlink_components = [''a''], flags = 0\<rparr>],
       nm_record := Some (RRNMRecord_new ''foo'')\<rparr> :: RockRidge)
     = Inr (''NM'' @ [CHR 0x08, CHR 0x01, CHR 0x00] @ ''foo''
            @ ''SL'' @ [CHR 0x08, CHR 0x01, CHR 0x00, CHR 0x00, CHR 0x01] @ ''a''
            @ ''RE'' @ [CHR 0x04, CHR 0x01])"
proof -
  let ?e = "RockRidgeBase_init\<lparr>initialized := True, re_record := Some RRRERecord,
       sl_records := [\<lparr>symlink_components = [''a''], flags = 0\<rparr>],
       nm_record := Some (RRNMRecord_new ''foo'')\<rparr> :: RockRidge"
  have i: "initialized ?e" by simp
  have sp: "record_of RRSPRecord_record (sp_record ?e) = Inr []"
    and rr: "record_of RRRRRecord_record (rr_record ?e) = Inr []"
    and nm: "record_of RRNMRecord_record (nm_record ?e)
               = Inr (''NM'' @ [CHR 0x08, CHR 0x01, CHR 0x00] @ ''foo'')"
    and px: "record_of (\<lambda>r. RRPXRecord_record r ''1.09'') (px_record ?e) = Inr []"
    and sl: "map RRSLRecord_record (sl_records ?e)
               = map Inr [''SL'' @ [CHR 0x08, CHR 0x01, CHR 0x00, CHR 0x00, CHR 0x01] @ ''a'']"
    and tf: "record_of RRTFRecord_record (tf_record ?e) = Inr []"
    and cl: "record_of RRCLRecord_record (cl_record ?e) = Inr []"
    and pl: "record_of RRPLRecord_record (pl_record ?e) = Inr []"
    and re: "record_of RRRERecord_record (re_record ?e) = Inr (''RE'' @ [CHR 0x04, CHR 0x01])"
    and ce: "record_of RRCERecord_record (ce_record ?e) = Inr []"
    and er: "record_of RRERRecord_record (er_record ?e) = Inr []"
    by (simp_all add: record_of_def RockRidgeBase_init_def RRNMRecord_record_def RRNMRecord_new_def
          RRNMRecord_length_def RRSLRecord_record_def RRSLRecord_component_length_def
          RRRERecord_record_def RRRERecord_length_def SU_ENTRY_VERSION_def char_eval)
  from record_canonical_order [OF i sp rr nm px sl tf cl pl re ce er] i show ?thesis
    by simp
qed

subsection \<open>Round trips of the record codecs\<close>

text \<open>One lemma for each record type: if \<open>record()\<close> returns the bytes \<open>s\<close>, what \<open>parse\<close>
  returns on \<open>s\<close>. Each follows from \<open>struct_unpack_pack\<close>: \<open>struct.unpack\<close> reads back the
  values that \<open>struct.pack\<close> has written with the same format.\<close>

lemma RRCL_roundtrip:
  assumes "RRCLRecord_record r = Inr s"
  shows "RRCLRecord_parse s = Inr r"
proof -
  from assms obtain p where
    p: "struct_pack ''BBLL'' [RRCLRecord_length, SU_ENTRY_VERSION, child_log_block_num r,
          swab_32bit (child_log_block_num r)] = Inr p" and s: "s = ''CL'' @ p"
    by (auto simp add: RRCLRecord_record_def split: sum.splits)
  from struct_pack_length [OF p] have "slice s 2 12 = p"
    by (simp add: s slice_def)
  with struct_unpack_pack [OF p] have
    u: "struct_unpack ''BBLL'' (slice s 2 12) = Inr [RRCLRecord_length, SU_ENTRY_VERSION,
          child_log_block_num r, swab_32bit (child_log_block_num r)]"
    by simp
  from struct_pack_range [OF p] have "child_log_block_num r < 4294967296"
    by simp
  then show ?thesis
    unfolding RRCLRecord_parse_def u by (simp add: swab_swab)
qed

lemma RRSP_roundtrip:
  assumes "RRSPRecord_record r = Inr s"
  shows "RRSPRecord_parse s = Inr r"
proof -
  from assms obtain p where
    p: "struct_pack ''BBBBB'' [RRSPRecord_length, SU_ENTRY_VERSION, 0xbe, 0xef, bytes_to_skip r] = Inr p" and s: "s = ''SP'' @ p"
    by (auto simp add: RRSPRecord_record_def split: sum.splits)
  from struct_pack_length [OF p] have "slice s 2 7 = p"
    by (simp add: s slice_def)
  with struct_unpack_pack [OF p] have
    u: "struct_unpack ''BBBBB'' (slice s 2 7) = Inr [RRSPRecord_length, SU_ENTRY_VERSION, 0xbe, 0xef, bytes_to_skip r]"
    by simp
  show ?thesis
    unfolding RRSPRecord_parse_def u by (simp add: RRSPRecord_length_def)
qed

lemma RRRR_roundtrip:
  assumes "RRRRRecord_record r = Inr s"
  shows "RRRRRecord_parse s = Inr r"
proof -
  from assms obtain p where
    p: "struct_pack ''BBB'' [RRRRRecord_length, SU_ENTRY_VERSION, rr_flags r] = Inr p" and s: "s = ''RR'' @ p"
    by (auto simp add: RRRRRecord_record_def split: sum.splits)
  from struct_pack_length [OF p] have "slice s 2 5 = p"
    by (simp add: s slice_def)
  with struct_unpack_pack [OF p] have
    u: "struct_unpack ''BBB'' (slice s 2 5) = Inr [RRRRRecord_length, SU_ENTRY_VERSION, rr_flags r]"
    by simp
  show ?thesis
    unfolding RRRRRecord_parse_def u by (simp add: RRRRRecord_length_def)
qed

lemma RRES_roundtrip:
  assumes "RRESRecord_record r = Inr s"
  shows "RRESRecord_parse s = Inr r"
proof -
  from assms obtain p where
    p: "struct_pack ''BBB'' [RRESRecord_length, SU_ENTRY_VERSION, extension_sequence r] = Inr p" and s: "s = ''ES'' @ p"
    by (auto simp add: RRESRecord_record_def split: sum.splits)
  from struct_pack_length [OF p] have "slice s 2 5 = p"
    by (simp add: s slice_def)
  with struct_unpack_pack [OF p] have
    u: "struct_unpack ''BBB'' (slice s 2 5) = Inr [RRESRecord_length, SU_ENTRY_VERSION, extension_sequence r]"
    by simp
  show ?thesis
    unfolding RRESRecord_parse_def u by (simp add: RRESRecord_length_def)
qed

lemma RRPN_roundtrip:
  assumes "RRPNRecord_record r = Inr s"
  shows "RRPNRecord_parse s = Inr r"
proof -
  from assms obtain p where
    p: "struct_pack ''BBLLLL'' [RRPNRecord_length, SU_ENTRY_VERSION, dev_t_high r, swab_32bit (dev_t_high r),
          dev_t_low r, swab_32bit (dev_t_low r)] = Inr p" and s: "s = ''PN'' @ p"
    by (auto simp add: RRPNRecord_record_def split: sum.splits)
  from struct_pack_length [OF p] have "slice s 2 20 = p"
    by (simp add: s slice_def)
  with struct_unpack_pack [OF p] have
    u: "struct_unpack ''BBLLLL'' (slice s 2 20) = Inr [RRPNRecord_length, SU_ENTRY_VERSION, dev_t_high r, swab_32bit (dev_t_high r),
          dev_t_low r, swab_32bit (dev_t_low r)]"
    by simp
  show ?thesis
    unfolding RRPNRecord_parse_def u by (simp add: RRPNRecord_length_def)
qed

lemma RRPL_roundtrip:
  assumes "RRPLRecord_record r = Inr s"
  shows "RRPLRecord_parse s = Inr r"
proof -
  from assms obtain p where
    p: "struct_pack ''BBLL'' [RRPLRecord_length, SU_ENTRY_VERSION, parent_log_block_num r,
          swab_32bit (parent_log_block_num r)] = Inr p" and s: "s = ''PL'' @ p"
    by (auto simp add: RRPLRecord_record_def split: sum.splits)
  from struct_pack_length [OF p] have "slice s 2 12 = p"
    by (simp add: s slice_def)
  with struct_unpack_pack [OF p] have
    u: "struct_unpack ''BBLL'' (slice s 2 12) = Inr [RRPLRecord_length, SU_ENTRY_VERSION, parent_log_block_num r,
          swab_32bit (parent_log_block_num r)]"
    by simp
  from struct_pack_range [OF p] have "parent_log_block_num r < 4294967296"
    by simp
  then show ?thesis
    unfolding RRPLRecord_parse_def u by (simp add: RRPLRecord_length_def swab_swab)
qed

lemma RRSF_roundtrip:
  assumes "RRSFRecord_record r = Inr s"
  shows "RRSFRecord_parse s = Inr r"
proof -
  from assms obtain p where
    p: "struct_pack ''BBLLLLB'' [RRSFRecord_length, SU_ENTRY_VERSION,
          virtual_file_size_high r, swab_32bit (virtual_file_size_high r),
          virtual_file_size_low r, swab_32bit (virtual_file_size_low r), table_depth r] = Inr p" and s: "s = ''SF'' @ p"
    by (auto simp add: RRSFRecord_record_def split: sum.splits)
  from struct_pack_length [OF p] have "slice s 2 21 = p"
    by (simp add: s slice_def)
  with struct_unpack_pack [OF p] have
    u: "struct_unpack ''BBLLLLB'' (slice s 2 21) = Inr [RRSFRecord_length, SU_ENTRY_VERSION,
          virtual_file_size_high r, swab_32bit (virtual_file_size_high r),
          virtual_file_size_low r, swab_32bit (virtual_file_size_low r), table_depth r]"
    by simp
  show ?thesis
    unfolding RRSFRecord_parse_def u by (simp add: RRSFRecord_length_def)
qed

lemma RRRE_roundtrip:
  assumes "RRRERecord_record r = Inr s"
  shows "RRRERecord_parse s = Inr r"
proof -
  from assms obtain p where
    p: "struct_pack ''BB'' [RRRERecord_length, SU_ENTRY_VERSION] = Inr p" and s: "s = ''RE'' @ p"
    by (auto simp add: RRRERecord_record_def split: sum.splits)
  from struct_pack_length [OF p] have "slice s 2 4 = p"
    by (simp add: s slice_def)
  with struct_unpack_pack [OF p] have
    u: "struct_unpack ''BB'' (slice s 2 4) = Inr [RRRERecord_length, SU_ENTRY_VERSION]"
    by simp
  show ?thesis
    unfolding RRRERecord_parse_def u by (cases r) (simp add: RRRERecord_length_def)
qed

lemma slice_middle: "length pre = i \<Longrightarrow> slice (pre @ x @ post) i (i + length x) = x"
  by (simp add: slice_def)

lemma RRNM_roundtrip:
  assumes "RRNMRecord_record r = Inr s"
    and "(posix_name_flags r AND 7) \<in> set [0, 1, 2, 4]"
    and "posix_name r \<noteq> [] \<longrightarrow>
           \<not> bit (posix_name_flags r) 1 \<and> \<not> bit (posix_name_flags r) 2
           \<and> \<not> bit (posix_name_flags r) 5"
  shows "RRNMRecord_parse s = Inr r"
proof -
  from assms(1) obtain p where
    p: "struct_pack ''BBB'' [RRNMRecord_length (posix_name r), SU_ENTRY_VERSION, posix_name_flags r] = Inr p"
    and s: "s = ''NM'' @ p @ posix_name r"
    by (auto simp add: RRNMRecord_record_def split: sum.splits)
  from struct_pack_length [OF p] have l: "length p = 3" by simp
  then have "slice s 2 5 = p"
    by (simp add: s slice_def)
  with struct_unpack_pack [OF p] have
    u: "struct_unpack ''BBB'' (slice s 2 5)
          = Inr [RRNMRecord_length (posix_name r), SU_ENTRY_VERSION, posix_name_flags r]"
    by simp
  from l have n: "slice s 5 (RRNMRecord_length (posix_name r)) = posix_name r"
    by (simp add: s slice_def RRNMRecord_length_def)
  show ?thesis
    unfolding RRNMRecord_parse_def u using assms(2,3) n
    by (cases "posix_name r = []") (simp_all add: Let_def RRNMRecord_length_def)
qed

lemma RRER_roundtrip:
  assumes "RRERRecord_record r = Inr s"
  shows "RRERRecord_parse s = Inr r"
proof -
  let ?i = "ext_id r" and ?d = "ext_des r" and ?c = "ext_src r"
  from assms obtain p where
    p: "struct_pack ''BBBBBB'' [RRERRecord_length ?i ?d ?c, SU_ENTRY_VERSION,
          length ?i, length ?d, length ?c, 1] = Inr p"
    and s: "s = ''ER'' @ p @ ?i @ ?d @ ?c"
    by (auto simp add: RRERRecord_record_def split: sum.splits)
  from struct_pack_length [OF p] have l: "length p = 6" by simp
  then have "slice s 2 8 = p"
    by (simp add: s slice_def)
  with struct_unpack_pack [OF p] have
    u: "struct_unpack ''BBBBBB'' (slice s 2 8) = Inr [RRERRecord_length ?i ?d ?c, SU_ENTRY_VERSION,
          length ?i, length ?d, length ?c, 1]"
    by simp
  have 1: "slice s 8 (8 + length ?i) = ?i"
    using slice_middle [of "''ER'' @ p" 8 ?i "?d @ ?c"] l by (simp add: s)
  have 2: "slice s (8 + length ?i) (8 + length ?i + length ?d) = ?d"
    using slice_middle [of "''ER'' @ p @ ?i" "8 + length ?i" ?d ?c] l by (simp add: s)
  have 3: "slice s (8 + length ?i + length ?d) (8 + length ?i + length ?d + length ?c) = ?c"
    using slice_middle [of "''ER'' @ p @ ?i @ ?d" "8 + length ?i + length ?d" ?c "[]"] l
    by (simp add: s)
  show ?thesis
    unfolding RRERRecord_parse_def u using 1 2 3
    by (cases "?d = []") (simp_all add: Let_def)
qed

lemma RRCE_parse_record:
  assumes "RRCERecord_record ce = Inr s"
  shows "\<exists>loc. RockRidgeContinuation_extent_location (continuation_entry ce) = Inr loc
           \<and> RRCERecord_parse s
               = Inr \<lparr>continuation_entry = RockRidgeContinuation_init
                        \<lparr>orig_extent_loc := Some loc,
                         continue_offset := continue_offset (continuation_entry ce),
                         continue_length := continue_length (continuation_entry ce)\<rparr>\<rparr>"
proof -
  let ?o = "continue_offset (continuation_entry ce)" and ?l = "continue_length (continuation_entry ce)"
  from assms obtain loc p where
    loc: "RockRidgeContinuation_extent_location (continuation_entry ce) = Inr loc"
    and p: "struct_pack ''BBLLLLLL'' [RRCERecord_length, SU_ENTRY_VERSION, loc, swab_32bit loc,
              ?o, swab_32bit ?o, ?l, swab_32bit ?l] = Inr p"
    and s: "s = ''CE'' @ p"
    by (auto simp add: RRCERecord_record_def Let_def RockRidgeContinuation_offset_def
          RockRidgeContinuation_length_def split: sum.splits)
  from struct_pack_length [OF p] have "slice s 2 28 = p"
    by (simp add: s slice_def)
  with struct_unpack_pack [OF p] have
    u: "struct_unpack ''BBLLLLLL'' (slice s 2 28) = Inr [RRCERecord_length, SU_ENTRY_VERSION, loc,
          swab_32bit loc, ?o, swab_32bit ?o, ?l, swab_32bit ?l]"
    by simp
  have "RRCERecord_parse s
               = Inr \<lparr>continuation_entry = RockRidgeContinuation_init
                        \<lparr>orig_extent_loc := Some loc, continue_offset := ?o,
                         continue_length := ?l\<rparr>\<rparr>"
    unfolding RRCERecord_parse_def u
    by (simp add: RRCERecord_length_def RockRidgeContinuation_increment_length_def
          RockRidgeContinuation_init_def)
  with loc show ?thesis by blast
qed

declare RRSLRecord_parse_loop.simps [simp del]

lemma record_loop_length:
  "RRSLRecord_record_loop comps = Inr t \<Longrightarrow> RRSLRecord_length comps = 5 + length t"
proof (induction comps arbitrary: t)
  case Nil
  then show ?case by simp
next
  case (Cons c comps)
  then show ?case
    by (auto simp add: RRSLRecord_component_length_def split: if_splits sum.splits)
qed

lemma parse_loop_of_record_loop:
  "RRSLRecord_record_loop comps = Inr t \<Longrightarrow> length pre = off \<Longrightarrow>
   RRSLRecord_parse_loop (pre @ t @ post) off [] (int (length t)) acc = Inr (acc @ comps)"
proof (induction comps arbitrary: t pre off acc)
  case Nil
  then show ?case by (simp add: RRSLRecord_parse_loop.simps)
next
  case (Cons c comps)
  from Cons.prems(1) obtain hd t' where
    t': "RRSLRecord_record_loop comps = Inr t'" and t: "t = hd @ t'"
    and hd: "hd = (if c = ''.'' then [char_of (2::nat), char_of (0::nat)]
                  else if c = ''..'' then [char_of (4::nat), char_of (0::nat)]
                  else if c = ''/'' then [char_of (8::nat), char_of (0::nat)]
                  else [char_of (0::nat), char_of (length c)] @ c)"
    and len: "c \<noteq> ''.'' \<and> c \<noteq> ''..'' \<and> c \<noteq> ''/'' \<longrightarrow> length c < 256"
    by (auto split: if_splits sum.splits)
  have IH: "RRSLRecord_parse_loop ((pre @ hd) @ t' @ post) (off + length hd) []
              (int (length t')) (acc @ [c]) = Inr ((acc @ [c]) @ comps)"
    by (rule Cons.IH [OF t']) (simp add: Cons.prems(2))
  show ?case
  proof (cases "c = ''.'' \<or> c = ''..'' \<or> c = ''/''")
    case True
    then show ?thesis
      using IH Cons.prems(2)
      by (subst RRSLRecord_parse_loop.simps) (auto simp add: t hd slice_def bit_Suc_0_iff)
  next
    case False
    with len have "length c < 256" by simp
    with False show ?thesis
      using IH Cons.prems(2)
      by (subst RRSLRecord_parse_loop.simps) (simp add: t hd slice_def bit_Suc_0_iff)
  qed
qed


lemma RRSL_roundtrip:
  assumes "RRSLRecord_record r = Inr s"
  shows "RRSLRecord_parse s = Inr r"
proof -
  let ?c = "symlink_components r"
  from assms obtain p t where
    p: "struct_pack ''BBB'' [RRSLRecord_length ?c, SU_ENTRY_VERSION, flags r] = Inr p"
    and t: "RRSLRecord_record_loop ?c = Inr t" and s: "s = ''SL'' @ p @ t"
    by (auto simp add: RRSLRecord_record_def split: sum.splits)
  from struct_pack_length [OF p] have l: "length p = 3" by simp
  then have "slice s 2 5 = p"
    by (simp add: s slice_def)
  with struct_unpack_pack [OF p] have
    u: "struct_unpack ''BBB'' (slice s 2 5) = Inr [RRSLRecord_length ?c, SU_ENTRY_VERSION, flags r]"
    by simp
  from parse_loop_of_record_loop [OF t, of "''SL'' @ p" 5 "[]" "[]"] l
  have "RRSLRecord_parse_loop s 5 [] (int (length t)) [] = Inr ?c"
    by (simp add: s)
  with record_loop_length [OF t] show ?thesis
    unfolding RRSLRecord_parse_def u by simp
qed

lemma parse_times_of_record:
  assumes "list_all2
             (\<lambda>i d. if bit tflags i
                     then (\<exists>x. d = Some x
                             \<and> date_type x = (if bit tflags 7 then VolumeDescriptorDate
                                               else DirectoryRecordDate)
                             \<and> length (date_bytes x) = (if bit tflags 7 then 17 else 7))
                     else d = None) idx ds"
    and "length pre = off"
  shows "RRTFRecord_parse_times tflags
           (pre @ concat (map (\<lambda>d. case d of None \<Rightarrow> [] | Some x \<Rightarrow> date_record x) ds) @ post)
           idx off = Inr ds"
  using assms
proof (induction idx ds arbitrary: pre off rule: list_all2_induct)
  case Nil
  then show ?case by simp
next
  case (Cons i idx d ds)
  show ?case
  proof (cases "bit tflags i")
    case False
    with Cons.hyps(1) have "d = None" by simp
    with False Cons.IH [OF Cons.prems] show ?thesis
      by simp
  next
    case True
    with Cons.hyps(1) obtain x where d: "d = Some x"
      and ty: "date_type x = (if bit tflags 7 then VolumeDescriptorDate else DirectoryRecordDate)"
      and len: "length (date_bytes x) = (if bit tflags 7 then 17 else 7)"
      by auto
    have IH: "RRTFRecord_parse_times tflags
           ((pre @ date_bytes x) @ concat (map (\<lambda>d. case d of None \<Rightarrow> [] | Some x \<Rightarrow> date_record x) ds) @ post)
           idx (off + length (date_bytes x)) = Inr ds"
      by (rule Cons.IH) (simp add: Cons.prems)
    have sl: "slice (pre @ date_bytes x @ rest) off (off + length (date_bytes x)) = date_bytes x" for rest
      using slice_middle [of pre off "date_bytes x" rest] Cons.prems by simp
    from True d ty len IH sl show ?thesis
      by (cases "bit tflags 7")
         (simp_all add: date_parse_def date_length_def date_record_def Let_def)
  qed
qed

lemma RRTF_roundtrip:
  assumes "RRTFRecord_record r = Inr s"
    and "list_all2
             (\<lambda>i d. if bit (time_flags r) i
                     then (\<exists>x. d = Some x
                             \<and> date_type x = (if bit (time_flags r) 7 then VolumeDescriptorDate
                                               else DirectoryRecordDate)
                             \<and> length (date_bytes x) = (if bit (time_flags r) 7 then 17 else 7))
                     else d = None)
             [0, 1, 2, 3, 4, 5, 6]
             [creation_time r, access_time r, modification_time r, attribute_change_time r,
              backup_time r, expiration_time r, effective_time r]"
  shows "RRTFRecord_parse s = Inr r"
proof -
  let ?ds = "[creation_time r, access_time r, modification_time r, attribute_change_time r,
              backup_time r, expiration_time r, effective_time r]"
  let ?enc = "\<lambda>d. case d of None \<Rightarrow> [] | Some x \<Rightarrow> date_record x"
  from assms(1) obtain p where
    p: "struct_pack ''BBB'' [RRTFRecord_length (time_flags r), SU_ENTRY_VERSION, time_flags r] = Inr p"
    and s: "s = (''TF'' @ p) @ concat (map ?enc ?ds) @ []"
    by (auto simp add: RRTFRecord_record_def Let_def split: sum.splits)
  from struct_pack_length [OF p] have l: "length p = 3" by simp
  then have "slice s 2 5 = p"
    by (simp add: s slice_def)
  with struct_unpack_pack [OF p] have
    u: "struct_unpack ''BBB'' (slice s 2 5)
          = Inr [RRTFRecord_length (time_flags r), SU_ENTRY_VERSION, time_flags r]"
    by simp
  have t: "RRTFRecord_parse_times (time_flags r) s [0, 1, 2, 3, 4, 5, 6] 5 = Inr ?ds"
    unfolding s by (rule parse_times_of_record [OF assms(2)]) (simp add: l)
  have "5 \<le> RRTFRecord_length (time_flags r)"
    by (simp add: RRTFRecord_length_def Let_def)
  then show ?thesis
    using t unfolding RRTFRecord_parse_def u
    by (simp add: Let_def del: RRTFRecord_parse_times.simps)
qed

lemma struct_pack_B:
  assumes "struct_pack (CHR ''B'' # fs) (v # vs) = Inr p"
  shows "\<exists>q. p = char_of v # q \<and> v < 256 \<and> struct_pack fs vs = Inr q"
  using assms by (auto split: if_splits sum.splits)

lemma RRPX_record_shape:
  assumes "RRPXRecord_record r rr_version = Inr s"
  shows "\<exists>q t. s = ''PX'' @ [char_of (36::nat), char_of (1::nat)] @ q @ t
           \<and> struct_pack ''LLLLLLLL''
                [posix_file_mode r, swab_32bit (posix_file_mode r),
                 posix_file_links r, swab_32bit (posix_file_links r),
                 posix_user_id r, swab_32bit (posix_user_id r),
                 posix_group_id r, swab_32bit (posix_group_id r)] = Inr q"
proof -
  let ?vs = "[posix_file_mode r, swab_32bit (posix_file_mode r),
              posix_file_links r, swab_32bit (posix_file_links r),
              posix_user_id r, swab_32bit (posix_user_id r),
              posix_group_id r, swab_32bit (posix_group_id r)]"
  let ?P = "struct_pack ''BBLLLLLLLL'' (RRPXRecord_length ''1.09'' # SU_ENTRY_VERSION # ?vs)"
  obtain p where p: "?P = Inr p"
  proof (cases ?P)
    case (Inl e)
    with assms show ?thesis
      unfolding RRPXRecord_record_def by (simp del: struct_pack.simps)
  next
    case (Inr p)
    then show ?thesis by (rule that)
  qed
  from assms obtain t where s: "s = ''PX'' @ p @ t"
    unfolding RRPXRecord_record_def p
    by (auto simp del: struct_pack.simps split: if_splits sum.splits)
  from struct_pack_B [OF p] obtain p' where p': "p = char_of (RRPXRecord_length ''1.09'') # p'"
    and q0: "struct_pack ''BLLLLLLLL'' (SU_ENTRY_VERSION # ?vs) = Inr p'"
    by blast
  from struct_pack_B [OF q0] obtain q where q': "p' = char_of SU_ENTRY_VERSION # q"
    and q: "struct_pack ''LLLLLLLL'' ?vs = Inr q"
    by blast
  have "s = ''PX'' @ [char_of (36::nat), char_of (1::nat)] @ q @ t"
    unfolding s p' q' by (simp add: RRPXRecord_length_def SU_ENTRY_VERSION_def)
  with q show ?thesis
    by blast
qed


lemma struct_unpack_length_byte:
  "struct_unpack ''BB'' [char_of (36::nat), char_of (1::nat)] = Inr [36, 1]"
proof -
  have "struct_pack ''BB'' [36, 1] = Inr [char_of (36::nat), char_of (1::nat)]"
    by simp
  from struct_unpack_pack [OF this] show ?thesis .
qed

lemma RRPX_parse_record:
  assumes "RRPXRecord_record r rr_version = Inr s"
  shows "RRPXRecord_parse s = Inr (r\<lparr>posix_serial_number := 0\<rparr>)"
proof -
  let ?vs = "[posix_file_mode r, swab_32bit (posix_file_mode r),
              posix_file_links r, swab_32bit (posix_file_links r),
              posix_user_id r, swab_32bit (posix_user_id r),
              posix_group_id r, swab_32bit (posix_group_id r)]"
  from RRPX_record_shape [OF assms] obtain q t
    where s: "s = ''PX'' @ [char_of (36::nat), char_of (1::nat)] @ q @ t"
      and q: "struct_pack ''LLLLLLLL'' ?vs = Inr q"
    by blast
  from struct_pack_length [OF q] have len: "length q = 32"
    by simp
  have h: "slice s 2 4 = [char_of (36::nat), char_of (1::nat)]"
    unfolding s by (simp add: slice_def)
  have "slice s 4 36 = q"
    unfolding s using len by (simp add: slice_def)
  with struct_unpack_pack [OF q] have u: "struct_unpack ''LLLLLLLL'' (slice s 4 36) = Inr ?vs"
    by simp
  show ?thesis
    unfolding RRPXRecord_parse_def h struct_unpack_length_byte u by (cases r) simp
qed

lemmas enc_defs = RRSPRecord_record_def RRSPRecord_new_def RRSPRecord_length_def
  RRRRRecord_record_def RRRRRecord_length_def RRERRecord_record_def RRERRecord_new_def
  RRERRecord_length_def EXT_ID_def EXT_DES_def EXT_SRC_def RRESRecord_record_def
  RRESRecord_length_def RRPNRecord_record_def RRPNRecord_length_def RRSLRecord_record_def
  RRSLRecord_component_length_def RRNMRecord_record_def RRNMRecord_set_continued_def
  RRNMRecord_new_def RRNMRecord_length_def RRCLRecord_record_def RRCLRecord_length_def
  RRPLRecord_record_def RRPLRecord_length_def RRTFRecord_record_def RRTFRecord_new_def
  RRSFRecord_record_def RRSFRecord_length_def RRRERecord_record_def RRRERecord_length_def
  RRCERecord_record_def RRCERecord_length_def RockRidgeContinuation_extent_location_def
  RockRidgeContinuation_offset_def RockRidgeContinuation_length_def
  RockRidgeContinuation_init_def SU_ENTRY_VERSION_def Let_def swab_32bit_less
  RRPXRecord_record_def RRPXRecord_length_def

text \<open>
  Claim C2. For every record type and every valid value \<open>v\<close> of that type, parsing the
  bytes that \<open>v.record()\<close> produces yields a value equal to \<open>v\<close>; in particular for the
  variable-length SL, NM, ER and TF codecs as well as the fixed-length ones.

  The theorem takes every record type in turn, for every value that \<open>record()\<close> can encode
  (\<open>struct.pack\<close> raises on a field that does not fit its width), with the result of
  \<open>record()\<close> named \<open>b_sp\<close>, \<open>b_rr\<close>, and so on. For SP, RR, ER, ES, PN, SL, CL, PL, SF and RE
  the decoder returns the value. For NM and TF it does so on the values that the decoder
  itself takes as valid: NM flags that pass the two tests of \<open>RRNMRecord.parse\<close>, and a TF
  record that holds exactly the times its flags name, each of the form (7 or 17 bytes)
  that bit 7 of the flags selects. For CE the decoder returns a fresh continuation with the
  encoded extent as \<open>orig_extent_loc\<close> and the encoded offset and length, so that
  \<open>extent_location()\<close>, \<open>offset()\<close> and \<open>length()\<close> are those of \<open>v\<close>; the records and the
  \<open>new_extent_loc\<close> that the continuation of \<open>v\<close> holds are not part of the bytes of the CE
  record.

  For PX the code does not do what the claim says: the decoded value has the serial number
  0, whatever the serial number of \<open>v\<close> and whatever the version. \<open>RRPXRecord.record\<close> writes
  \<open>RRPXRecord.length()\<close> into the length byte without passing its \<open>rr_version\<close> on, so the
  44-byte record of version 1.12 declares the length 36, and \<open>RRPXRecord.parse\<close> reads a
  record of declared length 36 as the form without serial number. The example after the
  theorem decodes a 44-byte PX record with the serial number 7, encodes the value for
  version 1.12 and decodes the result.
\<close>

theorem record_roundtrip:
  "(RRSPRecord_record sp = Inr b_sp \<longrightarrow> RRSPRecord_parse b_sp = Inr sp)
   \<and> (RRRRRecord_record rr = Inr b_rr \<longrightarrow> RRRRRecord_parse b_rr = Inr rr)
   \<and> (RRERRecord_record er = Inr b_er \<longrightarrow> RRERRecord_parse b_er = Inr er)
   \<and> (RRESRecord_record es = Inr b_es \<longrightarrow> RRESRecord_parse b_es = Inr es)
   \<and> (RRPNRecord_record pn = Inr b_pn \<longrightarrow> RRPNRecord_parse b_pn = Inr pn)
   \<and> (RRSLRecord_record sl = Inr b_sl \<longrightarrow> RRSLRecord_parse b_sl = Inr sl)
   \<and> (RRNMRecord_record nm = Inr b_nm
        \<and> (posix_name_flags nm AND 7) \<in> set [0, 1, 2, 4]
        \<and> (posix_name nm \<noteq> [] \<longrightarrow>
             \<not> bit (posix_name_flags nm) 1 \<and> \<not> bit (posix_name_flags nm) 2
             \<and> \<not> bit (posix_name_flags nm) 5)
        \<longrightarrow> RRNMRecord_parse b_nm = Inr nm)
   \<and> (RRCLRecord_record cl = Inr b_cl \<longrightarrow> RRCLRecord_parse b_cl = Inr cl)
   \<and> (RRPLRecord_record pl = Inr b_pl \<longrightarrow> RRPLRecord_parse b_pl = Inr pl)
   \<and> (RRTFRecord_record tf = Inr b_tf
        \<and> list_all2
             (\<lambda>i d. if bit (time_flags tf) i
                     then (\<exists>x. d = Some x
                             \<and> date_type x = (if bit (time_flags tf) 7 then VolumeDescriptorDate
                                               else DirectoryRecordDate)
                             \<and> length (date_bytes x) = (if bit (time_flags tf) 7 then 17 else 7))
                     else d = None)
             [0, 1, 2, 3, 4, 5, 6]
             [creation_time tf, access_time tf, modification_time tf, attribute_change_time tf,
              backup_time tf, expiration_time tf, effective_time tf]
        \<longrightarrow> RRTFRecord_parse b_tf = Inr tf)
   \<and> (RRSFRecord_record sf = Inr b_sf \<longrightarrow> RRSFRecord_parse b_sf = Inr sf)
   \<and> (RRRERecord_record re = Inr b_re \<longrightarrow> RRRERecord_parse b_re = Inr re)
   \<and> (RRCERecord_record ce = Inr b_ce \<longrightarrow>
        (\<exists>loc. RockRidgeContinuation_extent_location (continuation_entry ce) = Inr loc
           \<and> RRCERecord_parse b_ce
               = Inr (\<lparr>continuation_entry = RockRidgeContinuation_init
                        \<lparr>orig_extent_loc := Some loc,
                         continue_offset := continue_offset (continuation_entry ce),
                         continue_length := continue_length (continuation_entry ce)\<rparr>\<rparr>
                      :: 'c RRCERecord)))
   \<and> (RRPXRecord_record px rr_version = Inr b_px \<longrightarrow>
        RRPXRecord_parse b_px = Inr (px\<lparr>posix_serial_number := 0\<rparr>))"
proof (intro conjI impI; (elim conjE)?)
  show "RRNMRecord_parse b_nm = Inr nm"
    if "RRNMRecord_record nm = Inr b_nm" and "(posix_name_flags nm AND 7) \<in> set [0, 1, 2, 4]"
      and "posix_name nm \<noteq> [] \<longrightarrow>
             \<not> bit (posix_name_flags nm) 1 \<and> \<not> bit (posix_name_flags nm) 2
             \<and> \<not> bit (posix_name_flags nm) 5"
    using that by (rule RRNM_roundtrip)
qed (rule RRPX_parse_record RRSP_roundtrip RRRR_roundtrip RRER_roundtrip RRES_roundtrip RRPN_roundtrip
      RRSL_roundtrip RRCL_roundtrip RRPL_roundtrip RRTF_roundtrip RRSF_roundtrip RRRE_roundtrip
      RRCE_parse_record; assumption)+

theorem record_roundtrip_witness:
  "(\<exists>s. RRSPRecord_record RRSPRecord_new = Inr s \<and> RRSPRecord_parse s = Inr RRSPRecord_new)
   \<and> (\<exists>s. RRRRRecord_record \<lparr>rr_flags = 0x89\<rparr> = Inr s \<and> RRRRRecord_parse s = Inr \<lparr>rr_flags = 0x89\<rparr>)
   \<and> (\<exists>s. RRERRecord_record (RRERRecord_new EXT_ID EXT_DES EXT_SRC) = Inr s \<and> RRERRecord_parse s = Inr (RRERRecord_new EXT_ID EXT_DES EXT_SRC))
   \<and> (\<exists>s. RRESRecord_record \<lparr>extension_sequence = 0\<rparr> = Inr s \<and> RRESRecord_parse s = Inr \<lparr>extension_sequence = 0\<rparr>)
   \<and> (\<exists>s. RRPNRecord_record \<lparr>dev_t_high = 8, dev_t_low = 1\<rparr> = Inr s \<and> RRPNRecord_parse s = Inr \<lparr>dev_t_high = 8, dev_t_low = 1\<rparr>)
   \<and> (\<exists>s. RRSLRecord_record \<lparr>symlink_components = ['''', ''usr'', ''..'', ''bin''], flags = 0\<rparr> = Inr s \<and> RRSLRecord_parse s = Inr \<lparr>symlink_components = ['''', ''usr'', ''..'', ''bin''], flags = 0\<rparr>)
   \<and> (\<exists>s. RRNMRecord_record (RRNMRecord_set_continued (RRNMRecord_new ''foo'')) = Inr s \<and> RRNMRecord_parse s = Inr (RRNMRecord_set_continued (RRNMRecord_new ''foo'')))
   \<and> (\<exists>s. RRCLRecord_record \<lparr>child_log_block_num = 24\<rparr> = Inr s \<and> RRCLRecord_parse s = Inr \<lparr>child_log_block_num = 24\<rparr>)
   \<and> (\<exists>s. RRPLRecord_record \<lparr>parent_log_block_num = 25\<rparr> = Inr s \<and> RRPLRecord_parse s = Inr \<lparr>parent_log_block_num = 25\<rparr>)
   \<and> (\<exists>s. RRTFRecord_record (RRTFRecord_new TF_FLAGS epoch_clock) = Inr s \<and> RRTFRecord_parse s = Inr (RRTFRecord_new TF_FLAGS epoch_clock))
   \<and> (\<exists>s. RRSFRecord_record \<lparr>virtual_file_size_high = 0, virtual_file_size_low = 4096, table_depth = 1\<rparr> = Inr s \<and> RRSFRecord_parse s = Inr \<lparr>virtual_file_size_high = 0, virtual_file_size_low = 4096, table_depth = 1\<rparr>)
   \<and> (\<exists>s. RRRERecord_record RRRERecord = Inr s \<and> RRRERecord_parse s = Inr RRRERecord)
   \<and> (\<exists>s. RRCERecord_record (\<lparr>continuation_entry = RockRidgeContinuation_init\<lparr>new_extent_loc := Some 30, continue_length := 26\<rparr>\<rparr> :: unit RRCERecord) = Inr s
        \<and> RRCERecord_parse s = Inr (\<lparr>continuation_entry = RockRidgeContinuation_init\<lparr>orig_extent_loc := Some 30, continue_offset := 0, continue_length := 26\<rparr>\<rparr> :: unit RRCERecord))
   \<and> (\<exists>s. RRPXRecord_record \<lparr>posix_file_mode = 33060, posix_file_links = 1, posix_user_id = 0, posix_group_id = 0, posix_serial_number = 0\<rparr> ''1.12'' = Inr s
        \<and> RRPXRecord_parse s = Inr \<lparr>posix_file_mode = 33060, posix_file_links = 1, posix_user_id = 0, posix_group_id = 0, posix_serial_number = 0\<rparr>)"
proof -
  obtain b_sp where sp: "RRSPRecord_record RRSPRecord_new = Inr b_sp"
    by (simp add: enc_defs)
  obtain b_rr where rr: "RRRRRecord_record \<lparr>rr_flags = 0x89\<rparr> = Inr b_rr"
    by (simp add: enc_defs)
  obtain b_er where er: "RRERRecord_record (RRERRecord_new EXT_ID EXT_DES EXT_SRC) = Inr b_er"
    by (simp add: enc_defs)
  obtain b_es where es: "RRESRecord_record \<lparr>extension_sequence = 0\<rparr> = Inr b_es"
    by (simp add: enc_defs)
  obtain b_pn where pn: "RRPNRecord_record \<lparr>dev_t_high = 8, dev_t_low = 1\<rparr> = Inr b_pn"
    by (simp add: enc_defs)
  obtain b_sl where sl: "RRSLRecord_record \<lparr>symlink_components = ['''', ''usr'', ''..'', ''bin''], flags = 0\<rparr> = Inr b_sl"
    by (simp add: enc_defs)
  obtain b_nm where nm: "RRNMRecord_record (RRNMRecord_set_continued (RRNMRecord_new ''foo'')) = Inr b_nm"
    by (simp add: enc_defs)
  obtain b_cl where cl: "RRCLRecord_record \<lparr>child_log_block_num = 24\<rparr> = Inr b_cl"
    by (simp add: enc_defs)
  obtain b_pl where pl: "RRPLRecord_record \<lparr>parent_log_block_num = 25\<rparr> = Inr b_pl"
    by (simp add: enc_defs)
  obtain b_tf where tf: "RRTFRecord_record (RRTFRecord_new TF_FLAGS epoch_clock) = Inr b_tf"
    by (simp add: enc_defs)
  obtain b_sf where sf: "RRSFRecord_record \<lparr>virtual_file_size_high = 0, virtual_file_size_low = 4096, table_depth = 1\<rparr> = Inr b_sf"
    by (simp add: enc_defs)
  obtain b_re where re: "RRRERecord_record RRRERecord = Inr b_re"
    by (simp add: enc_defs)
  obtain b_ce where ce: "RRCERecord_record (\<lparr>continuation_entry = RockRidgeContinuation_init\<lparr>new_extent_loc := Some 30, continue_length := 26\<rparr>\<rparr> :: unit RRCERecord) = Inr b_ce"
    by (simp add: enc_defs)
  obtain b_px where px: "RRPXRecord_record \<lparr>posix_file_mode = 33060, posix_file_links = 1, posix_user_id = 0, posix_group_id = 0, posix_serial_number = 0\<rparr> ''1.12'' = Inr b_px"
    by (simp add: enc_defs)
  have nmv: "(posix_name_flags (RRNMRecord_set_continued (RRNMRecord_new ''foo'')) AND 7) \<in> set [0, 1, 2, 4]"
    by (simp add: RRNMRecord_set_continued_def RRNMRecord_new_def)
  have nmw: "posix_name (RRNMRecord_set_continued (RRNMRecord_new ''foo'')) \<noteq> [] \<longrightarrow>
             \<not> bit (posix_name_flags (RRNMRecord_set_continued (RRNMRecord_new ''foo''))) 1
             \<and> \<not> bit (posix_name_flags (RRNMRecord_set_continued (RRNMRecord_new ''foo''))) 2
             \<and> \<not> bit (posix_name_flags (RRNMRecord_set_continued (RRNMRecord_new ''foo''))) 5"
    by (simp add: RRNMRecord_set_continued_def RRNMRecord_new_def bit_Suc_0_iff)
  have tfv: "list_all2
             (\<lambda>i d. if bit (time_flags (RRTFRecord_new TF_FLAGS epoch_clock)) i
                     then (\<exists>x. d = Some x
                             \<and> date_type x = (if bit (time_flags (RRTFRecord_new TF_FLAGS epoch_clock)) 7 then VolumeDescriptorDate
                                               else DirectoryRecordDate)
                             \<and> length (date_bytes x) = (if bit (time_flags (RRTFRecord_new TF_FLAGS epoch_clock)) 7 then 17 else 7))
                     else d = None)
             [0, 1, 2, 3, 4, 5, 6]
             [creation_time (RRTFRecord_new TF_FLAGS epoch_clock), access_time (RRTFRecord_new TF_FLAGS epoch_clock),
              modification_time (RRTFRecord_new TF_FLAGS epoch_clock), attribute_change_time (RRTFRecord_new TF_FLAGS epoch_clock),
              backup_time (RRTFRecord_new TF_FLAGS epoch_clock), expiration_time (RRTFRecord_new TF_FLAGS epoch_clock),
              effective_time (RRTFRecord_new TF_FLAGS epoch_clock)]"
    by (simp add: RRTFRecord_new_def Let_def date_new_def epoch_clock_def date_length_def)
  have loc: "RockRidgeContinuation_extent_location (continuation_entry (\<lparr>continuation_entry = RockRidgeContinuation_init\<lparr>new_extent_loc := Some 30, continue_length := 26\<rparr>\<rparr> :: unit RRCERecord)) = Inr 30"
    by (simp add: RockRidgeContinuation_extent_location_def RockRidgeContinuation_init_def)
  note T = record_roundtrip
    [where sp = "RRSPRecord_new"
       and rr = "\<lparr>rr_flags = 0x89\<rparr>"
       and er = "RRERRecord_new EXT_ID EXT_DES EXT_SRC"
       and es = "\<lparr>extension_sequence = 0\<rparr>"
       and pn = "\<lparr>dev_t_high = 8, dev_t_low = 1\<rparr>"
       and sl = "\<lparr>symlink_components = ['''', ''usr'', ''..'', ''bin''], flags = 0\<rparr>"
       and nm = "RRNMRecord_set_continued (RRNMRecord_new ''foo'')"
       and cl = "\<lparr>child_log_block_num = 24\<rparr>"
       and pl = "\<lparr>parent_log_block_num = 25\<rparr>"
       and tf = "RRTFRecord_new TF_FLAGS epoch_clock"
       and sf = "\<lparr>virtual_file_size_high = 0, virtual_file_size_low = 4096, table_depth = 1\<rparr>"
       and re = "RRRERecord"
       and b_sp = b_sp
       and b_rr = b_rr
       and b_er = b_er
       and b_es = b_es
       and b_pn = b_pn
       and b_sl = b_sl
       and b_nm = b_nm
       and b_cl = b_cl
       and b_pl = b_pl
       and b_tf = b_tf
       and b_sf = b_sf
       and b_re = b_re
       and ce = "\<lparr>continuation_entry = RockRidgeContinuation_init\<lparr>new_extent_loc := Some 30, continue_length := 26\<rparr>\<rparr> :: unit RRCERecord"
       and b_ce = b_ce
       and px = "\<lparr>posix_file_mode = 33060, posix_file_links = 1, posix_user_id = 0, posix_group_id = 0, posix_serial_number = 0\<rparr>"
       and rr_version = "''1.12''"
       and b_px = b_px]
  note p_sp = T [THEN conjunct1, THEN mp, OF sp]
  note p_rr = T [THEN conjunct2, THEN conjunct1, THEN mp, OF rr]
  note p_er = T [THEN conjunct2, THEN conjunct2, THEN conjunct1, THEN mp, OF er]
  note p_es = T [THEN conjunct2, THEN conjunct2, THEN conjunct2, THEN conjunct1, THEN mp, OF es]
  note p_pn = T [THEN conjunct2, THEN conjunct2, THEN conjunct2, THEN conjunct2, THEN conjunct1,
      THEN mp, OF pn]
  note p_sl = T [THEN conjunct2, THEN conjunct2, THEN conjunct2, THEN conjunct2, THEN conjunct2,
      THEN conjunct1, THEN mp, OF sl]
  note p_nm = T [THEN conjunct2, THEN conjunct2, THEN conjunct2, THEN conjunct2, THEN conjunct2,
      THEN conjunct2, THEN conjunct1, THEN mp, OF conjI [OF nm conjI [OF nmv nmw]]]
  note p_cl = T [THEN conjunct2, THEN conjunct2, THEN conjunct2, THEN conjunct2, THEN conjunct2,
      THEN conjunct2, THEN conjunct2, THEN conjunct1, THEN mp, OF cl]
  note p_pl = T [THEN conjunct2, THEN conjunct2, THEN conjunct2, THEN conjunct2, THEN conjunct2,
      THEN conjunct2, THEN conjunct2, THEN conjunct2, THEN conjunct1, THEN mp, OF pl]
  note p_tf = T [THEN conjunct2, THEN conjunct2, THEN conjunct2, THEN conjunct2, THEN conjunct2,
      THEN conjunct2, THEN conjunct2, THEN conjunct2, THEN conjunct2, THEN conjunct1, THEN mp,
      OF conjI [OF tf tfv]]
  note p_sf = T [THEN conjunct2, THEN conjunct2, THEN conjunct2, THEN conjunct2, THEN conjunct2,
      THEN conjunct2, THEN conjunct2, THEN conjunct2, THEN conjunct2, THEN conjunct2,
      THEN conjunct1, THEN mp, OF sf]
  note p_re = T [THEN conjunct2, THEN conjunct2, THEN conjunct2, THEN conjunct2, THEN conjunct2,
      THEN conjunct2, THEN conjunct2, THEN conjunct2, THEN conjunct2, THEN conjunct2,
      THEN conjunct2, THEN conjunct1, THEN mp, OF re]
  note q_ce = T [THEN conjunct2, THEN conjunct2, THEN conjunct2, THEN conjunct2, THEN conjunct2,
      THEN conjunct2, THEN conjunct2, THEN conjunct2, THEN conjunct2, THEN conjunct2,
      THEN conjunct2, THEN conjunct2, THEN conjunct1, THEN mp, OF ce]
  note q_px = T [THEN conjunct2, THEN conjunct2, THEN conjunct2, THEN conjunct2, THEN conjunct2,
      THEN conjunct2, THEN conjunct2, THEN conjunct2, THEN conjunct2, THEN conjunct2,
      THEN conjunct2, THEN conjunct2, THEN conjunct2, THEN mp, OF px]
  from q_ce loc have p_ce: "RRCERecord_parse b_ce = Inr (\<lparr>continuation_entry = RockRidgeContinuation_init\<lparr>orig_extent_loc := Some 30, continue_offset := 0, continue_length := 26\<rparr>\<rparr> :: unit RRCERecord)"
    by (auto simp add: RockRidgeContinuation_init_def)
  from q_px have p_px: "RRPXRecord_parse b_px = Inr \<lparr>posix_file_mode = 33060, posix_file_links = 1, posix_user_id = 0, posix_group_id = 0, posix_serial_number = 0\<rparr>"
    by simp
  from sp rr er es pn sl nm cl pl tf sf re ce px
    p_sp p_rr p_er p_es p_pn p_sl p_nm p_cl p_pl p_tf p_sf p_re p_ce p_px
  show ?thesis
    by blast
qed

theorem PX_roundtrip_loses_serial_number:
  "RRPXRecord_parse
     (''PX'' @ [CHR 0x2C, CHR 0x01,
        CHR 0x24, CHR 0x81, CHR 0x00, CHR 0x00,  CHR 0x00, CHR 0x00, CHR 0x81, CHR 0x24,
        CHR 0x01, CHR 0x00, CHR 0x00, CHR 0x00,  CHR 0x00, CHR 0x00, CHR 0x00, CHR 0x01,
        CHR 0x00, CHR 0x00, CHR 0x00, CHR 0x00,  CHR 0x00, CHR 0x00, CHR 0x00, CHR 0x00,
        CHR 0x00, CHR 0x00, CHR 0x00, CHR 0x00,  CHR 0x00, CHR 0x00, CHR 0x00, CHR 0x00,
        CHR 0x07, CHR 0x00, CHR 0x00, CHR 0x00,  CHR 0x00, CHR 0x00, CHR 0x00, CHR 0x07])
     = Inr \<lparr>posix_file_mode = 33060, posix_file_links = 1, posix_user_id = 0,
            posix_group_id = 0, posix_serial_number = 7\<rparr>
   \<and> RRPXRecord_record
         \<lparr>posix_file_mode = 33060, posix_file_links = 1, posix_user_id = 0,
          posix_group_id = 0, posix_serial_number = 7\<rparr> ''1.12''
       = Inr (''PX'' @ [CHR 0x24, CHR 0x01,
           CHR 0x24, CHR 0x81, CHR 0x00, CHR 0x00,  CHR 0x00, CHR 0x00, CHR 0x81, CHR 0x24,
           CHR 0x01, CHR 0x00, CHR 0x00, CHR 0x00,  CHR 0x00, CHR 0x00, CHR 0x00, CHR 0x01,
           CHR 0x00, CHR 0x00, CHR 0x00, CHR 0x00,  CHR 0x00, CHR 0x00, CHR 0x00, CHR 0x00,
           CHR 0x00, CHR 0x00, CHR 0x00, CHR 0x00,  CHR 0x00, CHR 0x00, CHR 0x00, CHR 0x00,
           CHR 0x07, CHR 0x00, CHR 0x00, CHR 0x00,  CHR 0x00, CHR 0x00, CHR 0x00, CHR 0x07])
   \<and> RRPXRecord_parse
         (''PX'' @ [CHR 0x24, CHR 0x01,
           CHR 0x24, CHR 0x81, CHR 0x00, CHR 0x00,  CHR 0x00, CHR 0x00, CHR 0x81, CHR 0x24,
           CHR 0x01, CHR 0x00, CHR 0x00, CHR 0x00,  CHR 0x00, CHR 0x00, CHR 0x00, CHR 0x01,
           CHR 0x00, CHR 0x00, CHR 0x00, CHR 0x00,  CHR 0x00, CHR 0x00, CHR 0x00, CHR 0x00,
           CHR 0x00, CHR 0x00, CHR 0x00, CHR 0x00,  CHR 0x00, CHR 0x00, CHR 0x00, CHR 0x00,
           CHR 0x07, CHR 0x00, CHR 0x00, CHR 0x00,  CHR 0x00, CHR 0x00, CHR 0x00, CHR 0x07])
       = Inr \<lparr>posix_file_mode = 33060, posix_file_links = 1, posix_user_id = 0,
              posix_group_id = 0, posix_serial_number = 0\<rparr>"
  by (simp add: RRPXRecord_parse_def RRPXRecord_record_def RRPXRecord_length_def
        SU_ENTRY_VERSION_def slice_def pack_L_def unpack_L_def swab_32bit_def char_eval)

end
